theory Spec2Isabelle
  imports Main "HOL-Library.AList"
begin

section \<open>Python values\<close>

text \<open>
  The values that \<^verbatim>\<open>json.load\<close> returns and that the store functions of
  \<^verbatim>\<open>main.py\<close> build and return. A Python \<^verbatim>\<open>dict\<close> is an association list in
  insertion order; \<^verbatim>\<open>d[k]\<close> reads the first entry of key \<open>k\<close> and
  \<^verbatim>\<open>d[k] = v\<close> replaces it in place or appends a new entry. A \<^verbatim>\<open>str\<close> is the
  list of its UTF-8 bytes. JSON numbers with a fraction are outside the model.
\<close>

datatype pyval =
    PNone
  | PBool bool
  | PInt int
  | PStr string
  | PList "pyval list"
  | PDict "(string \<times> pyval) list"

datatype exn =
    FileNotFoundError
  | FileExistsError
  | IsADirectoryError
  | NotADirectoryError
  | PermissionError
  | NameTooLongError
  | ValueError
  | UnicodeDecodeError
  | JSONDecodeError
  | KeyError string
  | TypeError
  | AttributeError

text \<open>
  \<open>NameTooLongError\<close> is the \<^verbatim>\<open>OSError\<close> of errno \<^verbatim>\<open>ENAMETOOLONG\<close>, and
  \<open>ValueError\<close> is what the library raises for a path with a NUL byte.
\<close>

text \<open>
  What the interpreter prints is taken as given: the text of \<^verbatim>\<open>str(e)\<close> for an
  exception, the text of \<^verbatim>\<open>str(v)\<close> for a list or a dict, the text of a JSON
  document as \<^verbatim>\<open>json.dump(v, f, indent=2)\<close> writes it, and \<^verbatim>\<open>str.lower()\<close> on
  a string that has a code point beyond ASCII.
\<close>

record interp =
  exn_text :: "exn \<Rightarrow> string"
  repr_of :: "pyval \<Rightarrow> string"
  json_text :: "pyval \<Rightarrow> string"
  unicode_lower :: "string \<Rightarrow> string"

subsection \<open>Strings\<close>

definition is_ascii :: "char \<Rightarrow> bool" where
  "is_ascii c = ((of_char c :: nat) < 128)"

definition lower_char :: "char \<Rightarrow> char" where
  "lower_char c =
     (case map_of (zip ''ABCDEFGHIJKLMNOPQRSTUVWXYZ'' ''abcdefghijklmnopqrstuvwxyz'') c of
        Some d \<Rightarrow> d
      | None \<Rightarrow> c)"

text \<open>\<^verbatim>\<open>s.lower()\<close>: on an ASCII string the letters A to Z are mapped, nothing else.\<close>

definition str_lower :: "interp \<Rightarrow> string \<Rightarrow> string" where
  "str_lower py s = (if list_all is_ascii s then map lower_char s else unicode_lower py s)"

text \<open>\<^verbatim>\<open>s.replace(a, b)\<close> for one-character \<open>a\<close> and \<open>b\<close>.\<close>

definition replace_char :: "char \<Rightarrow> char \<Rightarrow> string \<Rightarrow> string" where
  "replace_char a b s = map (\<lambda>c. if c = a then b else c) s"

function show_nat :: "nat \<Rightarrow> string" where
  "show_nat n =
     (if n < 10 then [''0123456789'' ! n]
      else show_nat (n div 10) @ [''0123456789'' ! (n mod 10)])"
  by pat_completeness auto
termination
  by (relation "measure (\<lambda>n. n)") auto

declare show_nat.simps [simp del]

text \<open>\<^verbatim>\<open>str(i)\<close> for an \<^verbatim>\<open>int\<close>.\<close>

definition show_int :: "int \<Rightarrow> string" where
  "show_int i = (if i < 0 then CHR ''-'' # show_nat (nat (- i)) else show_nat (nat i))"

text \<open>The value an f-string inserts for \<^verbatim>\<open>{v}\<close>.\<close>

definition py_str :: "interp \<Rightarrow> pyval \<Rightarrow> string" where
  "py_str py v =
     (case v of
        PNone \<Rightarrow> ''None''
      | PBool b \<Rightarrow> (if b then ''True'' else ''False'')
      | PInt i \<Rightarrow> show_int i
      | PStr s \<Rightarrow> s
      | _ \<Rightarrow> repr_of py v)"

text \<open>
  \<^verbatim>\<open>len(v)\<close>: entries of a dict, elements of a list, code points of a string (the bytes
  of its UTF-8 form that are not continuation bytes); \<^verbatim>\<open>TypeError\<close> otherwise.
\<close>

definition py_len :: "pyval \<Rightarrow> exn + int" where
  "py_len v =
     (case v of
        PDict d \<Rightarrow> Inr (int (length (remdups (map fst d))))
      | PList xs \<Rightarrow> Inr (int (length xs))
      | PStr s \<Rightarrow> Inr (int (length (filter (\<lambda>c. (of_char c :: nat) div 64 \<noteq> 2) s)))
      | _ \<Rightarrow> Inl TypeError)"

text \<open>\<^verbatim>\<open>v[k]\<close> for a string key: only a dict can be read this way.\<close>

definition getitem :: "pyval \<Rightarrow> string \<Rightarrow> exn + pyval" where
  "getitem v k =
     (case v of
        PDict d \<Rightarrow> (case map_of d k of None \<Rightarrow> Inl (KeyError k) | Some x \<Rightarrow> Inr x)
      | _ \<Rightarrow> Inl TypeError)"

text \<open>\<^verbatim>\<open>v + 1\<close>: \<^verbatim>\<open>bool\<close> is a subclass of \<^verbatim>\<open>int\<close> in Python.\<close>

definition add_one :: "pyval \<Rightarrow> exn + pyval" where
  "add_one v =
     (case v of
        PInt i \<Rightarrow> Inr (PInt (i + 1))
      | PBool b \<Rightarrow> Inr (PInt ((if b then 1 else 0) + 1))
      | _ \<Rightarrow> Inl TypeError)"

text \<open>
  Reading a file in text mode: the bytes must be UTF-8 as Python's decoder accepts it
  (no overlong form, no surrogate, nothing beyond U+10FFFF), and \<^verbatim>\<open>\r\n\<close> and
  \<^verbatim>\<open>\r\<close> are read as \<^verbatim>\<open>\n\<close>. \<open>utf8_head\<close> is the number of bytes of the code point
  at the head of the list, 0 when there is none.
\<close>

definition cont_byte :: "nat \<Rightarrow> bool" where
  "cont_byte b = (128 \<le> b \<and> b < 192)"

definition utf8_head :: "nat list \<Rightarrow> nat" where
  "utf8_head bs =
     (case bs of
        [] \<Rightarrow> 0
      | a # r \<Rightarrow>
          if a < 128 then 1
          else if 194 \<le> a \<and> a < 224 then
            (case r of b # _ \<Rightarrow> if cont_byte b then 2 else 0 | _ \<Rightarrow> 0)
          else if 224 \<le> a \<and> a < 240 then
            (case r of
               b # c # _ \<Rightarrow>
                 if (if a = 224 then 160 \<le> b \<and> b < 192
                     else if a = 237 then 128 \<le> b \<and> b < 160
                     else cont_byte b) \<and> cont_byte c
                 then 3 else 0
             | _ \<Rightarrow> 0)
          else if 240 \<le> a \<and> a < 245 then
            (case r of
               b # c # d # _ \<Rightarrow>
                 if (if a = 240 then 144 \<le> b \<and> b < 192
                     else if a = 244 then 128 \<le> b \<and> b < 144
                     else cont_byte b) \<and> cont_byte c \<and> cont_byte d
                 then 4 else 0
             | _ \<Rightarrow> 0)
          else 0)"

function utf8_ok :: "nat list \<Rightarrow> bool" where
  "utf8_ok bs =
     (if bs = [] then True
      else if utf8_head bs = 0 then False
      else utf8_ok (drop (utf8_head bs) bs))"
  by pat_completeness auto
termination
  by (relation "measure length") auto

declare utf8_ok.simps [simp del]

fun fold_newlines :: "string \<Rightarrow> string" where
  "fold_newlines [] = []"
| "fold_newlines [c] = (if c = CHR 0x0D then [CHR 0x0A] else [c])"
| "fold_newlines (c # d # cs) =
     (if c = CHR 0x0D then
        (if d = CHR 0x0A then CHR 0x0A # fold_newlines cs
         else CHR 0x0A # fold_newlines (d # cs))
      else c # fold_newlines (d # cs))"

section \<open>The file system\<close>

text \<open>
  A location is the list of directory names from the root. A file holds either a
  JSON document (the value \<^verbatim>\<open>json.load\<close> reads from it) or text that is not one.
  The root is always a directory. What \<^verbatim>\<open>save_to_tool_folder\<close> writes is kept as
  text: the program reads no lesson file as JSON.

  \<open>refused\<close> tells which access the system refuses at a location with
  \<^verbatim>\<open>PermissionError\<close>: \<open>Search\<close> is looking up a name in a directory, \<open>Read\<close> is
  opening a file for reading or listing a directory, \<open>Write\<close> is opening a file that
  exists for writing or adding an entry to a directory. \<open>name_max\<close> is the longest name
  of an entry in bytes and \<open>path_max\<close> the size of the buffer for a path with its
  end marker (255 and 4096 on Linux).
\<close>

type_synonym loc = "string list"

datatype content = Text string | Json pyval

datatype node = Dir | File content

datatype access = Search | Read | Write

record world =
  nodes :: "(loc \<times> node) list"
  cwd :: loc
  refused :: "access \<Rightarrow> loc \<Rightarrow> bool"
  name_max :: nat
  path_max :: nat

definition node_at :: "world \<Rightarrow> loc \<Rightarrow> node option" where
  "node_at w l = (if l = [] then Some Dir else map_of (nodes w) l)"

definition is_dir :: "world \<Rightarrow> loc \<Rightarrow> bool" where
  "is_dir w l = (node_at w l = Some Dir)"

definition put_node :: "world \<Rightarrow> loc \<Rightarrow> node \<Rightarrow> world" where
  "put_node w l n = w\<lparr>nodes := AList.update l n (nodes w)\<rparr>"

subsection \<open>Path strings\<close>

text \<open>\<^verbatim>\<open>p.split('/')\<close>\<close>

fun split_sep :: "string \<Rightarrow> string list" where
  "split_sep [] = [[]]"
| "split_sep (c # cs) =
     (if c = CHR ''/'' then [] # split_sep cs
      else (case split_sep cs of [] \<Rightarrow> [[c]] | x # xs \<Rightarrow> (c # x) # xs))"

text \<open>
  Path resolution as the kernel does it: every name is looked up in a directory that
  exists and may be searched; an empty name and \<^verbatim>\<open>.\<close> stay, \<^verbatim>\<open>..\<close> goes to the
  parent; a name longer than \<open>name_max\<close> is refused. The last name need not exist.
\<close>

fun walk :: "world \<Rightarrow> loc \<Rightarrow> string list \<Rightarrow> exn + loc" where
  "walk w cur [] = Inr cur"
| "walk w cur (c # cs) =
     (case node_at w cur of
        None \<Rightarrow> Inl FileNotFoundError
      | Some (File _) \<Rightarrow> Inl NotADirectoryError
      | Some Dir \<Rightarrow>
          if c = [] then walk w cur cs
          else if refused w Search cur then Inl PermissionError
          else if c = ''.'' then walk w cur cs
          else if c = ''..'' then walk w (butlast cur) cs
          else if name_max w < length c then Inl NameTooLongError
          else walk w (cur @ [c]) cs)"

text \<open>
  What is wrong with a path before any name is looked up: a NUL byte (the library
  raises \<^verbatim>\<open>ValueError\<close> without a system call), the empty path, a path that does not
  fit the buffer.
\<close>

definition path_error :: "world \<Rightarrow> string \<Rightarrow> exn option" where
  "path_error w p =
     (if CHR 0x00 \<in> set p then Some ValueError
      else if p = [] then Some FileNotFoundError
      else if path_max w \<le> length p then Some NameTooLongError
      else None)"

definition locate :: "world \<Rightarrow> string \<Rightarrow> exn + loc" where
  "locate w p =
     (if p \<noteq> [] \<and> hd p = CHR ''/'' then walk w [] (split_sep p)
      else walk w (cwd w) (split_sep p))"

definition resolve :: "world \<Rightarrow> string \<Rightarrow> exn + loc" where
  "resolve w p = (case path_error w p of Some e \<Rightarrow> Inl e | None \<Rightarrow> locate w p)"

definition render :: "loc \<Rightarrow> string" where
  "render l = concat (map (\<lambda>c. CHR ''/'' # c) l)"

text \<open>The path of the working directory, and \<^verbatim>\<open>os.getcwd()\<close>, which raises when the
  working directory is no longer there.\<close>

definition cwd_string :: "world \<Rightarrow> string" where
  "cwd_string w = (if cwd w = [] then ''/'' else render (cwd w))"

definition getcwd :: "world \<Rightarrow> exn + string" where
  "getcwd w = (if is_dir w (cwd w) then Inr (cwd_string w) else Inl FileNotFoundError)"

text \<open>\<^verbatim>\<open>os.path.join(a, b)\<close>\<close>

definition path_join :: "string \<Rightarrow> string \<Rightarrow> string" where
  "path_join a b =
     (if b \<noteq> [] \<and> hd b = CHR ''/'' then b
      else if a = [] \<or> last a = CHR ''/'' then a @ b
      else a @ CHR ''/'' # b)"

definition rstrip_sep :: "string \<Rightarrow> string" where
  "rstrip_sep s = rev (dropWhile (\<lambda>c. c = CHR ''/'') (rev s))"

text \<open>\<^verbatim>\<open>os.path.split(p)\<close>\<close>

definition path_split :: "string \<Rightarrow> string \<times> string" where
  "path_split p =
     (let tail = rev (takeWhile (\<lambda>c. c \<noteq> CHR ''/'') (rev p));
          head = take (length p - length tail) p
      in (if head \<noteq> [] \<and> head \<noteq> replicate (length head) (CHR ''/'')
          then rstrip_sep head else head, tail))"

text \<open>The loop of \<^verbatim>\<open>os.path.normpath\<close> over the names of the path.\<close>

fun norm_comps :: "bool \<Rightarrow> string list \<Rightarrow> string list \<Rightarrow> string list" where
  "norm_comps rooted new_comps [] = new_comps"
| "norm_comps rooted new_comps (c # comps) =
     (if c = [] \<or> c = ''.'' then norm_comps rooted new_comps comps
      else if c \<noteq> ''..'' \<or> (\<not> rooted \<and> new_comps = [])
              \<or> (new_comps \<noteq> [] \<and> last new_comps = ''..'')
        then norm_comps rooted (new_comps @ [c]) comps
      else if new_comps \<noteq> [] then norm_comps rooted (butlast new_comps) comps
      else norm_comps rooted new_comps comps)"

fun join_sep :: "string list \<Rightarrow> string" where
  "join_sep [] = []"
| "join_sep [c] = c"
| "join_sep (c # cs) = c @ CHR ''/'' # join_sep cs"

definition normpath :: "string \<Rightarrow> string" where
  "normpath path =
     (if path = [] then ''.''
      else
        let initial_slashes =
              (if hd path \<noteq> CHR ''/'' then 0
               else if take 2 path = ''//'' \<and> take 3 path \<noteq> ''///'' then 2 else (1::nat));
            comps = norm_comps (initial_slashes \<noteq> 0) [] (split_sep path);
            path' = replicate initial_slashes (CHR ''/'') @ join_sep comps
        in if path' = [] then ''.'' else path')"

text \<open>
  \<^verbatim>\<open>os.path.abspath(path)\<close>: the working directory is asked for only when the path is
  relative.
\<close>

definition abspath :: "world \<Rightarrow> string \<Rightarrow> exn + string" where
  "abspath w path =
     (if path \<noteq> [] \<and> hd path = CHR ''/'' then Inr (normpath path)
      else (case getcwd w of
              Inl e \<Rightarrow> Inl e
            | Inr c \<Rightarrow> Inr (normpath (path_join c path))))"

subsection \<open>Primitives\<close>

text \<open>
  \<^verbatim>\<open>os.path.exists(p)\<close> never raises: the library answers \<^verbatim>\<open>False\<close> for a path it
  cannot examine, whatever the reason (\<^verbatim>\<open>OSError\<close> or \<^verbatim>\<open>ValueError\<close>).
\<close>

definition path_exists :: "world \<Rightarrow> string \<Rightarrow> bool" where
  "path_exists w p = (case resolve w p of Inl _ \<Rightarrow> False | Inr l \<Rightarrow> node_at w l \<noteq> None)"

text \<open>\<^verbatim>\<open>with open(p, 'r') as f\<close>: the content that the file object reads.\<close>

definition read_file :: "world \<Rightarrow> string \<Rightarrow> exn + content" where
  "read_file w p =
     (case resolve w p of
        Inl e \<Rightarrow> Inl e
      | Inr l \<Rightarrow>
          (case node_at w l of
             None \<Rightarrow> Inl FileNotFoundError
           | Some Dir \<Rightarrow> Inl IsADirectoryError
           | Some (File c) \<Rightarrow> if refused w Read l then Inl PermissionError else Inr c))"

text \<open>
  \<^verbatim>\<open>open(p, 'w')\<close>: the location of the file that is opened. A file that exists must
  allow writing; a new file is an entry added to its directory.
\<close>

definition open_write :: "world \<Rightarrow> string \<Rightarrow> exn + loc" where
  "open_write w p =
     (case resolve w p of
        Inl e \<Rightarrow> Inl e
      | Inr l \<Rightarrow>
          (case node_at w l of
             Some Dir \<Rightarrow> Inl IsADirectoryError
           | Some (File _) \<Rightarrow> if refused w Write l then Inl PermissionError else Inr l
           | None \<Rightarrow> if refused w Write (butlast l) then Inl PermissionError else Inr l))"

text \<open>
  \<^verbatim>\<open>with open(p, 'w') as f\<close>, writing the whole file; a failure to open leaves the
  world as it was.
\<close>

definition write_file :: "world \<Rightarrow> string \<Rightarrow> content \<Rightarrow> exn + world" where
  "write_file w p c =
     (case open_write w p of Inl e \<Rightarrow> Inl e | Inr l \<Rightarrow> Inr (put_node w l (File c)))"

text \<open>\<^verbatim>\<open>json.load(f)\<close>\<close>

definition json_load :: "content \<Rightarrow> exn + pyval" where
  "json_load c = (case c of Json v \<Rightarrow> Inr v | Text _ \<Rightarrow> Inl JSONDecodeError)"

text \<open>\<^verbatim>\<open>f.read()\<close> on a file opened with \<^verbatim>\<open>encoding='utf-8'\<close>.\<close>

definition read_text :: "interp \<Rightarrow> content \<Rightarrow> exn + string" where
  "read_text py c =
     (case c of
        Text s \<Rightarrow>
          if utf8_ok (map of_char s) then Inr (fold_newlines s) else Inl UnicodeDecodeError
      | Json v \<Rightarrow> Inr (json_text py v))"

text \<open>\<^verbatim>\<open>os.listdir(p)\<close>\<close>

definition children :: "world \<Rightarrow> loc \<Rightarrow> string list" where
  "children w l = map (\<lambda>(k, n). last k) (filter (\<lambda>(k, n). k \<noteq> [] \<and> butlast k = l) (nodes w))"

definition listdir :: "world \<Rightarrow> string \<Rightarrow> exn + string list" where
  "listdir w p =
     (case resolve w p of
        Inl e \<Rightarrow> Inl e
      | Inr l \<Rightarrow>
          (case node_at w l of
             None \<Rightarrow> Inl FileNotFoundError
           | Some (File _) \<Rightarrow> Inl NotADirectoryError
           | Some Dir \<Rightarrow> if refused w Read l then Inl PermissionError else Inr (children w l)))"

text \<open>
  \<^verbatim>\<open>os.mkdir(p)\<close>: slashes at the end of the path are ignored; the new directory is an
  entry added to its parent.
\<close>

definition mkdir :: "world \<Rightarrow> string \<Rightarrow> (exn + unit) \<times> world" where
  "mkdir w p =
     (case path_error w p of
        Some e \<Rightarrow> (Inl e, w)
      | None \<Rightarrow>
          (case locate w (if rstrip_sep p = [] then p else rstrip_sep p) of
             Inl e \<Rightarrow> (Inl e, w)
           | Inr l \<Rightarrow>
               if node_at w l \<noteq> None then (Inl FileExistsError, w)
               else if refused w Write (butlast l) then (Inl PermissionError, w)
               else (Inr (), put_node w l Dir)))"

definition path_split2 :: "string \<Rightarrow> string \<times> string" where
  "path_split2 name =
     (let (head, tail) = path_split name
      in if tail = [] then path_split head else (head, tail))"

text \<open>
  \<^verbatim>\<open>os.makedirs(name)\<close> as the standard library writes it: the parent is made first when
  it is missing, a \<^verbatim>\<open>FileExistsError\<close> of that step is passed over, then the directory
  itself is made. Directories made before a failure stay.
\<close>

function makedirs :: "world \<Rightarrow> string \<Rightarrow> (exn + unit) \<times> world" where
  "makedirs w name =
     (case path_split2 name of
        (head, tail) \<Rightarrow>
          if head \<noteq> [] \<and> tail \<noteq> [] \<and> \<not> path_exists w head then
            (case makedirs w head of
               (Inl e, w') \<Rightarrow>
                 if e = FileExistsError
                 then (if tail = ''.'' then (Inr (), w') else mkdir w' name)
                 else (Inl e, w')
             | (Inr _, w') \<Rightarrow> if tail = ''.'' then (Inr (), w') else mkdir w' name)
          else mkdir w name)"
  by pat_completeness auto
termination
proof -
  have r: "length (rstrip_sep s) \<le> length s" for s
    unfolding rstrip_sep_def using length_dropWhile_le [of _ "rev s"] by simp
  have len: "length (fst (path_split p)) + length (snd (path_split p)) \<le> length p" for p
  proof -
    define tail where "tail = rev (takeWhile (\<lambda>c. c \<noteq> CHR ''/'') (rev p))"
    define head where "head = take (length p - length tail) p"
    have t: "length tail \<le> length p"
      unfolding tail_def using length_takeWhile_le [of _ "rev p"] by simp
    have h: "length head = length p - length tail"
      unfolding head_def by simp
    have s: "snd (path_split p) = tail"
      unfolding path_split_def tail_def by (simp add: Let_def)
    have "fst (path_split p) = head \<or> fst (path_split p) = rstrip_sep head"
      unfolding path_split_def tail_def head_def by (simp add: Let_def)
    then have "length (fst (path_split p)) \<le> length head"
      using r [of head] by auto
    with s t h show ?thesis by simp
  qed
  have shorter: "length head < length name"
    if "(head, tail) = path_split2 name" "tail \<noteq> []" for name head tail
  proof (cases "snd (path_split name) = []")
    case True
    with that have "path_split (fst (path_split name)) = (head, tail)"
      by (simp add: path_split2_def split: prod.splits)
    with len [of "fst (path_split name)"]
    have "length head + length tail \<le> length (fst (path_split name))" by simp
    with len [of name] that(2) show ?thesis
      by (cases tail) auto
  next
    case False
    with that have "path_split name = (head, tail)"
      by (simp add: path_split2_def split: prod.splits)
    with len [of name] that(2) show ?thesis
      by (cases tail) auto
  qed
  show ?thesis
    by (relation "measure (\<lambda>(w, name). length name)") (auto dest: shorter)
qed

declare makedirs.simps [simp del]

text \<open>\<^verbatim>\<open>with open(p, 'r') as f: json.load(f)\<close> and \<^verbatim>\<open>with open(p, 'w') as f: json.dump(v, f, indent=2)\<close>\<close>

definition load_json :: "world \<Rightarrow> string \<Rightarrow> exn + pyval" where
  "load_json w p = (case read_file w p of Inl e \<Rightarrow> Inl e | Inr c \<Rightarrow> json_load c)"

definition dump_json :: "world \<Rightarrow> string \<Rightarrow> pyval \<Rightarrow> exn + world" where
  "dump_json w p v = write_file w p (Json v)"

text \<open>\<^verbatim>\<open>v[k] = x\<close> for a string key.\<close>

definition setitem :: "pyval \<Rightarrow> string \<Rightarrow> pyval \<Rightarrow> exn + pyval" where
  "setitem v k x =
     (case v of PDict d \<Rightarrow> Inr (PDict (AList.update k x d)) | _ \<Rightarrow> Inl TypeError)"

section \<open>The store functions of main.py\<close>

text \<open>
  Each function is a \<^verbatim>\<open>try\<close> block with an \<^verbatim>\<open>except Exception\<close> handler. The
  block is the function \<open>_body\<close>, whose result is the raised exception (\<open>Inl\<close>) or the
  returned dict (\<open>Inr\<close>), with the world as the block left it; the handler turns the
  exception into the error dict. The readings of \<^verbatim>\<open>datetime.now()\<close> are arguments.
\<close>

definition error_result :: "interp \<Rightarrow> string \<Rightarrow> exn \<Rightarrow> pyval" where
  "error_result py prefix e =
     PDict [(''status'', PStr ''error''), (''error_message'', PStr (prefix @ exn_text py e))]"

subsection \<open>Progress store\<close>

definition progress_file :: "string \<Rightarrow> string" where
  "progress_file user_id = ''progress_'' @ user_id @ ''.json''"

text \<open>
  Lines 128 to 138: the tool entry is made when the name is not in \<^verbatim>\<open>tools\<close>, then the
  milestone is appended. Only a dict for \<^verbatim>\<open>tools\<close> gets through: any other value
  raises \<^verbatim>\<open>TypeError\<close> in the membership test, the assignment or the lookup.
  The number returned is \<^verbatim>\<open>len\<close> of the milestones after the append.
\<close>

definition add_milestone ::
  "pyval \<Rightarrow> string \<Rightarrow> string \<Rightarrow> bool \<Rightarrow> string \<Rightarrow> string \<Rightarrow> exn + (pyval \<times> int)" where
  "add_milestone progress_data tool_name milestone completed t_started t_stamp =
     (case getitem progress_data ''tools'' of
        Inl e \<Rightarrow> Inl e
      | Inr tools \<Rightarrow>
          (case tools of
             PDict td \<Rightarrow>
               (let td' =
                      (if map_of td tool_name = None
                       then AList.update tool_name
                              (PDict [(''started'', PStr t_started), (''milestones'', PList [])]) td
                       else td)
                in case getitem (PDict td') tool_name of
                     Inl e \<Rightarrow> Inl e
                   | Inr entry \<Rightarrow>
                       (case getitem entry ''milestones'' of
                          Inl e \<Rightarrow> Inl e
                        | Inr ms \<Rightarrow>
                            (case ms of
                               PList xs \<Rightarrow>
                                 (let xs' = xs @ [PDict [(''milestone'', PStr milestone),
                                                         (''completed'', PBool completed),
                                                         (''timestamp'', PStr t_stamp)]]
                                  in case setitem entry ''milestones'' (PList xs') of
                                       Inl e \<Rightarrow> Inl e
                                     | Inr entry' \<Rightarrow>
                                         (case setitem progress_data ''tools''
                                                 (PDict (AList.update tool_name entry' td')) of
                                            Inl e \<Rightarrow> Inl e
                                          | Inr progress_data' \<Rightarrow>
                                              Inr (progress_data', int (length xs'))))
                             | _ \<Rightarrow> Inl AttributeError)))
           | _ \<Rightarrow> Inl TypeError))"

definition track_progress_body ::
  "interp \<Rightarrow> world \<Rightarrow> string \<Rightarrow> string \<Rightarrow> string \<Rightarrow> string \<Rightarrow> string \<Rightarrow> bool
     \<Rightarrow> (exn + pyval) \<times> world" where
  "track_progress_body py w t_started t_stamp user_id tool_name milestone completed =
     (case (if path_exists w (progress_file user_id) then load_json w (progress_file user_id)
            else Inr (PDict [(''user_id'', PStr user_id), (''tools'', PDict [])])) of
        Inl e \<Rightarrow> (Inl e, w)
      | Inr progress_data \<Rightarrow>
          (case add_milestone progress_data tool_name milestone completed t_started t_stamp of
             Inl e \<Rightarrow> (Inl e, w)
           | Inr (progress_data', n) \<Rightarrow>
               (case dump_json w (progress_file user_id) progress_data' of
                  Inl e \<Rightarrow> (Inl e, w)
                | Inr w' \<Rightarrow>
                    (Inr (PDict [(''status'', PStr ''success''),
                                 (''message'', PStr (''Progress tracked: '' @ milestone)),
                                 (''total_milestones'', PInt n)]), w'))))"

definition track_progress ::
  "interp \<Rightarrow> world \<Rightarrow> string \<Rightarrow> string \<Rightarrow> string \<Rightarrow> string \<Rightarrow> string \<Rightarrow> bool
     \<Rightarrow> pyval \<times> world" where
  "track_progress py w t_started t_stamp user_id tool_name milestone completed =
     (case track_progress_body py w t_started t_stamp user_id tool_name milestone completed of
        (Inr r, w') \<Rightarrow> (r, w')
      | (Inl e, w') \<Rightarrow> (error_result py ''Failed to track progress: '' e, w'))"

definition get_progress_summary_body :: "interp \<Rightarrow> world \<Rightarrow> string \<Rightarrow> exn + pyval" where
  "get_progress_summary_body py w user_id =
     (if \<not> path_exists w (progress_file user_id) then
        Inr (PDict [(''status'', PStr ''success''),
                    (''message'', PStr ''No progress recorded yet''),
                    (''tools_count'', PInt 0),
                    (''tools'', PDict [])])
      else
        (case load_json w (progress_file user_id) of
           Inl e \<Rightarrow> Inl e
         | Inr progress_data \<Rightarrow>
             (case getitem progress_data ''tools'' of
                Inl e \<Rightarrow> Inl e
              | Inr tools \<Rightarrow>
                  (case py_len tools of
                     Inl e \<Rightarrow> Inl e
                   | Inr n \<Rightarrow>
                       Inr (PDict [(''status'', PStr ''success''),
                                   (''user_id'', PStr user_id),
                                   (''tools_count'', PInt n),
                                   (''tools'', tools)])))))"

definition get_progress_summary :: "interp \<Rightarrow> world \<Rightarrow> string \<Rightarrow> pyval" where
  "get_progress_summary py w user_id =
     (case get_progress_summary_body py w user_id of
        Inr r \<Rightarrow> r
      | Inl e \<Rightarrow> error_result py ''Failed to retrieve progress: '' e)"

subsection \<open>Session store\<close>

text \<open>Line 209: the tool name is lower-cased and its spaces become underscores.\<close>

definition session_file :: "interp \<Rightarrow> string \<Rightarrow> string \<Rightarrow> string" where
  "session_file py user_id tool_name =
     ''session_'' @ user_id @ ''_''
       @ replace_char (CHR '' '') (CHR ''_'') (str_lower py tool_name) @ ''.json''"

text \<open>Line 236: \<^verbatim>\<open>session["current_module"] += 1\<close>\<close>

definition bump_module :: "pyval \<Rightarrow> exn + pyval" where
  "bump_module session =
     (case getitem session ''current_module'' of
        Inl e \<Rightarrow> Inl e
      | Inr v \<Rightarrow>
          (case add_one v of
             Inl e \<Rightarrow> Inl e
           | Inr v' \<Rightarrow> setitem session ''current_module'' v'))"

text \<open>
  Lines 257 to 261: the list is looked up and its \<^verbatim>\<open>append\<close> found before the entry
  is built.
\<close>

definition append_completion :: "interp \<Rightarrow> pyval \<Rightarrow> string \<Rightarrow> string \<Rightarrow> exn + pyval" where
  "append_completion py session module_name now =
     (case getitem session ''modules_completed'' of
        Inl e \<Rightarrow> Inl e
      | Inr mods \<Rightarrow>
          (case mods of
             PList xs \<Rightarrow>
               (case getitem session ''current_module'' of
                  Inl e \<Rightarrow> Inl e
                | Inr n \<Rightarrow>
                    setitem session ''modules_completed''
                      (PList (xs @ [PDict [(''module_number'', n),
                                           (''module_name'',
                                              PStr (if module_name \<noteq> [] then module_name
                                                    else ''Module '' @ py_str py n)),
                                           (''completed_at'', PStr now)]])))
           | _ \<Rightarrow> Inl AttributeError))"

definition manage_learning_session_body ::
  "interp \<Rightarrow> world \<Rightarrow> string \<Rightarrow> string \<Rightarrow> string \<Rightarrow> string \<Rightarrow> string
     \<Rightarrow> (exn + pyval) \<times> world" where
  "manage_learning_session_body py w now user_id tool_name action module_name =
     (let session_file = session_file py user_id tool_name in
      if action = ''start'' then
        (let session = PDict [(''user_id'', PStr user_id),
                              (''tool_name'', PStr tool_name),
                              (''started'', PStr now),
                              (''current_module'', PInt 0),
                              (''modules_completed'', PList []),
                              (''status'', PStr ''in_progress'')]
         in case dump_json w session_file session of
              Inl e \<Rightarrow> (Inl e, w)
            | Inr w' \<Rightarrow>
                (Inr (PDict [(''status'', PStr ''success''),
                             (''message'', PStr (''Started learning session for '' @ tool_name)),
                             (''session'', session)]), w'))
      else if action = ''next_module'' then
        (if path_exists w session_file then
           (case load_json w session_file of
              Inl e \<Rightarrow> (Inl e, w)
            | Inr session \<Rightarrow>
                (case bump_module session of
                   Inl e \<Rightarrow> (Inl e, w)
                 | Inr session' \<Rightarrow>
                     (case dump_json w session_file session' of
                        Inl e \<Rightarrow> (Inl e, w)
                      | Inr w' \<Rightarrow>
                          (case getitem session' ''current_module'' of
                             Inl e \<Rightarrow> (Inl e, w')
                           | Inr n \<Rightarrow>
                               (Inr (PDict [(''status'', PStr ''success''),
                                            (''message'',
                                               PStr (''Advanced to module '' @ py_str py n)),
                                            (''current_module'', n)]), w')))))
         else
           (Inr (PDict [(''status'', PStr ''error''),
                        (''error_message'',
                           PStr ''No active session found. Start a new session first.'')]), w))
      else if action = ''complete_module'' then
        (if path_exists w session_file then
           (case load_json w session_file of
              Inl e \<Rightarrow> (Inl e, w)
            | Inr session \<Rightarrow>
                (case append_completion py session module_name now of
                   Inl e \<Rightarrow> (Inl e, w)
                 | Inr session' \<Rightarrow>
                     (case dump_json w session_file session' of
                        Inl e \<Rightarrow> (Inl e, w)
                      | Inr w' \<Rightarrow>
                          (case getitem session' ''current_module'' of
                             Inl e \<Rightarrow> (Inl e, w')
                           | Inr n \<Rightarrow>
                               (case getitem session' ''modules_completed'' of
                                  Inl e \<Rightarrow> (Inl e, w')
                                | Inr mods \<Rightarrow>
                                    (case py_len mods of
                                       Inl e \<Rightarrow> (Inl e, w')
                                     | Inr k \<Rightarrow>
                                         (Inr (PDict [(''status'', PStr ''success''),
                                                      (''message'',
                                                         PStr (''Module '' @ py_str py n
                                                               @ '' completed!'')),
                                                      (''modules_completed'', PInt k)]),
                                          w')))))))
         else
           (Inr (PDict [(''status'', PStr ''error''),
                        (''error_message'', PStr ''No active session found'')]), w))
      else if action = ''get_current'' then
        (if path_exists w session_file then
           (case load_json w session_file of
              Inl e \<Rightarrow> (Inl e, w)
            | Inr session \<Rightarrow>
                (Inr (PDict [(''status'', PStr ''success''), (''session'', session)]), w))
         else
           (Inr (PDict [(''status'', PStr ''success''),
                        (''message'', PStr ''No active session''),
                        (''session'', PNone)]), w))
      else
        (Inr (PDict [(''status'', PStr ''error''),
                     (''error_message'', PStr (''Unknown action: '' @ action))]), w))"

definition manage_learning_session ::
  "interp \<Rightarrow> world \<Rightarrow> string \<Rightarrow> string \<Rightarrow> string \<Rightarrow> string \<Rightarrow> string \<Rightarrow> pyval \<times> world" where
  "manage_learning_session py w now user_id tool_name action module_name =
     (case manage_learning_session_body py w now user_id tool_name action module_name of
        (Inr r, w') \<Rightarrow> (r, w')
      | (Inl e, w') \<Rightarrow> (error_result py ''Failed to manage session: '' e, w'))"

subsection \<open>Lesson folder store\<close>

text \<open>Lines 318, 365 and 402: the same expression in the three folder functions.\<close>

definition folder_name :: "interp \<Rightarrow> string \<Rightarrow> string" where
  "folder_name py tool_name =
     replace_char (CHR ''-'') (CHR ''_'')
       (replace_char (CHR '' '') (CHR ''_'') (str_lower py tool_name))"

text \<open>
  Lines 320 and 321, with \<open>c\<close> the value of \<^verbatim>\<open>os.getcwd()\<close>.
\<close>

definition lessons_dir :: "string \<Rightarrow> string" where
  "lessons_dir c = path_join c ''lessons''"

definition folder_path :: "interp \<Rightarrow> string \<Rightarrow> string \<Rightarrow> string" where
  "folder_path py c tool_name = path_join (lessons_dir c) (folder_name py tool_name)"

definition create_tool_folder_body :: "interp \<Rightarrow> world \<Rightarrow> string \<Rightarrow> (exn + pyval) \<times> world" where
  "create_tool_folder_body py w tool_name =
     (case getcwd w of
        Inl e \<Rightarrow> (Inl e, w)
      | Inr c \<Rightarrow>
          (case (if \<not> path_exists w (lessons_dir c) then makedirs w (lessons_dir c)
                 else (Inr (), w)) of
             (Inl e, w1) \<Rightarrow> (Inl e, w1)
           | (Inr _, w1) \<Rightarrow>
               if path_exists w1 (folder_path py c tool_name) then
                 (case listdir w1 (folder_path py c tool_name) of
                    Inl e \<Rightarrow> (Inl e, w1)
                  | Inr files \<Rightarrow>
                      (Inr (PDict [(''status'', PStr ''exists''),
                                   (''message'',
                                      PStr (''Folder '' @ [CHR 0x27] @ ''lessons/''
                                            @ folder_name py tool_name @ [CHR 0x27]
                                            @ '' already exists'')),
                                   (''folder_path'', PStr (folder_path py c tool_name)),
                                   (''existing_files'', PList (map PStr files))]), w1))
               else
                 (case makedirs w1 (folder_path py c tool_name) of
                    (Inl e, w2) \<Rightarrow> (Inl e, w2)
                  | (Inr _, w2) \<Rightarrow>
                      (Inr (PDict [(''status'', PStr ''created''),
                                   (''message'',
                                      PStr (''Created new folder '' @ [CHR 0x27] @ ''lessons/''
                                            @ folder_name py tool_name @ [CHR 0x27])),
                                   (''folder_path'', PStr (folder_path py c tool_name)),
                                   (''existing_files'', PList [])]), w2))))"

definition create_tool_folder :: "interp \<Rightarrow> world \<Rightarrow> string \<Rightarrow> pyval \<times> world" where
  "create_tool_folder py w tool_name =
     (case create_tool_folder_body py w tool_name of
        (Inr r, w') \<Rightarrow> (r, w')
      | (Inl e, w') \<Rightarrow> (error_result py ''Failed to create folder: '' e, w'))"

definition save_to_tool_folder_body ::
  "interp \<Rightarrow> world \<Rightarrow> string \<Rightarrow> string \<Rightarrow> string \<Rightarrow> (exn + pyval) \<times> world" where
  "save_to_tool_folder_body py w tool_name filename content =
     (case getcwd w of
        Inl e \<Rightarrow> (Inl e, w)
      | Inr c \<Rightarrow>
          (case (if \<not> path_exists w (folder_path py c tool_name)
                 then makedirs w (folder_path py c tool_name) else (Inr (), w)) of
             (Inl e, w1) \<Rightarrow> (Inl e, w1)
           | (Inr _, w1) \<Rightarrow>
               (let file_path = path_join (folder_path py c tool_name) filename
                in case write_file w1 file_path (Text content) of
                     Inl e \<Rightarrow> (Inl e, w1)
                   | Inr w2 \<Rightarrow>
                       (Inr (PDict [(''status'', PStr ''success''),
                                    (''message'',
                                       PStr (''Saved '' @ [CHR 0x27] @ filename @ [CHR 0x27]
                                             @ '' to lessons/'' @ folder_name py tool_name
                                             @ ''/'')),
                                    (''file_path'', PStr file_path)]), w2))))"

definition save_to_tool_folder ::
  "interp \<Rightarrow> world \<Rightarrow> string \<Rightarrow> string \<Rightarrow> string \<Rightarrow> pyval \<times> world" where
  "save_to_tool_folder py w tool_name filename content =
     (case save_to_tool_folder_body py w tool_name filename content of
        (Inr r, w') \<Rightarrow> (r, w')
      | (Inl e, w') \<Rightarrow> (error_result py ''Failed to save file: '' e, w'))"

definition read_from_tool_folder_body :: "interp \<Rightarrow> world \<Rightarrow> string \<Rightarrow> string \<Rightarrow> exn + pyval" where
  "read_from_tool_folder_body py w tool_name filename =
     (case getcwd w of
        Inl e \<Rightarrow> Inl e
      | Inr c \<Rightarrow>
          (let file_path = path_join (folder_path py c tool_name) filename
           in if \<not> path_exists w file_path then
                Inr (PDict [(''status'', PStr ''not_found''),
                            (''message'',
                               PStr (''File '' @ [CHR 0x27] @ filename @ [CHR 0x27]
                                     @ '' not found in lessons/'' @ folder_name py tool_name
                                     @ ''/'')),
                            (''content'', PNone)])
              else
                (case read_file w file_path of
                   Inl e \<Rightarrow> Inl e
                 | Inr f \<Rightarrow>
                     (case read_text py f of
                        Inl e \<Rightarrow> Inl e
                      | Inr content \<Rightarrow>
                          Inr (PDict [(''status'', PStr ''success''),
                                      (''message'',
                                         PStr (''Read '' @ [CHR 0x27] @ filename @ [CHR 0x27]
                                               @ '' from lessons/'' @ folder_name py tool_name
                                               @ ''/'')),
                                      (''content'', PStr content),
                                      (''file_path'', PStr file_path)])))))"

definition read_from_tool_folder :: "interp \<Rightarrow> world \<Rightarrow> string \<Rightarrow> string \<Rightarrow> pyval" where
  "read_from_tool_folder py w tool_name filename =
     (case read_from_tool_folder_body py w tool_name filename of
        Inr r \<Rightarrow> r
      | Inl e \<Rightarrow>
          PDict [(''status'', PStr ''error''),
                 (''error_message'', PStr (''Failed to read file: '' @ exn_text py e)),
                 (''content'', PNone)])"

subsection \<open>Module assembler\<close>

text \<open>
  The f-string of lines 447 to 468; \<open>stamp\<close> is
  \<^verbatim>\<open>datetime.now().strftime('%Y-%m-%d %H:%M')\<close>. The three emoji are U+1F4DA, U+1F4BB
  and U+1F4DD.
\<close>

definition module_content :: "int \<Rightarrow> string \<Rightarrow> string \<Rightarrow> string \<Rightarrow> string \<Rightarrow> string" where
  "module_content module_number lesson examples quiz stamp =
     ''# Module '' @ show_int module_number @ ''\<newline>\<newline>''
     @ ''## '' @ [CHR 0xF0, CHR 0x9F, CHR 0x93, CHR 0x9A] @ '' Lesson\<newline>\<newline>''
     @ lesson @ ''\<newline>\<newline>---\<newline>\<newline>''
     @ ''## '' @ [CHR 0xF0, CHR 0x9F, CHR 0x92, CHR 0xBB] @ '' Code Examples\<newline>\<newline>''
     @ examples @ ''\<newline>\<newline>---\<newline>\<newline>''
     @ ''## '' @ [CHR 0xF0, CHR 0x9F, CHR 0x93, CHR 0x9D] @ '' Quiz\<newline>\<newline>''
     @ quiz @ ''\<newline>\<newline>---\<newline>\<newline>''
     @ ''*Generated: '' @ stamp @ ''*\<newline>''"

definition module_filename :: "int \<Rightarrow> string" where
  "module_filename module_number = ''module_'' @ show_int module_number @ ''.md''"

text \<open>
  Line 474: the path is computed, which may raise, before it is stored in the result
  of \<^verbatim>\<open>save_to_tool_folder\<close>.
\<close>

definition assemble_module_file_body ::
  "interp \<Rightarrow> world \<Rightarrow> string \<Rightarrow> string \<Rightarrow> int \<Rightarrow> string \<Rightarrow> string \<Rightarrow> string
     \<Rightarrow> (exn + pyval) \<times> world" where
  "assemble_module_file_body py w stamp tool_name module_number lesson examples quiz =
     (let filename = module_filename module_number
      in case save_to_tool_folder py w tool_name filename
                (module_content module_number lesson examples quiz stamp) of
           (result, w') \<Rightarrow>
             (case abspath w' (path_join (path_join ''lessons'' tool_name) filename) of
                Inl e \<Rightarrow> (Inl e, w')
              | Inr a \<Rightarrow>
                  (case setitem result ''absolute_path'' (PStr a) of
                     Inl e \<Rightarrow> (Inl e, w')
                   | Inr result' \<Rightarrow> (Inr result', w'))))"

definition assemble_module_file ::
  "interp \<Rightarrow> world \<Rightarrow> string \<Rightarrow> string \<Rightarrow> int \<Rightarrow> string \<Rightarrow> string \<Rightarrow> string
     \<Rightarrow> pyval \<times> world" where
  "assemble_module_file py w stamp tool_name module_number lesson examples quiz =
     (case assemble_module_file_body py w stamp tool_name module_number lesson examples quiz of
        (Inr r, w') \<Rightarrow> (r, w')
      | (Inl e, w') \<Rightarrow> (error_result py ''Failed to assemble module: '' e, w'))"

section \<open>Notions used by the properties\<close>

text \<open>A plain name of a directory entry.\<close>

definition proper_name :: "string \<Rightarrow> bool" where
  "proper_name c =
     (c \<noteq> [] \<and> c \<noteq> ''.'' \<and> c \<noteq> ''..'' \<and> CHR ''/'' \<notin> set c \<and> CHR 0x00 \<notin> set c)"

text \<open>A path of one or more plain names with \<^verbatim>\<open>/\<close> between them.\<close>

definition plain_path :: "string \<Rightarrow> bool" where
  "plain_path s = list_all proper_name (split_sep s)"

text \<open>
  The names \<open>cs\<close> lead from \<open>cur\<close> through directories that exist and may be searched,
  and each name is within the limit of the file system.
\<close>

fun dirs_from :: "world \<Rightarrow> loc \<Rightarrow> string list \<Rightarrow> bool" where
  "dirs_from w cur [] = (is_dir w cur \<and> \<not> refused w Search cur)"
| "dirs_from w cur (c # cs) =
     (is_dir w cur \<and> \<not> refused w Search cur \<and> proper_name c \<and> length c \<le> name_max w
      \<and> dirs_from w (cur @ [c]) cs)"

text \<open>
  The working directory exists, can be reached and searched, and its path fits the
  buffer; every entry of the file system lies in a directory that exists.
\<close>

definition well_formed :: "world \<Rightarrow> bool" where
  "well_formed w =
     (dirs_from w [] (cwd w)
      \<and> length (cwd_string w) < path_max w
      \<and> list_all (\<lambda>(k, n). k \<noteq> [] \<and> is_dir w (butlast k)) (nodes w))"

text \<open>The JSON document in the file at a path, whether or not the file may be read.\<close>

definition file_json :: "world \<Rightarrow> string \<Rightarrow> pyval option" where
  "file_json w p =
     (case resolve w p of
        Inl _ \<Rightarrow> None
      | Inr l \<Rightarrow> (case node_at w l of Some (File (Json v)) \<Rightarrow> Some v | _ \<Rightarrow> None))"

text \<open>The \<^verbatim>\<open>current_module\<close> of the session record on disk, when it is a number.\<close>

definition stored_module :: "interp \<Rightarrow> world \<Rightarrow> string \<Rightarrow> string \<Rightarrow> int option" where
  "stored_module py w user_id tool_name =
     (case file_json w (session_file py user_id tool_name) of
        None \<Rightarrow> None
      | Some session \<Rightarrow>
          (case getitem session ''current_module'' of
             Inr (PInt n) \<Rightarrow> Some n
           | _ \<Rightarrow> None))"

text \<open>
  A sequence of calls of \<^verbatim>\<open>manage_learning_session\<close> for one user and tool, each
  with its action, module name and clock reading.
\<close>

fun run_session ::
  "interp \<Rightarrow> world \<Rightarrow> string \<Rightarrow> string \<Rightarrow> (string \<times> string \<times> string) list \<Rightarrow> world" where
  "run_session py w user_id tool_name [] = w"
| "run_session py w user_id tool_name ((action, module_name, now) # calls) =
     run_session py
       (snd (manage_learning_session py w now user_id tool_name action module_name))
       user_id tool_name calls"

text \<open>The shape \<^verbatim>\<open>{status: "error", error_message: ...}\<close> of a result.\<close>

definition status_of :: "pyval \<Rightarrow> pyval option" where
  "status_of r = (case r of PDict d \<Rightarrow> map_of d ''status'' | _ \<Rightarrow> None)"

definition is_error_result :: "pyval \<Rightarrow> bool" where
  "is_error_result r =
     (case r of
        PDict d \<Rightarrow>
          map_of d ''status'' = Some (PStr ''error'')
          \<and> (case map_of d ''error_message'' of Some (PStr _) \<Rightarrow> True | _ \<Rightarrow> False)
      | _ \<Rightarrow> False)"

text \<open>
  A sequence of calls of \<^verbatim>\<open>track_progress\<close> for one user and tool, each with its
  milestone, flag and two clock readings: the world it leaves, and whether every call
  returned the status \<^verbatim>\<open>success\<close>.
\<close>

fun track_all ::
  "interp \<Rightarrow> world \<Rightarrow> string \<Rightarrow> string \<Rightarrow> (string \<times> bool \<times> string \<times> string) list \<Rightarrow> world" where
  "track_all py w user_id tool_name [] = w"
| "track_all py w user_id tool_name ((milestone, completed, t_started, t_stamp) # calls) =
     track_all py
       (snd (track_progress py w t_started t_stamp user_id tool_name milestone completed))
       user_id tool_name calls"

fun all_tracked ::
  "interp \<Rightarrow> world \<Rightarrow> string \<Rightarrow> string \<Rightarrow> (string \<times> bool \<times> string \<times> string) list \<Rightarrow> bool" where
  "all_tracked py w user_id tool_name [] = True"
| "all_tracked py w user_id tool_name ((milestone, completed, t_started, t_stamp) # calls) =
     (status_of (fst (track_progress py w t_started t_stamp user_id tool_name milestone completed))
        = Some (PStr ''success'')
      \<and> all_tracked py
          (snd (track_progress py w t_started t_stamp user_id tool_name milestone completed))
          user_id tool_name calls)"

text \<open>
  The milestones of a tool in a progress summary, or in the progress document itself:
  \<^verbatim>\<open>r["tools"][tool_name]["milestones"]\<close>, when it is a list.
\<close>

definition tool_milestones :: "pyval \<Rightarrow> string \<Rightarrow> pyval list option" where
  "tool_milestones r tool_name =
     (case getitem r ''tools'' of
        Inl _ \<Rightarrow> None
      | Inr tools \<Rightarrow>
          (case getitem tools tool_name of
             Inl _ \<Rightarrow> None
           | Inr entry \<Rightarrow>
               (case getitem entry ''milestones'' of
                  Inr (PList xs) \<Rightarrow> Some xs
                | _ \<Rightarrow> None)))"

text \<open>\<^verbatim>\<open>open(p, 'w')\<close> succeeds.\<close>

definition writable :: "world \<Rightarrow> string \<Rightarrow> bool" where
  "writable w p = (case open_write w p of Inl _ \<Rightarrow> False | Inr _ \<Rightarrow> True)"

text \<open>
  Where the lessons directory, a tool's folder and a file in it lie, for a folder name
  without \<^verbatim>\<open>.\<close> and \<^verbatim>\<open>..\<close>.
\<close>

definition lessons_loc :: "world \<Rightarrow> loc" where
  "lessons_loc w = cwd w @ [''lessons'']"

definition folder_loc :: "interp \<Rightarrow> world \<Rightarrow> string \<Rightarrow> loc" where
  "folder_loc py w tool_name = lessons_loc w @ split_sep (folder_name py tool_name)"

definition file_loc :: "interp \<Rightarrow> world \<Rightarrow> string \<Rightarrow> string \<Rightarrow> loc" where
  "file_loc py w tool_name filename = folder_loc py w tool_name @ [filename]"

text \<open>A directory is at the location, or can be made there.\<close>

definition usable_dir :: "world \<Rightarrow> loc \<Rightarrow> bool" where
  "usable_dir w l =
     (node_at w l = Some Dir \<or> (node_at w l = None \<and> \<not> refused w Write (butlast l)))"

text \<open>The world once a directory has been made at the location, unless something is there.\<close>

definition with_dir :: "world \<Rightarrow> loc \<Rightarrow> world" where
  "with_dir w l = (if node_at w l = None then put_node w l Dir else w)"

text \<open>
  The tool's folder name and the file name are plain names within the limits of the
  file system, the lessons directory and the folder exist or can be made and may be
  searched, and the file can be written.
\<close>

definition saveable :: "interp \<Rightarrow> world \<Rightarrow> string \<Rightarrow> string \<Rightarrow> bool" where
  "saveable py w tool_name filename =
     (well_formed w
      \<and> proper_name (folder_name py tool_name)
      \<and> proper_name filename
      \<and> length ''lessons'' \<le> name_max w
      \<and> length (folder_name py tool_name) \<le> name_max w
      \<and> length filename \<le> name_max w
      \<and> length (render (file_loc py w tool_name filename)) < path_max w
      \<and> \<not> refused w Search (lessons_loc w)
      \<and> \<not> refused w Search (folder_loc py w tool_name)
      \<and> usable_dir w (lessons_loc w)
      \<and> usable_dir w (folder_loc py w tool_name)
      \<and> (case node_at w (file_loc py w tool_name filename) of
            None \<Rightarrow> \<not> refused w Write (folder_loc py w tool_name)
          | Some Dir \<Rightarrow> False
          | Some (File _) \<Rightarrow> \<not> refused w Write (file_loc py w tool_name filename)))"

subsection \<open>Sample worlds\<close>

text \<open>
  An interpreter, a world with the working directory \<^verbatim>\<open>/home/u\<close> and nothing in it,
  and the same world with the session record of user \<^verbatim>\<open>ana\<close> for the tool
  \<^verbatim>\<open>Lang Chain\<close> as a \<^verbatim>\<open>start\<close> at the clock reading \<^verbatim>\<open>T0\<close> writes it.
\<close>

definition py0 :: interp where
  "py0 = \<lparr>exn_text = (\<lambda>e. ''''), repr_of = (\<lambda>v. ''''), json_text = (\<lambda>v. ''''),
          unicode_lower = (\<lambda>s. s)\<rparr>"

definition w0 :: world where
  "w0 = \<lparr>nodes = [([''home''], Dir), ([''home'', ''u''], Dir)], cwd = [''home'', ''u''],
         refused = (\<lambda>a l. False), name_max = 255, path_max = 4096\<rparr>"

definition session0 :: "(string \<times> pyval) list" where
  "session0 = [(''user_id'', PStr ''ana''),
               (''tool_name'', PStr ''Lang Chain''),
               (''started'', PStr ''T0''),
               (''current_module'', PInt 0),
               (''modules_completed'', PList []),
               (''status'', PStr ''in_progress'')]"

definition w1 :: world where
  "w1 = put_node w0 [''home'', ''u'', ''session_ana_lang_chain.json'']
          (File (Json (PDict session0)))"

text \<open>The same record when \<^verbatim>\<open>current_module\<close> has reached \<open>n\<close>.\<close>

definition w_module :: "int \<Rightarrow> world" where
  "w_module n = put_node w0 [''home'', ''u'', ''session_ana_lang_chain.json'']
          (File (Json (PDict (AList.update ''current_module'' (PInt n) session0))))"

text \<open>A world with the folder of the tool \<^verbatim>\<open>Demo\<close> and one file in it.\<close>

definition w_demo :: world where
  "w_demo =
     \<lparr>nodes = [([''home''], Dir), ([''home'', ''u''], Dir),
               ([''home'', ''u'', ''lessons''], Dir),
               ([''home'', ''u'', ''lessons'', ''demo''], Dir),
               ([''home'', ''u'', ''lessons'', ''demo'', ''notes.md''], File (Text ''notes''))],
      cwd = [''home'', ''u''],
      refused = (\<lambda>a l. False), name_max = 255, path_max = 4096\<rparr>"

text \<open>
  A world with a lesson folder, two lesson files (one of them not UTF-8), a progress
  file and a session file.
\<close>

definition w_full :: world where
  "w_full =
     \<lparr>nodes = [([''home''], Dir), ([''home'', ''u''], Dir),
               ([''home'', ''u'', ''lessons''], Dir),
               ([''home'', ''u'', ''lessons'', ''demo''], Dir),
               ([''home'', ''u'', ''lessons'', ''demo'', ''notes.md''], File (Text ''notes'')),
               ([''home'', ''u'', ''lessons'', ''demo'', ''latin.md''],
                  File (Text [CHR ''n'', CHR 0xE9])),
               ([''home'', ''u'', ''progress_ana.json''],
                  File (Json (PDict [(''user_id'', PStr ''ana''), (''tools'', PDict [])]))),
               ([''home'', ''u'', ''session_ana_lang_chain.json''],
                  File (Json (PDict session0)))],
      cwd = [''home'', ''u''],
      refused = (\<lambda>a l. False), name_max = 255, path_max = 4096\<rparr>"

text \<open>
  The same world when no file may be read or written and no directory listed or added
  to; when the working directory may not be searched; and when the working directory
  has been removed.
\<close>

definition w_sealed :: world where
  "w_sealed = w_full\<lparr>refused := (\<lambda>a l. a \<noteq> Search)\<rparr>"

definition w_hidden :: world where
  "w_hidden = w_full\<lparr>refused := (\<lambda>a l. a = Search \<and> l = [''home'', ''u''])\<rparr>"

definition w_gone :: world where
  "w_gone = w_full\<lparr>nodes := [([''home''], Dir)]\<rparr>"

text \<open>The empty world when nothing may be added to a directory.\<close>

definition w0_sealed :: world where
  "w0_sealed = w0\<lparr>refused := (\<lambda>a l. a = Write)\<rparr>"

section \<open>Facts about the file system\<close>

lemma node_at_put:
  "node_at (put_node w l n) k = (if k = [] then Some Dir else if k = l then Some n else node_at w k)"
  by (simp add: node_at_def put_node_def update_conv')

lemma cwd_put [simp]: "cwd (put_node w l n) = cwd w"
  by (simp add: put_node_def)

lemma refused_put [simp]: "refused (put_node w l n) = refused w"
  by (simp add: put_node_def)

lemma name_max_put [simp]: "name_max (put_node w l n) = name_max w"
  by (simp add: put_node_def)

lemma path_max_put [simp]: "path_max (put_node w l n) = path_max w"
  by (simp add: put_node_def)

lemma cwd_string_put [simp]: "cwd_string (put_node w l n) = cwd_string w"
  by (simp add: cwd_string_def)

lemma path_error_put [simp]: "path_error (put_node w l n) p = path_error w p"
  by (simp add: path_error_def)

lemma node_at_root [simp]: "node_at w [] = Some Dir"
  by (simp add: node_at_def)

lemma walk_mono:
  assumes "\<And>k. node_at w k = Some Dir \<Longrightarrow> node_at w' k = Some Dir"
    "refused w' = refused w" "name_max w' = name_max w"
  shows "walk w cur cs = Inr l \<Longrightarrow> walk w' cur cs = Inr l"
proof (induction cs arbitrary: cur)
  case Nil
  then show ?case by simp
next
  case (Cons c cs)
  from Cons.prems have d: "node_at w cur = Some Dir"
    by (auto split: option.splits node.splits)
  with assms(1) have d': "node_at w' cur = Some Dir" by blast
  from Cons.prems d d' Cons.IH assms(2,3) show ?case
    by (auto split: if_splits)
qed

lemma resolve_mono:
  assumes "\<And>k. node_at w k = Some Dir \<Longrightarrow> node_at w' k = Some Dir"
    "refused w' = refused w" "name_max w' = name_max w"
    "cwd w' = cwd w" "path_max w' = path_max w"
  shows "resolve w p = Inr l \<Longrightarrow> resolve w' p = Inr l"
  using walk_mono [of w w', OF assms(1,2,3)] assms(4,5)
  by (auto simp: resolve_def locate_def path_error_def split: if_splits option.splits)

lemma resolve_put:
  assumes "resolve w p = Inr l" "node_at w k = None \<or> node_at w k = Some n"
  shows "resolve (put_node w k n) p = Inr l"
proof (rule resolve_mono [OF _ _ _ _ _ assms(1)])
  fix j assume "node_at w j = Some Dir"
  with assms(2) show "node_at (put_node w k n) j = Some Dir"
    by (auto simp: node_at_put)
qed simp_all

lemma resolve_put_file:
  assumes "resolve w p = Inr l" "node_at w k \<noteq> Some Dir"
  shows "resolve (put_node w k (File c)) p = Inr l"
proof (rule resolve_mono [OF _ _ _ _ _ assms(1)])
  fix j assume "node_at w j = Some Dir"
  with assms(2) show "node_at (put_node w k (File c)) j = Some Dir"
    by (auto simp: node_at_put)
qed simp_all

lemma open_write_file:
  "resolve w p = Inr l \<Longrightarrow> node_at w l = Some (File c) \<Longrightarrow> \<not> refused w Write l
     \<Longrightarrow> open_write w p = Inr l"
  by (simp add: open_write_def)

lemma open_write_new:
  "resolve w p = Inr l \<Longrightarrow> node_at w l = None \<Longrightarrow> \<not> refused w Write (butlast l)
     \<Longrightarrow> open_write w p = Inr l"
  by (simp add: open_write_def)

lemma open_write_refused:
  "resolve w p = Inr l \<Longrightarrow> node_at w l = Some (File c) \<Longrightarrow> refused w Write l
     \<Longrightarrow> open_write w p = Inl PermissionError"
  by (simp add: open_write_def)

lemma open_write_cases:
  "open_write w p = Inr l \<Longrightarrow> resolve w p = Inr l \<and> node_at w l \<noteq> Some Dir"
  by (auto simp: open_write_def split: sum.splits option.splits node.splits if_splits)

lemma write_file_ok:
  "open_write w p = Inr l \<Longrightarrow> write_file w p c = Inr (put_node w l (File c))"
  by (simp add: write_file_def)

lemma write_file_fail:
  "open_write w p = Inl e \<Longrightarrow> write_file w p c = Inl e"
  by (simp add: write_file_def)

lemma write_file_cases:
  "write_file w p c = Inr w' \<Longrightarrow>
     \<exists>l. open_write w p = Inr l \<and> w' = put_node w l (File c)"
  by (auto simp: write_file_def split: sum.splits)

lemma path_exists_iff:
  "resolve w p = Inr l \<Longrightarrow> path_exists w p = (node_at w l \<noteq> None)"
  by (simp add: path_exists_def)

lemma load_json_ok:
  "resolve w p = Inr l \<Longrightarrow> node_at w l = Some (File (Json v)) \<Longrightarrow> \<not> refused w Read l
     \<Longrightarrow> load_json w p = Inr v"
  by (simp add: load_json_def read_file_def json_load_def)

lemma load_json_refused:
  "resolve w p = Inr l \<Longrightarrow> node_at w l = Some (File c) \<Longrightarrow> refused w Read l
     \<Longrightarrow> load_json w p = Inl PermissionError"
  by (simp add: load_json_def read_file_def)

lemma load_json_cases:
  "load_json w p = Inr v \<Longrightarrow>
     \<exists>l. resolve w p = Inr l \<and> node_at w l = Some (File (Json v)) \<and> \<not> refused w Read l"
  by (auto simp: load_json_def read_file_def json_load_def
      split: sum.splits option.splits node.splits if_splits content.splits)

lemma file_jsonD:
  "file_json w p = Some v \<Longrightarrow> \<exists>l. resolve w p = Inr l \<and> node_at w l = Some (File (Json v))"
  by (auto simp: file_json_def split: sum.splits option.splits node.splits content.splits)

lemma file_jsonI:
  "resolve w p = Inr l \<Longrightarrow> node_at w l = Some (File (Json v)) \<Longrightarrow> file_json w p = Some v"
  by (simp add: file_json_def)

lemma file_json_put:
  assumes "resolve w p = Inr l" "node_at w l \<noteq> Some Dir"
  shows "file_json (put_node w l (File (Json v))) p = Some v"
proof -
  from assms(2) have "l \<noteq> []" by auto
  with resolve_put_file [OF assms] show ?thesis
    by (simp add: file_json_def node_at_put)
qed

lemma file_json_exists: "file_json w p = Some v \<Longrightarrow> path_exists w p"
  by (auto dest!: file_jsonD simp: path_exists_def)

lemma load_json_file_json: "load_json w p = Inr v \<Longrightarrow> file_json w p = Some v"
  by (auto dest!: load_json_cases simp: file_json_def)

lemma status_of_PDict [simp]: "status_of (PDict d) = map_of d ''status''"
  by (simp add: status_of_def)

lemma status_error_result [simp]: "status_of (error_result py p e) = Some (PStr ''error'')"
  by (simp add: error_result_def)

lemma is_error_error_result [simp]: "is_error_result (error_result py p e)"
  by (simp add: error_result_def is_error_result_def)

section \<open>Session store\<close>

lemma start_ok:
  assumes "open_write w (session_file py u t) = Inr l"
  shows "manage_learning_session py w now u t ''start'' m =
     (PDict [(''status'', PStr ''success''),
             (''message'', PStr (''Started learning session for '' @ t)),
             (''session'', PDict [(''user_id'', PStr u),
                              (''tool_name'', PStr t),
                              (''started'', PStr now),
                              (''current_module'', PInt 0),
                              (''modules_completed'', PList []),
                              (''status'', PStr ''in_progress'')])],
      put_node w l (File (Json (PDict [(''user_id'', PStr u),
                              (''tool_name'', PStr t),
                              (''started'', PStr now),
                              (''current_module'', PInt 0),
                              (''modules_completed'', PList []),
                              (''status'', PStr ''in_progress'')]))))"
  using assms
  by (simp add: manage_learning_session_def manage_learning_session_body_def dump_json_def
      write_file_ok Let_def)

lemma start_fail:
  assumes "open_write w (session_file py u t) = Inl e"
  shows "manage_learning_session py w now u t ''start'' m =
     (error_result py ''Failed to manage session: '' e, w)"
  using assms
  by (simp add: manage_learning_session_def manage_learning_session_body_def dump_json_def
      write_file_fail Let_def)

lemma next_ok:
  assumes "resolve w (session_file py u t) = Inr l"
    "node_at w l = Some (File (Json (PDict d)))" "\<not> refused w Read l" "\<not> refused w Write l"
    "map_of d ''current_module'' = Some (PInt n)"
  shows "manage_learning_session py w now u t ''next_module'' m =
     (PDict [(''status'', PStr ''success''),
             (''message'', PStr (''Advanced to module '' @ show_int (n + 1))),
             (''current_module'', PInt (n + 1))],
      put_node w l (File (Json (PDict (AList.update ''current_module'' (PInt (n + 1)) d)))))"
proof -
  from assms(1,2,4) have o: "open_write w (session_file py u t) = Inr l"
    by (simp add: open_write_file)
  from assms(1,2,3,5) o show ?thesis
    by (simp add: manage_learning_session_def manage_learning_session_body_def dump_json_def
      write_file_ok Let_def path_exists_iff load_json_ok bump_module_def getitem_def add_one_def
      setitem_def update_conv' py_str_def)
qed

lemma complete_ok:
  assumes "resolve w (session_file py u t) = Inr l"
    "node_at w l = Some (File (Json (PDict d)))" "\<not> refused w Read l" "\<not> refused w Write l"
    "map_of d ''modules_completed'' = Some (PList xs)"
    "map_of d ''current_module'' = Some v"
  shows "manage_learning_session py w now u t ''complete_module'' m =
     (PDict [(''status'', PStr ''success''),
             (''message'', PStr (''Module '' @ py_str py v @ '' completed!'')),
             (''modules_completed'', PInt (int (length xs) + 1))],
      put_node w l (File (Json (PDict (AList.update ''modules_completed''
         (PList (xs @ [PDict [(''module_number'', v),
                              (''module_name'', PStr (if m \<noteq> [] then m else ''Module '' @ py_str py v)),
                              (''completed_at'', PStr now)]])) d)))))"
proof -
  from assms(1,2,4) have o: "open_write w (session_file py u t) = Inr l"
    by (simp add: open_write_file)
  from assms(1,2,3,5,6) o show ?thesis
    by (simp add: manage_learning_session_def manage_learning_session_body_def dump_json_def
      write_file_ok Let_def path_exists_iff load_json_ok append_completion_def getitem_def
      setitem_def update_conv' py_len_def)
qed

text \<open>A call that cannot read the record, or cannot write it back, is an error and changes nothing.\<close>

lemma read_refused:
  assumes "resolve w (session_file py u t) = Inr l" "node_at w l = Some (File c)"
    "refused w Read l" "a = ''next_module'' \<or> a = ''complete_module'' \<or> a = ''get_current''"
  shows "manage_learning_session py w now u t a m =
     (error_result py ''Failed to manage session: '' PermissionError, w)"
proof -
  from assms(1,2) have e: "path_exists w (session_file py u t)"
    by (simp add: path_exists_iff)
  from load_json_refused [OF assms(1,2,3)] e assms(4) show ?thesis
    by (auto simp: manage_learning_session_def manage_learning_session_body_def Let_def)
qed

lemma write_refused:
  assumes "resolve w (session_file py u t) = Inr l" "node_at w l = Some (File c)"
    "refused w Write l" "a = ''next_module'' \<or> a = ''complete_module''"
  shows "\<exists>e. manage_learning_session py w now u t a m =
     (error_result py ''Failed to manage session: '' e, w)"
proof -
  from assms(1,2) have e: "path_exists w (session_file py u t)"
    by (simp add: path_exists_iff)
  have d: "dump_json w (session_file py u t) v = Inl PermissionError" for v
    using open_write_refused [OF assms(1,2,3)] by (simp add: dump_json_def write_file_fail)
  from assms(4) show ?thesis
  proof
    assume "a = ''next_module''"
    with e d show ?thesis
      by (auto simp: manage_learning_session_def manage_learning_session_body_def Let_def
          split: sum.splits)
  next
    assume "a = ''complete_module''"
    with e d show ?thesis
      by (auto simp: manage_learning_session_def manage_learning_session_body_def Let_def
          split: sum.splits)
  qed
qed

lemma stored_moduleD:
  assumes "stored_module py w u t = Some n"
  shows "\<exists>l d. resolve w (session_file py u t) = Inr l \<and> node_at w l = Some (File (Json (PDict d)))
            \<and> map_of d ''current_module'' = Some (PInt n)"
proof -
  from assms obtain s where s: "file_json w (session_file py u t) = Some s"
    and g: "getitem s ''current_module'' = Inr (PInt n)"
    by (auto simp: stored_module_def split: option.splits sum.splits pyval.splits)
  from g obtain d where "s = PDict d" "map_of d ''current_module'' = Some (PInt n)"
    by (auto simp: getitem_def split: pyval.splits option.splits)
  with file_jsonD [OF s] show ?thesis by blast
qed

lemma stored_module_put:
  assumes "resolve w (session_file py u t) = Inr l" "node_at w l \<noteq> Some Dir"
  shows "stored_module py (put_node w l (File (Json (PDict d)))) u t =
           (case map_of d ''current_module'' of Some (PInt n) \<Rightarrow> Some n | _ \<Rightarrow> None)"
  using file_json_put [OF assms]
  by (simp add: stored_module_def getitem_def split: option.splits pyval.splits)

lemma complete_fails:
  assumes "path_exists w (session_file py u t)"
    "load_json w (session_file py u t) = Inr (PDict d)"
    "\<not> (\<exists>xs. map_of d ''modules_completed'' = Some (PList xs))"
  shows "snd (manage_learning_session py w now u t ''complete_module'' m) = w"
proof -
  have "\<exists>e. append_completion py (PDict d) m now = Inl e"
  proof (cases "map_of d ''modules_completed''")
    case None
    then show ?thesis by (simp add: append_completion_def getitem_def)
  next
    case (Some v)
    with assms(3) show ?thesis
      by (cases v) (simp_all add: append_completion_def getitem_def)
  qed
  then obtain e where "append_completion py (PDict d) m now = Inl e" by blast
  with assms(1,2) show ?thesis
    by (simp add: manage_learning_session_def manage_learning_session_body_def Let_def)
qed

lemma get_current_world:
  "snd (manage_learning_session py w now u t ''get_current'' m) = w"
  by (simp add: manage_learning_session_def manage_learning_session_body_def Let_def
      split: sum.splits)

lemma unknown_world:
  assumes "a \<noteq> ''start''" "a \<noteq> ''next_module''" "a \<noteq> ''complete_module''"
    "a \<noteq> ''get_current''"
  shows "manage_learning_session py w now u t a m =
     (PDict [(''status'', PStr ''error''), (''error_message'', PStr (''Unknown action: '' @ a))], w)"
  using assms
  by (simp add: manage_learning_session_def manage_learning_session_body_def Let_def)

lemma step_keeps_module:
  assumes "stored_module py w u t = Some n" "a \<noteq> ''start''"
  shows "\<exists>k. n \<le> k \<and> stored_module py (snd (manage_learning_session py w now u t a m)) u t = Some k"
proof -
  from stored_moduleD [OF assms(1)] obtain l d where
    r: "resolve w (session_file py u t) = Inr l" and
    f: "node_at w l = Some (File (Json (PDict d)))" and
    c: "map_of d ''current_module'' = Some (PInt n)"
    by blast
  from f have nd: "node_at w l \<noteq> Some Dir" by simp
  consider (nxt) "a = ''next_module''" | (cmp) "a = ''complete_module''"
    | (cur) "a = ''get_current''"
    | (other) "a \<noteq> ''next_module''" "a \<noteq> ''complete_module''" "a \<noteq> ''get_current''" by blast
  then show ?thesis
  proof cases
    case nxt
    show ?thesis
    proof (cases "refused w Read l \<or> refused w Write l")
      case True
      then have "snd (manage_learning_session py w now u t a m) = w"
        using read_refused [OF r f, of a now m] write_refused [OF r f, of a now m] nxt
        by (cases "refused w Read l") auto
      with assms(1) show ?thesis by simp
    next
      case False
      then have p: "\<not> refused w Read l" "\<not> refused w Write l" by simp_all
      from nxt next_ok [OF r f p c] stored_module_put [OF r nd] show ?thesis
        by (simp add: update_conv')
    qed
  next
    case cmp
    show ?thesis
    proof (cases "refused w Read l \<or> refused w Write l")
      case True
      then have "snd (manage_learning_session py w now u t a m) = w"
        using read_refused [OF r f, of a now m] write_refused [OF r f, of a now m] cmp
        by (cases "refused w Read l") auto
      with assms(1) show ?thesis by simp
    next
      case False
      then have p: "\<not> refused w Read l" "\<not> refused w Write l" by simp_all
      show ?thesis
      proof (cases "\<exists>xs. map_of d ''modules_completed'' = Some (PList xs)")
        case True
        then obtain xs where "map_of d ''modules_completed'' = Some (PList xs)" by blast
        from complete_ok [OF r f p this c] cmp c show ?thesis
          using stored_module_put [OF r nd]
          by (simp add: update_conv')
      next
        case False
        have "path_exists w (session_file py u t)"
          using r f by (simp add: path_exists_iff)
        from complete_fails [OF this load_json_ok [OF r f p(1)] False] cmp assms(1)
        show ?thesis by simp
      qed
    qed
  next
    case cur
    with get_current_world assms(1) show ?thesis by simp
  next
    case other
    with unknown_world [OF assms(2) other] assms(1) show ?thesis by simp
  qed
qed

lemma run_keeps_module:
  "stored_module py w u t = Some n \<Longrightarrow> list_all (\<lambda>c. fst c \<noteq> ''start'') calls
     \<Longrightarrow> \<exists>k. n \<le> k \<and> stored_module py (run_session py w u t calls) u t = Some k"
proof (induction calls arbitrary: w n)
  case Nil
  then show ?case by simp
next
  case (Cons c calls)
  obtain a m now where c: "c = (a, m, now)" by (cases c) auto
  with Cons.prems have a: "a \<noteq> ''start''" and rest: "list_all (\<lambda>c. fst c \<noteq> ''start'') calls"
    by auto
  from step_keeps_module [OF Cons.prems(1) a] obtain k where
    k: "n \<le> k" "stored_module py (snd (manage_learning_session py w now u t a m)) u t = Some k"
    by blast
  from Cons.IH [OF k(2) rest] obtain j where
    "k \<le> j" "stored_module py (run_session py (snd (manage_learning_session py w now u t a m)) u t calls) u t = Some j"
    by blast
  with k(1) c show ?case by auto
qed

lemma session_file_ana: "session_file py0 ''ana'' ''Lang Chain'' = ''session_ana_lang_chain.json''"
  by (simp add: session_file_def str_lower_def is_ascii_def lower_char_def replace_char_def)

lemma resolve_session_w0:
  "resolve w0 ''session_ana_lang_chain.json'' = Inr [''home'', ''u'', ''session_ana_lang_chain.json'']"
  by (simp add: resolve_def path_error_def locate_def w0_def node_at_def)

lemma node_session_w0: "node_at w0 [''home'', ''u'', ''session_ana_lang_chain.json''] = None"
  by (simp add: w0_def node_at_def)

lemma refused_w0 [simp]: "refused w0 a l = False"
  by (simp add: w0_def)

lemma open_session_w0:
  "open_write w0 ''session_ana_lang_chain.json'' = Inr [''home'', ''u'', ''session_ana_lang_chain.json'']"
  using resolve_session_w0 node_session_w0 by (simp add: open_write_new)

lemma resolve_session_put:
  "resolve (put_node w0 [''home'', ''u'', ''session_ana_lang_chain.json''] (File c))
       ''session_ana_lang_chain.json''
     = Inr [''home'', ''u'', ''session_ana_lang_chain.json'']"
  using resolve_session_w0 node_session_w0 by (simp add: resolve_put_file)

lemma resolve_session_w1:
  "resolve w1 ''session_ana_lang_chain.json'' = Inr [''home'', ''u'', ''session_ana_lang_chain.json'']"
  unfolding w1_def by (rule resolve_session_put)

lemma node_session_w1:
  "node_at w1 [''home'', ''u'', ''session_ana_lang_chain.json''] = Some (File (Json (PDict session0)))"
  by (simp add: w1_def node_at_put)

lemma refused_w1 [simp]: "refused w1 a l = False"
  by (simp add: w1_def)

lemma file_json_w1: "file_json w1 ''session_ana_lang_chain.json'' = Some (PDict session0)"
  using resolve_session_w1 node_session_w1 by (rule file_jsonI)

lemma resolve_session_module:
  "resolve (w_module n) ''session_ana_lang_chain.json''
     = Inr [''home'', ''u'', ''session_ana_lang_chain.json'']"
  unfolding w_module_def by (rule resolve_session_put)

lemma file_json_module:
  "file_json (w_module n) ''session_ana_lang_chain.json''
     = Some (PDict (AList.update ''current_module'' (PInt n) session0))"
  using resolve_session_module by (rule file_jsonI) (simp add: w_module_def node_at_put)

lemma refused_module [simp]: "refused (w_module n) a l = False"
  by (simp add: w_module_def)

lemma session_file_cicd: "session_file py0 ''ana'' ''CI/CD'' = ''session_ana_ci/cd.json''"
  by (simp add: session_file_def str_lower_def is_ascii_def lower_char_def replace_char_def)

lemma resolve_session_cicd: "resolve w0 ''session_ana_ci/cd.json'' = Inl FileNotFoundError"
  by (simp add: resolve_def path_error_def locate_def w0_def node_at_def)

text \<open>
  Counterexample to claim C1 as stated. For the user \<^verbatim>\<open>ana\<close> and the tool \<^verbatim>\<open>CI/CD\<close>
  in an empty working directory, the session file is \<^verbatim>\<open>session_ana_ci/cd.json\<close>, in a
  directory that does not exist: \<^verbatim>\<open>start\<close> returns the status \<^verbatim>\<open>error\<close>, changes
  nothing and leaves no session record.
\<close>

theorem start_writes_no_record:
  "status_of (fst (manage_learning_session py0 w0 ''T0'' ''ana'' ''CI/CD'' ''start'' ''''))
     = Some (PStr ''error'')
   \<and> snd (manage_learning_session py0 w0 ''T0'' ''ana'' ''CI/CD'' ''start'' '''') = w0
   \<and> file_json (snd (manage_learning_session py0 w0 ''T0'' ''ana'' ''CI/CD'' ''start'' ''''))
       (session_file py0 ''ana'' ''CI/CD'') = None"
proof -
  have o: "open_write w0 (session_file py0 ''ana'' ''CI/CD'') = Inl FileNotFoundError"
    by (simp add: session_file_cicd open_write_def resolve_session_cicd)
  have f: "file_json w0 (session_file py0 ''ana'' ''CI/CD'') = None"
    by (simp add: session_file_cicd file_json_def resolve_session_cicd)
  from start_fail [OF o] f show ?thesis by simp
qed

text \<open>
  Claim C1, amended. For every user and tool: a \<^verbatim>\<open>start\<close> that returns the status
  \<^verbatim>\<open>success\<close> has written a session record whose \<^verbatim>\<open>current_module\<close> is 0. When the
  record on disk has the number \<open>n\<close> as its \<^verbatim>\<open>current_module\<close>, a \<^verbatim>\<open>next_module\<close>
  that returns \<^verbatim>\<open>success\<close> has left \<open>n + 1\<close> there and nothing else changed in the
  record. When the record on disk has a \<^verbatim>\<open>current_module\<close> \<open>v\<close> and a list
  \<^verbatim>\<open>modules_completed\<close>, a \<^verbatim>\<open>complete_module\<close> that returns \<^verbatim>\<open>success\<close> has
  appended one entry to that list, and the entry's \<^verbatim>\<open>module_number\<close> is \<open>v\<close>.
\<close>

theorem session_ordering:
  "(status_of (fst (manage_learning_session py w now user_id tool_name ''start'' mname))
        = Some (PStr ''success'') \<longrightarrow>
      file_json (snd (manage_learning_session py w now user_id tool_name ''start'' mname))
          (session_file py user_id tool_name)
        = Some (PDict [(''user_id'', PStr user_id),
                       (''tool_name'', PStr tool_name),
                       (''started'', PStr now),
                       (''current_module'', PInt 0),
                       (''modules_completed'', PList []),
                       (''status'', PStr ''in_progress'')]))
   \<and> (file_json w (session_file py user_id tool_name) = Some (PDict d)
        \<and> map_of d ''current_module'' = Some (PInt n)
        \<and> status_of (fst (manage_learning_session py w now user_id tool_name ''next_module''
                            mname)) = Some (PStr ''success'') \<longrightarrow>
      file_json (snd (manage_learning_session py w now user_id tool_name ''next_module'' mname))
          (session_file py user_id tool_name)
        = Some (PDict (AList.update ''current_module'' (PInt (n + 1)) d)))
   \<and> (file_json w (session_file py user_id tool_name) = Some (PDict d)
        \<and> map_of d ''current_module'' = Some v
        \<and> map_of d ''modules_completed'' = Some (PList xs)
        \<and> status_of (fst (manage_learning_session py w now user_id tool_name
                            ''complete_module'' mname)) = Some (PStr ''success'') \<longrightarrow>
      (\<exists>e. file_json
              (snd (manage_learning_session py w now user_id tool_name ''complete_module''
                      mname))
              (session_file py user_id tool_name)
            = Some (PDict (AList.update ''modules_completed'' (PList (xs @ [PDict e])) d))
          \<and> map_of e ''module_number'' = Some v))"
proof (intro conjI impI)
  assume s: "status_of (fst (manage_learning_session py w now user_id tool_name ''start'' mname))
        = Some (PStr ''success'')"
  show "file_json (snd (manage_learning_session py w now user_id tool_name ''start'' mname))
          (session_file py user_id tool_name)
        = Some (PDict [(''user_id'', PStr user_id),
                       (''tool_name'', PStr tool_name),
                       (''started'', PStr now),
                       (''current_module'', PInt 0),
                       (''modules_completed'', PList []),
                       (''status'', PStr ''in_progress'')])"
  proof (cases "open_write w (session_file py user_id tool_name)")
    case (Inl e)
    from start_fail [OF this] s show ?thesis by simp
  next
    case (Inr l)
    from open_write_cases [OF this] start_ok [OF Inr] show ?thesis
      by (simp add: file_json_put)
  qed
next
  assume a: "file_json w (session_file py user_id tool_name) = Some (PDict d)
        \<and> map_of d ''current_module'' = Some (PInt n)
        \<and> status_of (fst (manage_learning_session py w now user_id tool_name ''next_module''
                            mname)) = Some (PStr ''success'')"
  then obtain l where
    r: "resolve w (session_file py user_id tool_name) = Inr l" and
    f: "node_at w l = Some (File (Json (PDict d)))"
    using file_jsonD by blast
  from a have c: "map_of d ''current_module'' = Some (PInt n)" by simp
  from f have nd: "node_at w l \<noteq> Some Dir" by simp
  have p: "\<not> refused w Read l \<and> \<not> refused w Write l"
  proof (rule ccontr)
    assume "\<not> (\<not> refused w Read l \<and> \<not> refused w Write l)"
    then have "status_of (fst (manage_learning_session py w now user_id tool_name
        ''next_module'' mname)) = Some (PStr ''error'')"
      using read_refused [OF r f, of "''next_module''" now mname]
        write_refused [OF r f, of "''next_module''" now mname]
      by (cases "refused w Read l") auto
    with a show False by simp
  qed
  then have p1: "\<not> refused w Read l" and p2: "\<not> refused w Write l" by simp_all
  show "file_json (snd (manage_learning_session py w now user_id tool_name ''next_module'' mname))
          (session_file py user_id tool_name)
        = Some (PDict (AList.update ''current_module'' (PInt (n + 1)) d))"
    by (simp add: next_ok [OF r f p1 p2 c] file_json_put [OF r nd])
next
  assume a: "file_json w (session_file py user_id tool_name) = Some (PDict d)
        \<and> map_of d ''current_module'' = Some v
        \<and> map_of d ''modules_completed'' = Some (PList xs)
        \<and> status_of (fst (manage_learning_session py w now user_id tool_name
                            ''complete_module'' mname)) = Some (PStr ''success'')"
  then obtain l where
    r: "resolve w (session_file py user_id tool_name) = Inr l" and
    f: "node_at w l = Some (File (Json (PDict d)))"
    using file_jsonD by blast
  from a have c: "map_of d ''current_module'' = Some v"
    and ms: "map_of d ''modules_completed'' = Some (PList xs)" by simp_all
  from f have nd: "node_at w l \<noteq> Some Dir" by simp
  have p: "\<not> refused w Read l \<and> \<not> refused w Write l"
  proof (rule ccontr)
    assume "\<not> (\<not> refused w Read l \<and> \<not> refused w Write l)"
    then have "status_of (fst (manage_learning_session py w now user_id tool_name
        ''complete_module'' mname)) = Some (PStr ''error'')"
      using read_refused [OF r f, of "''complete_module''" now mname]
        write_refused [OF r f, of "''complete_module''" now mname]
      by (cases "refused w Read l") auto
    with a show False by simp
  qed
  then have p1: "\<not> refused w Read l" and p2: "\<not> refused w Write l" by simp_all
  show "\<exists>e. file_json
              (snd (manage_learning_session py w now user_id tool_name ''complete_module''
                      mname))
              (session_file py user_id tool_name)
            = Some (PDict (AList.update ''modules_completed'' (PList (xs @ [PDict e])) d))
          \<and> map_of e ''module_number'' = Some v"
    by (rule exI [of _ "[(''module_number'', v),
          (''module_name'', PStr (if mname \<noteq> [] then mname
                                  else ''Module '' @ py_str py v)),
          (''completed_at'', PStr now)]"])
       (simp add: complete_ok [OF r f p1 p2 ms c] file_json_put [OF r nd])
qed

lemma start_w0_status:
  "status_of (fst (manage_learning_session py0 w0 ''T0'' ''ana'' ''Lang Chain'' ''start'' ''''))
     = Some (PStr ''success'')"
  using start_ok [of w0 py0 "''ana''" "''Lang Chain''", unfolded session_file_ana,
      OF open_session_w0]
  by simp

lemma next_w1_status:
  "status_of (fst (manage_learning_session py0 w1 now ''ana'' ''Lang Chain'' ''next_module'' m))
     = Some (PStr ''success'')"
  using next_ok [of w1 py0 "''ana''" "''Lang Chain''", unfolded session_file_ana,
      OF resolve_session_w1 node_session_w1, of 0]
  by (simp add: session0_def)

lemma complete_w1_status:
  "status_of (fst (manage_learning_session py0 w1 now ''ana'' ''Lang Chain''
       ''complete_module'' m)) = Some (PStr ''success'')"
  using complete_ok [of w1 py0 "''ana''" "''Lang Chain''", unfolded session_file_ana,
      OF resolve_session_w1 node_session_w1, of "[]" "PInt 0"]
  by (simp add: session0_def)

theorem session_ordering_witness:
  "status_of (fst (manage_learning_session py0 w0 ''T0'' ''ana'' ''Lang Chain'' ''start'' ''''))
     = Some (PStr ''success'')
   \<and> file_json (snd (manage_learning_session py0 w0 ''T0'' ''ana'' ''Lang Chain'' ''start'' ''''))
        (session_file py0 ''ana'' ''Lang Chain'')
      = Some (PDict [(''user_id'', PStr ''ana''),
                     (''tool_name'', PStr ''Lang Chain''),
                     (''started'', PStr ''T0''),
                     (''current_module'', PInt 0),
                     (''modules_completed'', PList []),
                     (''status'', PStr ''in_progress'')])
   \<and> file_json w1 (session_file py0 ''ana'' ''Lang Chain'') = Some (PDict session0)
   \<and> map_of session0 ''current_module'' = Some (PInt 0)
   \<and> map_of session0 ''modules_completed'' = Some (PList [])
   \<and> status_of (fst (manage_learning_session py0 w1 ''T1'' ''ana'' ''Lang Chain''
                       ''next_module'' '''')) = Some (PStr ''success'')
   \<and> file_json
        (snd (manage_learning_session py0 w1 ''T1'' ''ana'' ''Lang Chain'' ''next_module'' ''''))
        (session_file py0 ''ana'' ''Lang Chain'')
      = Some (PDict (AList.update ''current_module'' (PInt 1) session0))
   \<and> status_of (fst (manage_learning_session py0 w1 ''T2'' ''ana'' ''Lang Chain''
                       ''complete_module'' ''Basics'')) = Some (PStr ''success'')
   \<and> (\<exists>e. file_json
              (snd (manage_learning_session py0 w1 ''T2'' ''ana'' ''Lang Chain''
                      ''complete_module'' ''Basics''))
              (session_file py0 ''ana'' ''Lang Chain'')
            = Some (PDict (AList.update ''modules_completed'' (PList ([] @ [PDict e])) session0))
          \<and> map_of e ''module_number'' = Some (PInt 0))"
proof -
  have h1: "status_of (fst (manage_learning_session py0 w0 ''T0'' ''ana'' ''Lang Chain''
      ''start'' '''')) = Some (PStr ''success'')"
    by (rule start_w0_status)
  have h2: "file_json w1 (session_file py0 ''ana'' ''Lang Chain'') = Some (PDict session0)"
    by (simp add: session_file_ana file_json_w1)
  have h3: "map_of session0 ''current_module'' = Some (PInt 0)"
    by (simp add: session0_def)
  have h4: "map_of session0 ''modules_completed'' = Some (PList [])"
    by (simp add: session0_def)
  have h5: "status_of (fst (manage_learning_session py0 w1 ''T1'' ''ana'' ''Lang Chain''
                       ''next_module'' '''')) = Some (PStr ''success'')"
    by (rule next_w1_status)
  have h6: "status_of (fst (manage_learning_session py0 w1 ''T2'' ''ana'' ''Lang Chain''
                       ''complete_module'' ''Basics'')) = Some (PStr ''success'')"
    by (rule complete_w1_status)
  note a = session_ordering [where w = w0 and py = py0 and user_id = "''ana''"
      and tool_name = "''Lang Chain''" and now = "''T0''" and mname = "''''"]
  note b = session_ordering [where w = w1 and py = py0 and user_id = "''ana''"
      and tool_name = "''Lang Chain''" and now = "''T1''" and mname = "''''" and n = 0
      and d = session0]
  note c = session_ordering [where w = w1 and py = py0 and user_id = "''ana''"
      and tool_name = "''Lang Chain''" and now = "''T2''" and mname = "''Basics''"
      and d = session0 and v = "PInt 0" and xs = "[]"]
  from a h1 have c1: "file_json
        (snd (manage_learning_session py0 w0 ''T0'' ''ana'' ''Lang Chain'' ''start'' ''''))
        (session_file py0 ''ana'' ''Lang Chain'')
      = Some (PDict [(''user_id'', PStr ''ana''),
                     (''tool_name'', PStr ''Lang Chain''),
                     (''started'', PStr ''T0''),
                     (''current_module'', PInt 0),
                     (''modules_completed'', PList []),
                     (''status'', PStr ''in_progress'')])" by blast
  from b h2 h3 h5 have c2: "file_json
        (snd (manage_learning_session py0 w1 ''T1'' ''ana'' ''Lang Chain'' ''next_module'' ''''))
        (session_file py0 ''ana'' ''Lang Chain'')
      = Some (PDict (AList.update ''current_module'' (PInt 1) session0))" by simp
  from c h2 h3 h4 h6 have c3: "\<exists>e. file_json
              (snd (manage_learning_session py0 w1 ''T2'' ''ana'' ''Lang Chain''
                      ''complete_module'' ''Basics''))
              (session_file py0 ''ana'' ''Lang Chain'')
            = Some (PDict (AList.update ''modules_completed'' (PList ([] @ [PDict e])) session0))
          \<and> map_of e ''module_number'' = Some (PInt 0)" by blast
  from h1 h2 h3 h4 h5 h6 c1 c2 c3 show ?thesis by blast
qed

lemma missing_session_body:
  assumes "\<not> path_exists w (session_file py u t)"
    "a = ''next_module'' \<or> a = ''complete_module''"
  shows "\<exists>r. manage_learning_session_body py w now u t a m = (Inr r, w) \<and> is_error_result r"
  using assms
  by (auto simp: manage_learning_session_body_def Let_def is_error_result_def)

lemma unknown_action_body:
  assumes "a \<noteq> ''start''" "a \<noteq> ''next_module''" "a \<noteq> ''complete_module''"
    "a \<noteq> ''get_current''"
  shows "\<exists>r. manage_learning_session_body py w now u t a m = (Inr r, w) \<and> is_error_result r"
  using assms
  by (simp add: manage_learning_session_body_def Let_def is_error_result_def)

text \<open>
  Claim C2. When the session file does not exist, \<^verbatim>\<open>next_module\<close> and
  \<^verbatim>\<open>complete_module\<close> return an error dict from the \<^verbatim>\<open>try\<close> block itself, no exception
  is raised, and the world is left as it was. The same holds for every action other than
  the four known ones, whether a session file exists or not.
\<close>

theorem missing_session_or_unknown_action:
  "(\<not> path_exists w (session_file py user_id tool_name)
      \<and> (action = ''next_module'' \<or> action = ''complete_module'')
    \<longrightarrow> (\<exists>r. manage_learning_session_body py w now user_id tool_name action mname = (Inr r, w)
             \<and> manage_learning_session py w now user_id tool_name action mname = (r, w)
             \<and> is_error_result r))
   \<and> (action \<notin> {''start'', ''next_module'', ''complete_module'', ''get_current''}
    \<longrightarrow> (\<exists>r. manage_learning_session_body py w now user_id tool_name action mname = (Inr r, w)
             \<and> manage_learning_session py w now user_id tool_name action mname = (r, w)
             \<and> is_error_result r))"
proof (intro conjI impI)
  assume "\<not> path_exists w (session_file py user_id tool_name)
      \<and> (action = ''next_module'' \<or> action = ''complete_module'')"
  then obtain r where
    "manage_learning_session_body py w now user_id tool_name action mname = (Inr r, w)"
    "is_error_result r"
    using missing_session_body by blast
  then show "\<exists>r. manage_learning_session_body py w now user_id tool_name action mname = (Inr r, w)
             \<and> manage_learning_session py w now user_id tool_name action mname = (r, w)
             \<and> is_error_result r"
    by (simp add: manage_learning_session_def)
next
  assume "action \<notin> {''start'', ''next_module'', ''complete_module'', ''get_current''}"
  then have "action \<noteq> ''start''" "action \<noteq> ''next_module''"
    "action \<noteq> ''complete_module''" "action \<noteq> ''get_current''" by auto
  from unknown_action_body [OF this] obtain r where
    "manage_learning_session_body py w now user_id tool_name action mname = (Inr r, w)"
    "is_error_result r"
    by blast
  then show "\<exists>r. manage_learning_session_body py w now user_id tool_name action mname = (Inr r, w)
             \<and> manage_learning_session py w now user_id tool_name action mname = (r, w)
             \<and> is_error_result r"
    by (simp add: manage_learning_session_def)
qed

lemma no_session_w0: "\<not> path_exists w0 (session_file py0 ''ana'' ''Lang Chain'')"
  by (simp add: session_file_ana path_exists_def resolve_session_w0 node_session_w0)

theorem missing_session_or_unknown_action_witness:
  "\<not> path_exists w0 (session_file py0 ''ana'' ''Lang Chain'')
   \<and> (\<exists>r. manage_learning_session_body py0 w0 ''T0'' ''ana'' ''Lang Chain'' ''next_module'' ''''
            = (Inr r, w0)
          \<and> manage_learning_session py0 w0 ''T0'' ''ana'' ''Lang Chain'' ''next_module'' ''''
            = (r, w0)
          \<and> is_error_result r)
   \<and> ''frobnicate'' \<notin> {''start'', ''next_module'', ''complete_module'', ''get_current''}
   \<and> (\<exists>r. manage_learning_session_body py0 w1 ''T0'' ''ana'' ''Lang Chain'' ''frobnicate'' ''''
            = (Inr r, w1)
          \<and> manage_learning_session py0 w1 ''T0'' ''ana'' ''Lang Chain'' ''frobnicate'' ''''
            = (r, w1)
          \<and> is_error_result r)"
proof -
  have h1: "\<not> path_exists w0 (session_file py0 ''ana'' ''Lang Chain'')
      \<and> (''next_module'' = ''next_module'' \<or> ''next_module'' = ''complete_module'')"
    using no_session_w0 by simp
  have h2: "''frobnicate'' \<notin> {''start'', ''next_module'', ''complete_module'', ''get_current''}"
    by simp
  note a = missing_session_or_unknown_action [where w = w0 and py = py0 and user_id = "''ana''"
      and tool_name = "''Lang Chain''" and now = "''T0''" and mname = "''''"
      and action = "''next_module''"]
  note b = missing_session_or_unknown_action [where w = w1 and py = py0 and user_id = "''ana''"
      and tool_name = "''Lang Chain''" and now = "''T0''" and mname = "''''"
      and action = "''frobnicate''"]
  from a h1 have c1: "\<exists>r. manage_learning_session_body py0 w0 ''T0'' ''ana'' ''Lang Chain'' ''next_module'' ''''
            = (Inr r, w0)
          \<and> manage_learning_session py0 w0 ''T0'' ''ana'' ''Lang Chain'' ''next_module'' ''''
            = (r, w0)
          \<and> is_error_result r" by blast
  from b h2 have c2: "\<exists>r. manage_learning_session_body py0 w1 ''T0'' ''ana'' ''Lang Chain'' ''frobnicate'' ''''
            = (Inr r, w1)
          \<and> manage_learning_session py0 w1 ''T0'' ''ana'' ''Lang Chain'' ''frobnicate'' ''''
            = (r, w1)
          \<and> is_error_result r" by blast
  from h1 h2 c1 c2 show ?thesis by blast
qed

lemma show_int_3: "show_int 3 = ''3''"
  by (simp add: show_int_def show_nat.simps)

lemma show_int_12: "show_int 12 = ''12''"
  by (simp add: show_int_def show_nat.simps)

lemma complete_module_status:
  "status_of (fst (manage_learning_session py0 (w_module n) now ''ana'' ''Lang Chain''
       ''complete_module'' m)) = Some (PStr ''success'')"
proof -
  have f: "node_at (w_module n) [''home'', ''u'', ''session_ana_lang_chain.json'']
      = Some (File (Json (PDict (AList.update ''current_module'' (PInt n) session0))))"
    by (simp add: w_module_def node_at_put)
  from complete_ok [of "w_module n" py0 "''ana''" "''Lang Chain''", unfolded session_file_ana,
      OF resolve_session_module f, of "[]" "PInt n"]
  show ?thesis
    by (simp add: session0_def)
qed

text \<open>
  Claim C10. When the record on disk has the number \<open>n\<close> as its \<^verbatim>\<open>current_module\<close>
  and a list \<^verbatim>\<open>modules_completed\<close>, a \<^verbatim>\<open>complete_module\<close> that returns
  \<^verbatim>\<open>success\<close> has appended the entry whose \<^verbatim>\<open>module_name\<close> is \<^verbatim>\<open>Module\<close>, a
  space and the decimal numeral of \<open>n\<close> when the name given is the empty string (which is
  also the default of the parameter), and the name given, unchanged, otherwise.
\<close>

theorem default_module_label:
  assumes "file_json w (session_file py user_id tool_name) = Some (PDict d)"
    and "map_of d ''current_module'' = Some (PInt n)"
    and "map_of d ''modules_completed'' = Some (PList xs)"
    and "status_of (fst (manage_learning_session py w now user_id tool_name
                           ''complete_module'' mname)) = Some (PStr ''success'')"
  shows "file_json
           (snd (manage_learning_session py w now user_id tool_name ''complete_module'' mname))
           (session_file py user_id tool_name)
         = Some (PDict (AList.update ''modules_completed''
             (PList (xs @ [PDict [(''module_number'', PInt n),
                                  (''module_name'',
                                     PStr (if mname = '''' then ''Module '' @ show_int n
                                           else mname)),
                                  (''completed_at'', PStr now)]])) d))"
proof -
  from file_jsonD [OF assms(1)] obtain l where
    r: "resolve w (session_file py user_id tool_name) = Inr l" and
    f: "node_at w l = Some (File (Json (PDict d)))"
    by blast
  from f have nd: "node_at w l \<noteq> Some Dir" by simp
  have p: "\<not> refused w Read l \<and> \<not> refused w Write l"
  proof (rule ccontr)
    assume "\<not> (\<not> refused w Read l \<and> \<not> refused w Write l)"
    then have "status_of (fst (manage_learning_session py w now user_id tool_name
        ''complete_module'' mname)) = Some (PStr ''error'')"
      using read_refused [OF r f, of "''complete_module''" now mname]
        write_refused [OF r f, of "''complete_module''" now mname]
      by (cases "refused w Read l") auto
    with assms(4) show False by simp
  qed
  then have p1: "\<not> refused w Read l" and p2: "\<not> refused w Write l" by simp_all
  show ?thesis
    by (simp add: complete_ok [OF r f p1 p2 assms(3,2)] file_json_put [OF r nd] py_str_def)
qed

theorem default_module_label_witness:
  "file_json (w_module 3) (session_file py0 ''ana'' ''Lang Chain'')
     = Some (PDict (AList.update ''current_module'' (PInt 3) session0))
   \<and> map_of (AList.update ''current_module'' (PInt 3) session0) ''current_module''
       = Some (PInt 3)
   \<and> map_of (AList.update ''current_module'' (PInt 3) session0) ''modules_completed''
       = Some (PList [])
   \<and> status_of (fst (manage_learning_session py0 (w_module 3) ''T1'' ''ana'' ''Lang Chain''
                       ''complete_module'' '''')) = Some (PStr ''success'')
   \<and> file_json
        (snd (manage_learning_session py0 (w_module 3) ''T1'' ''ana'' ''Lang Chain''
                ''complete_module'' ''''))
        (session_file py0 ''ana'' ''Lang Chain'')
      = Some (PDict (AList.update ''modules_completed''
             (PList [PDict [(''module_number'', PInt 3),
                            (''module_name'', PStr ''Module 3''),
                            (''completed_at'', PStr ''T1'')]])
             (AList.update ''current_module'' (PInt 3) session0)))
   \<and> file_json
        (snd (manage_learning_session py0 (w_module 12) ''T1'' ''ana'' ''Lang Chain''
                ''complete_module'' ''''))
        (session_file py0 ''ana'' ''Lang Chain'')
      = Some (PDict (AList.update ''modules_completed''
             (PList [PDict [(''module_number'', PInt 12),
                            (''module_name'', PStr ''Module 12''),
                            (''completed_at'', PStr ''T1'')]])
             (AList.update ''current_module'' (PInt 12) session0)))
   \<and> file_json
        (snd (manage_learning_session py0 (w_module 3) ''T1'' ''ana'' ''Lang Chain''
                ''complete_module'' ''Basics''))
        (session_file py0 ''ana'' ''Lang Chain'')
      = Some (PDict (AList.update ''modules_completed''
             (PList [PDict [(''module_number'', PInt 3),
                            (''module_name'', PStr ''Basics''),
                            (''completed_at'', PStr ''T1'')]])
             (AList.update ''current_module'' (PInt 3) session0)))"
proof -
  have h1: "file_json (w_module n) (session_file py0 ''ana'' ''Lang Chain'')
     = Some (PDict (AList.update ''current_module'' (PInt n) session0))" for n
    by (simp add: session_file_ana file_json_module)
  have h2: "map_of (AList.update ''current_module'' (PInt n) session0) ''current_module''
       = Some (PInt n)" for n
    by (simp add: session0_def)
  have h3: "map_of (AList.update ''current_module'' (PInt n) session0) ''modules_completed''
       = Some (PList [])" for n
    by (simp add: session0_def)
  note h4 = complete_module_status
  from default_module_label [OF h1 h2 h3 h4, where now = "''T1''" and mname = "''''"
      and n = 3] show_int_3
  have c1: "file_json
        (snd (manage_learning_session py0 (w_module 3) ''T1'' ''ana'' ''Lang Chain''
                ''complete_module'' ''''))
        (session_file py0 ''ana'' ''Lang Chain'')
      = Some (PDict (AList.update ''modules_completed''
             (PList [PDict [(''module_number'', PInt 3),
                            (''module_name'', PStr ''Module 3''),
                            (''completed_at'', PStr ''T1'')]])
             (AList.update ''current_module'' (PInt 3) session0)))"
    by simp
  from default_module_label [OF h1 h2 h3 h4, where now = "''T1''" and mname = "''''"
      and n = 12] show_int_12
  have c2: "file_json
        (snd (manage_learning_session py0 (w_module 12) ''T1'' ''ana'' ''Lang Chain''
                ''complete_module'' ''''))
        (session_file py0 ''ana'' ''Lang Chain'')
      = Some (PDict (AList.update ''modules_completed''
             (PList [PDict [(''module_number'', PInt 12),
                            (''module_name'', PStr ''Module 12''),
                            (''completed_at'', PStr ''T1'')]])
             (AList.update ''current_module'' (PInt 12) session0)))"
    by simp
  from default_module_label [OF h1 h2 h3 h4, where now = "''T1''" and mname = "''Basics''"
      and n = 3]
  have c3: "file_json
        (snd (manage_learning_session py0 (w_module 3) ''T1'' ''ana'' ''Lang Chain''
                ''complete_module'' ''Basics''))
        (session_file py0 ''ana'' ''Lang Chain'')
      = Some (PDict (AList.update ''modules_completed''
             (PList [PDict [(''module_number'', PInt 3),
                            (''module_name'', PStr ''Basics''),
                            (''completed_at'', PStr ''T1'')]])
             (AList.update ''current_module'' (PInt 3) session0)))"
    by simp
  from h1 [of 3] h2 [of 3] h3 [of 3] h4 [of 3 "''T1''" "''''"] c1 c2 c3 show ?thesis by blast
qed

lemma start_stores_zero:
  assumes "writable w (session_file py u t)"
  shows "stored_module py (snd (manage_learning_session py w now u t ''start'' m)) u t = Some 0"
proof -
  from assms obtain l where o: "open_write w (session_file py u t) = Inr l"
    by (auto simp: writable_def split: sum.splits)
  from open_write_cases [OF o] show ?thesis
    by (simp add: start_ok [OF o] stored_module_put)
qed

lemma stored_w1: "stored_module py0 w1 ''ana'' ''Lang Chain'' = Some 0"
  by (simp add: stored_module_def session_file_ana file_json_w1 getitem_def session0_def)

lemma writable_w1: "writable w1 (session_file py0 ''ana'' ''Lang Chain'')"
  using open_write_file [OF resolve_session_w1 node_session_w1]
  by (simp add: writable_def session_file_ana)

lemma start_w0:
  "snd (manage_learning_session py0 w0 ''T0'' ''ana'' ''Lang Chain'' ''start'' '''') = w1"
  using start_ok [of w0 py0 "''ana''" "''Lang Chain''", unfolded session_file_ana,
      OF open_session_w0]
  by (simp add: w1_def session0_def)

text \<open>
  Counterexample to claim C4 as stated: a \<^verbatim>\<open>start\<close> issued while a record exists sets the
  stored number back. After \<^verbatim>\<open>start\<close> and \<^verbatim>\<open>next_module\<close> it is 1, after one more
  \<^verbatim>\<open>start\<close> it is 0.
\<close>

theorem start_resets_module:
  "stored_module py0
     (run_session py0 w0 ''ana'' ''Lang Chain''
        [(''start'', '''', ''T0''), (''next_module'', '''', ''T1'')])
     ''ana'' ''Lang Chain'' = Some 1
   \<and> stored_module py0
     (run_session py0 w0 ''ana'' ''Lang Chain''
        [(''start'', '''', ''T0''), (''next_module'', '''', ''T1''), (''start'', '''', ''T2'')])
     ''ana'' ''Lang Chain'' = Some 0"
proof -
  let ?w2 = "snd (manage_learning_session py0 w1 ''T1'' ''ana'' ''Lang Chain'' ''next_module'' '''')"
  have r: "resolve w1 (session_file py0 ''ana'' ''Lang Chain'')
      = Inr [''home'', ''u'', ''session_ana_lang_chain.json'']"
    by (simp add: session_file_ana resolve_session_w1)
  have c: "map_of session0 ''current_module'' = Some (PInt 0)"
    by (simp add: session0_def)
  have nd: "node_at w1 [''home'', ''u'', ''session_ana_lang_chain.json''] \<noteq> Some Dir"
    by (simp add: node_session_w1)
  have w2: "?w2 = put_node w1 [''home'', ''u'', ''session_ana_lang_chain.json'']
      (File (Json (PDict (AList.update ''current_module'' (PInt 1) session0))))"
    using next_ok [OF r node_session_w1 _ _ c, of "''T1''" "''''"] by simp
  have one: "stored_module py0 ?w2 ''ana'' ''Lang Chain'' = Some 1"
    unfolding w2 by (simp add: stored_module_put [OF r nd] update_conv' c)
  have "open_write ?w2 (session_file py0 ''ana'' ''Lang Chain'')
      = Inr [''home'', ''u'', ''session_ana_lang_chain.json'']"
    unfolding w2
    by (rule open_write_file [OF resolve_put_file [OF r nd]]) (simp_all add: node_at_put)
  then have "writable ?w2 (session_file py0 ''ana'' ''Lang Chain'')"
    by (simp add: writable_def)
  from start_stores_zero [OF this] one show ?thesis
    by (simp add: start_w0)
qed

text \<open>
  Claim C4, amended. Over any sequence of calls for one user and tool in which no action
  is \<^verbatim>\<open>start\<close>, the number stored as \<^verbatim>\<open>current_module\<close> never decreases. A
  \<^verbatim>\<open>start\<close> on a session file that can be written stores 0, whatever was there.
\<close>

theorem module_monotone_without_start:
  "(stored_module py w user_id tool_name = Some n \<and> list_all (\<lambda>c. fst c \<noteq> ''start'') calls
      \<longrightarrow> (\<exists>k. n \<le> k
             \<and> stored_module py (run_session py w user_id tool_name calls) user_id tool_name
                 = Some k))
   \<and> (writable w (session_file py user_id tool_name)
      \<longrightarrow> stored_module py
            (snd (manage_learning_session py w now user_id tool_name ''start'' mname))
            user_id tool_name = Some 0)"
  using run_keeps_module start_stores_zero by blast

theorem module_monotone_without_start_witness:
  "stored_module py0 w1 ''ana'' ''Lang Chain'' = Some 0
   \<and> list_all (\<lambda>c. fst c \<noteq> ''start'')
        [(''next_module'', '''', ''T1''), (''complete_module'', ''Basics'', ''T2''),
         (''get_current'', '''', ''T3''), (''frobnicate'', '''', ''T4'')]
   \<and> (\<exists>k. 0 \<le> k
          \<and> stored_module py0
               (run_session py0 w1 ''ana'' ''Lang Chain''
                  [(''next_module'', '''', ''T1''), (''complete_module'', ''Basics'', ''T2''),
                   (''get_current'', '''', ''T3''), (''frobnicate'', '''', ''T4'')])
               ''ana'' ''Lang Chain'' = Some k)
   \<and> writable w1 (session_file py0 ''ana'' ''Lang Chain'')
   \<and> stored_module py0
        (snd (manage_learning_session py0 w1 ''T5'' ''ana'' ''Lang Chain'' ''start'' ''''))
        ''ana'' ''Lang Chain'' = Some 0"
proof -
  have h1: "stored_module py0 w1 ''ana'' ''Lang Chain'' = Some 0
      \<and> list_all (\<lambda>c. fst c \<noteq> ''start'')
        [(''next_module'', '''', ''T1''), (''complete_module'', ''Basics'', ''T2''),
         (''get_current'', '''', ''T3''), (''frobnicate'', '''', ''T4'')]"
    using stored_w1 by simp
  have h2: "writable w1 (session_file py0 ''ana'' ''Lang Chain'')"
    by (rule writable_w1)
  note a = module_monotone_without_start [where w = w1 and py = py0 and user_id = "''ana''"
      and tool_name = "''Lang Chain''" and n = 0 and now = "''T5''" and mname = "''''"
      and calls = "[(''next_module'', '''', ''T1''), (''complete_module'', ''Basics'', ''T2''),
         (''get_current'', '''', ''T3''), (''frobnicate'', '''', ''T4'')]"]
  from a h1 have c1: "\<exists>k. 0 \<le> k
          \<and> stored_module py0
               (run_session py0 w1 ''ana'' ''Lang Chain''
                  [(''next_module'', '''', ''T1''), (''complete_module'', ''Basics'', ''T2''),
                   (''get_current'', '''', ''T3''), (''frobnicate'', '''', ''T4'')])
               ''ana'' ''Lang Chain'' = Some k" by blast
  from a h2 have c2: "stored_module py0
        (snd (manage_learning_session py0 w1 ''T5'' ''ana'' ''Lang Chain'' ''start'' ''''))
        ''ana'' ''Lang Chain'' = Some 0" by blast
  from h1 h2 c1 c2 show ?thesis by blast
qed

section \<open>Keys of the stores\<close>

lemma same_slug_same_folder:
  assumes "folder_name py t = folder_name py t'"
  shows "create_tool_folder py w t = create_tool_folder py w t'"
    and "save_to_tool_folder py w t f c = save_to_tool_folder py w t' f c"
    and "read_from_tool_folder py w t f = read_from_tool_folder py w t' f"
proof -
  have fp: "folder_path py c t = folder_path py c t'" for c
    by (simp add: folder_path_def assms)
  show "create_tool_folder py w t = create_tool_folder py w t'"
    unfolding create_tool_folder_def create_tool_folder_body_def assms fp by (rule refl)
  show "save_to_tool_folder py w t f c = save_to_tool_folder py w t' f c"
    unfolding save_to_tool_folder_def save_to_tool_folder_body_def assms fp by (rule refl)
  show "read_from_tool_folder py w t f = read_from_tool_folder py w t' f"
    unfolding read_from_tool_folder_def read_from_tool_folder_body_def assms fp by (rule refl)
qed

lemma add_first_milestone:
  "add_milestone (PDict [(''user_id'', PStr u), (''tools'', PDict [])]) t ms c t1 t2 =
     Inr (PDict [(''user_id'', PStr u),
                 (''tools'', PDict [(t, PDict [(''started'', PStr t1),
                                              (''milestones'',
                                                 PList [PDict [(''milestone'', PStr ms),
                                                               (''completed'', PBool c),
                                                               (''timestamp'', PStr t2)]])])])],
          1)"
  by (simp add: add_milestone_def getitem_def setitem_def)

text \<open>
  Counterexample to claim C3 as stated: the session file name keeps the hyphen, so the
  tool names \<^verbatim>\<open>lang chain\<close> and \<^verbatim>\<open>lang-chain\<close> have different session files.
\<close>

theorem session_slug_keeps_hyphen:
  "session_file py0 ''ana'' ''lang chain'' \<noteq> session_file py0 ''ana'' ''lang-chain''"
  by (simp add: session_file_def str_lower_def is_ascii_def lower_char_def replace_char_def)

text \<open>
  Claim C3, amended. The folder name is the tool name lower-cased with its spaces and
  hyphens turned into underscores: \<^verbatim>\<open>FastAPI\<close> gives \<^verbatim>\<open>fastapi\<close>, \<^verbatim>\<open>Lang Chain\<close> gives
  \<^verbatim>\<open>lang_chain\<close>, and \<^verbatim>\<open>lang chain\<close> and \<^verbatim>\<open>lang-chain\<close> give the same name. The three
  folder functions depend on the tool name through this folder name only. The session
  file is named with the folder name whenever the lower-cased tool name has no hyphen.
  The progress file is named by the user alone, and a new tool entry in it is keyed by
  the tool name as it was given.
\<close>

theorem tool_slug_keys:
  "folder_name py ''FastAPI'' = ''fastapi''
   \<and> folder_name py ''Lang Chain'' = ''lang_chain''
   \<and> folder_name py ''lang chain'' = folder_name py ''lang-chain''
   \<and> (folder_name py t = folder_name py t' \<longrightarrow>
        create_tool_folder py w t = create_tool_folder py w t'
        \<and> save_to_tool_folder py w t filename content = save_to_tool_folder py w t' filename content
        \<and> read_from_tool_folder py w t filename = read_from_tool_folder py w t' filename)
   \<and> (CHR ''-'' \<notin> set (str_lower py t) \<longrightarrow>
        session_file py user_id t = ''session_'' @ user_id @ ''_'' @ folder_name py t @ ''.json'')
   \<and> progress_file user_id = ''progress_'' @ user_id @ ''.json''
   \<and> (\<exists>entry. add_milestone (PDict [(''user_id'', PStr user_id), (''tools'', PDict [])])
                  t milestone completed t_started t_stamp
                = Inr (PDict [(''user_id'', PStr user_id), (''tools'', PDict [(t, entry)])], 1))"
proof -
  have a: "folder_name py ''FastAPI'' = ''fastapi''"
    by (simp add: folder_name_def str_lower_def is_ascii_def lower_char_def replace_char_def)
  have b: "folder_name py ''Lang Chain'' = ''lang_chain''"
    by (simp add: folder_name_def str_lower_def is_ascii_def lower_char_def replace_char_def)
  have c: "folder_name py ''lang chain'' = folder_name py ''lang-chain''"
    by (simp add: folder_name_def str_lower_def is_ascii_def lower_char_def replace_char_def)
  have d: "replace_char (CHR ''-'') (CHR ''_'') (replace_char (CHR '' '') (CHR ''_'') s)
           = replace_char (CHR '' '') (CHR ''_'') s" if "CHR ''-'' \<notin> set s" for s
    using that by (induction s) (auto simp: replace_char_def)
  have e: "CHR ''-'' \<notin> set (str_lower py t) \<longrightarrow>
        session_file py user_id t = ''session_'' @ user_id @ ''_'' @ folder_name py t @ ''.json''"
    by (simp add: session_file_def folder_name_def d)
  show ?thesis
    using a b c e same_slug_same_folder [of py t t'] add_first_milestone
    by (simp add: progress_file_def)
qed

theorem tool_slug_keys_witness:
  "folder_name py0 ''Lang Chain'' = folder_name py0 ''lang-chain''
   \<and> create_tool_folder py0 w0 ''Lang Chain'' = create_tool_folder py0 w0 ''lang-chain''
   \<and> save_to_tool_folder py0 w0 ''Lang Chain'' ''roadmap.md'' ''steps''
       = save_to_tool_folder py0 w0 ''lang-chain'' ''roadmap.md'' ''steps''
   \<and> read_from_tool_folder py0 w0 ''Lang Chain'' ''roadmap.md''
       = read_from_tool_folder py0 w0 ''lang-chain'' ''roadmap.md''
   \<and> CHR ''-'' \<notin> set (str_lower py0 ''Lang Chain'')
   \<and> session_file py0 ''ana'' ''Lang Chain''
       = ''session_'' @ ''ana'' @ ''_'' @ folder_name py0 ''Lang Chain'' @ ''.json''"
proof -
  have h1: "folder_name py0 ''Lang Chain'' = folder_name py0 ''lang-chain''"
    by (simp add: folder_name_def str_lower_def is_ascii_def lower_char_def replace_char_def)
  have h2: "CHR ''-'' \<notin> set (str_lower py0 ''Lang Chain'')"
    by (simp add: str_lower_def is_ascii_def lower_char_def)
  note a = tool_slug_keys [where py = py0 and t = "''Lang Chain''" and t' = "''lang-chain''"
      and w = w0 and filename = "''roadmap.md''" and content = "''steps''"
      and user_id = "''ana''"]
  from a h1 have c1: "create_tool_folder py0 w0 ''Lang Chain'' = create_tool_folder py0 w0 ''lang-chain''
   \<and> save_to_tool_folder py0 w0 ''Lang Chain'' ''roadmap.md'' ''steps''
       = save_to_tool_folder py0 w0 ''lang-chain'' ''roadmap.md'' ''steps''
   \<and> read_from_tool_folder py0 w0 ''Lang Chain'' ''roadmap.md''
       = read_from_tool_folder py0 w0 ''lang-chain'' ''roadmap.md''" by blast
  from a h2 have c2: "session_file py0 ''ana'' ''Lang Chain''
       = ''session_'' @ ''ana'' @ ''_'' @ folder_name py0 ''Lang Chain'' @ ''.json''" by blast
  from h1 h2 c1 c2 show ?thesis by blast
qed

section \<open>Progress store\<close>

lemma tool_milestonesD:
  assumes "tool_milestones pd t = Some xs"
  shows "\<exists>d td ed. pd = PDict d \<and> map_of d ''tools'' = Some (PDict td)
           \<and> map_of td t = Some (PDict ed) \<and> map_of ed ''milestones'' = Some (PList xs)"
proof -
  from assms obtain tools where a: "getitem pd ''tools'' = Inr tools"
    by (auto simp: tool_milestones_def split: sum.splits)
  with assms obtain entry where b: "getitem tools t = Inr entry"
    by (auto simp: tool_milestones_def split: sum.splits)
  with a assms have c: "getitem entry ''milestones'' = Inr (PList xs)"
    by (auto simp: tool_milestones_def split: sum.splits pyval.splits)
  from a obtain d where "pd = PDict d" "map_of d ''tools'' = Some tools"
    by (auto simp: getitem_def split: pyval.splits option.splits)
  moreover from b obtain td where "tools = PDict td" "map_of td t = Some entry"
    by (auto simp: getitem_def split: pyval.splits option.splits)
  moreover from c obtain ed where "entry = PDict ed" "map_of ed ''milestones'' = Some (PList xs)"
    by (auto simp: getitem_def split: pyval.splits option.splits)
  ultimately show ?thesis by blast
qed

lemma add_next_milestone:
  assumes "map_of d ''tools'' = Some (PDict td)" "map_of td t = Some (PDict ed)"
    "map_of ed ''milestones'' = Some (PList xs)"
  shows "add_milestone (PDict d) t ms c t1 t2 =
     Inr (PDict (AList.update ''tools''
            (PDict (AList.update t
               (PDict (AList.update ''milestones''
                  (PList (xs @ [PDict [(''milestone'', PStr ms),
                                       (''completed'', PBool c),
                                       (''timestamp'', PStr t2)]])) ed)) td)) d),
          int (length xs) + 1)"
  using assms by (simp add: add_milestone_def getitem_def setitem_def)

text \<open>What a call of \<^verbatim>\<open>track_progress\<close> that returns \<^verbatim>\<open>success\<close> has done.\<close>

lemma track_success:
  assumes "status_of (fst (track_progress py w t1 t2 u t ms c)) = Some (PStr ''success'')"
  shows "\<exists>pd0 pd' n l.
           (if path_exists w (progress_file u) then load_json w (progress_file u) = Inr pd0
            else pd0 = PDict [(''user_id'', PStr u), (''tools'', PDict [])])
           \<and> add_milestone pd0 t ms c t1 t2 = Inr (pd', n)
           \<and> open_write w (progress_file u) = Inr l
           \<and> snd (track_progress py w t1 t2 u t ms c) = put_node w l (File (Json pd'))"
proof -
  let ?load = "if path_exists w (progress_file u) then load_json w (progress_file u)
            else Inr (PDict [(''user_id'', PStr u), (''tools'', PDict [])])"
  obtain pd0 where l: "?load = Inr pd0"
  proof (cases ?load)
    case (Inl e)
    then have "fst (track_progress py w t1 t2 u t ms c)
        = error_result py ''Failed to track progress: '' e"
      by (simp add: track_progress_def track_progress_body_def)
    with assms show ?thesis by simp
  next
    case (Inr v)
    with that show ?thesis by blast
  qed
  obtain pd' n where a: "add_milestone pd0 t ms c t1 t2 = Inr (pd', n)"
  proof (cases "add_milestone pd0 t ms c t1 t2")
    case (Inl e)
    with l have "fst (track_progress py w t1 t2 u t ms c)
        = error_result py ''Failed to track progress: '' e"
      by (simp add: track_progress_def track_progress_body_def)
    with assms show ?thesis by simp
  next
    case (Inr v)
    with that show ?thesis by (cases v) blast
  qed
  obtain l' where o: "open_write w (progress_file u) = Inr l'"
  proof (cases "open_write w (progress_file u)")
    case (Inl e)
    with l a have "fst (track_progress py w t1 t2 u t ms c)
        = error_result py ''Failed to track progress: '' e"
      by (simp add: track_progress_def track_progress_body_def dump_json_def write_file_fail)
    with assms show ?thesis by simp
  next
    case (Inr v)
    with that show ?thesis by blast
  qed
  from l a o have "snd (track_progress py w t1 t2 u t ms c) = put_node w l' (File (Json pd'))"
    by (simp add: track_progress_def track_progress_body_def dump_json_def write_file_ok)
  with l a o show ?thesis
    by (intro exI [of _ pd0] exI [of _ pd'] exI [of _ n] exI [of _ l'])
       (auto split: if_splits)
qed

lemma track_first:
  assumes "\<not> path_exists w (progress_file u)"
    "status_of (fst (track_progress py w t1 t2 u t ms c)) = Some (PStr ''success'')"
  shows "\<exists>pd xs. file_json (snd (track_progress py w t1 t2 u t ms c)) (progress_file u) = Some pd
           \<and> tool_milestones pd t = Some xs \<and> length xs = 1"
proof -
  let ?pd = "PDict [(''user_id'', PStr u),
                 (''tools'', PDict [(t, PDict [(''started'', PStr t1),
                                              (''milestones'',
                                                 PList [PDict [(''milestone'', PStr ms),
                                                               (''completed'', PBool c),
                                                               (''timestamp'', PStr t2)]])])])]"
  from track_success [OF assms(2)] assms(1) obtain l where
    o: "open_write w (progress_file u) = Inr l" and
    s: "snd (track_progress py w t1 t2 u t ms c) = put_node w l (File (Json ?pd))"
    by (auto simp: add_first_milestone)
  have "tool_milestones ?pd t = Some [PDict [(''milestone'', PStr ms),
                                                      (''completed'', PBool c),
                                                      (''timestamp'', PStr t2)]]"
    by (simp add: tool_milestones_def getitem_def)
  with open_write_cases [OF o] s show ?thesis
    by (simp add: file_json_put)
qed

lemma track_next:
  assumes "file_json w (progress_file u) = Some pd" "tool_milestones pd t = Some xs"
    "status_of (fst (track_progress py w t1 t2 u t ms c)) = Some (PStr ''success'')"
  shows "\<exists>pd' xs'. file_json (snd (track_progress py w t1 t2 u t ms c)) (progress_file u) = Some pd'
           \<and> tool_milestones pd' t = Some xs' \<and> length xs' = length xs + 1"
proof -
  from tool_milestonesD [OF assms(2)] obtain d td ed where
    pd: "pd = PDict d" and a: "map_of d ''tools'' = Some (PDict td)"
    and b: "map_of td t = Some (PDict ed)" and m: "map_of ed ''milestones'' = Some (PList xs)"
    by blast
  let ?xs = "xs @ [PDict [(''milestone'', PStr ms), (''completed'', PBool c),
                          (''timestamp'', PStr t2)]]"
  let ?pd = "PDict (AList.update ''tools''
            (PDict (AList.update t (PDict (AList.update ''milestones'' (PList ?xs) ed)) td)) d)"
  from track_success [OF assms(3)] file_json_exists [OF assms(1)] obtain pd0 pd' n l where
    ld: "load_json w (progress_file u) = Inr pd0" and
    ad: "add_milestone pd0 t ms c t1 t2 = Inr (pd', n)" and
    o: "open_write w (progress_file u) = Inr l" and
    s: "snd (track_progress py w t1 t2 u t ms c) = put_node w l (File (Json pd'))"
    by auto
  from load_json_file_json [OF ld] assms(1) pd have "pd0 = PDict d" by simp
  with ad add_next_milestone [OF a b m, of ms c t1 t2] have "pd' = ?pd" by simp
  moreover have "tool_milestones ?pd t = Some ?xs"
    by (simp add: tool_milestones_def getitem_def update_conv')
  ultimately show ?thesis
    using open_write_cases [OF o] s by (simp add: file_json_put)
qed

lemma track_all_count:
  "file_json w (progress_file u) = Some pd \<Longrightarrow> tool_milestones pd t = Some xs
     \<Longrightarrow> all_tracked py w u t calls
     \<Longrightarrow> \<exists>pd' xs'. file_json (track_all py w u t calls) (progress_file u) = Some pd'
           \<and> tool_milestones pd' t = Some xs' \<and> length xs' = length xs + length calls"
proof (induction calls arbitrary: w pd xs)
  case Nil
  then show ?case by simp
next
  case (Cons call calls)
  obtain ms c t1 t2 where call: "call = (ms, c, t1, t2)" by (cases call) auto
  from Cons.prems(3) call have
    ok: "status_of (fst (track_progress py w t1 t2 u t ms c)) = Some (PStr ''success'')"
    and rest: "all_tracked py (snd (track_progress py w t1 t2 u t ms c)) u t calls"
    by simp_all
  from track_next [OF Cons.prems(1,2) ok] obtain pd1 xs1 where
    s: "file_json (snd (track_progress py w t1 t2 u t ms c)) (progress_file u) = Some pd1"
    "tool_milestones pd1 t = Some xs1" "length xs1 = length xs + 1"
    by blast
  from Cons.IH [OF s(1,2) rest] s(3) call show ?case by auto
qed

lemma summary_milestones:
  assumes "file_json w (progress_file u) = Some pd" "tool_milestones pd t = Some xs"
    "status_of (get_progress_summary py w u) = Some (PStr ''success'')"
  shows "tool_milestones (get_progress_summary py w u) t = Some xs"
proof -
  from file_json_exists [OF assms(1)] have ex: "path_exists w (progress_file u)" .
  from tool_milestonesD [OF assms(2)] obtain d td ed where
    pd: "pd = PDict d" and a: "map_of d ''tools'' = Some (PDict td)"
    and b: "map_of td t = Some (PDict ed)" and m: "map_of ed ''milestones'' = Some (PList xs)"
    by blast
  show ?thesis
  proof (cases "load_json w (progress_file u)")
    case (Inl e)
    with ex have "get_progress_summary py w u
        = error_result py ''Failed to retrieve progress: '' e"
      by (simp add: get_progress_summary_def get_progress_summary_body_def)
    with assms(3) show ?thesis by simp
  next
    case (Inr pd0)
    from load_json_file_json [OF this] assms(1) pd have "pd0 = PDict d" by simp
    with Inr ex a b m show ?thesis
      by (simp add: get_progress_summary_def get_progress_summary_body_def getitem_def py_len_def
          tool_milestones_def)
  qed
qed

lemma progress_file_team: "progress_file ''team/ana'' = ''progress_team/ana.json''"
  by (simp add: progress_file_def)

lemma resolve_progress_team: "resolve w0 ''progress_team/ana.json'' = Inl FileNotFoundError"
  by (simp add: resolve_def path_error_def locate_def w0_def node_at_def)

text \<open>
  Counterexample to claim C7 as stated. For the user id \<^verbatim>\<open>team/ana\<close> in an empty working
  directory, the progress file is \<^verbatim>\<open>progress_team/ana.json\<close>, in a directory that does
  not exist: the store is absent, the call of \<^verbatim>\<open>track_progress\<close> returns the status
  \<^verbatim>\<open>error\<close>, and the summary read afterwards has no entry for the tool.
\<close>

theorem track_progress_records_nothing:
  "\<not> path_exists w0 (progress_file ''team/ana'')
   \<and> status_of (fst (track_progress py0 w0 ''T0'' ''T1'' ''team/ana'' ''Lang Chain''
                       ''Read the docs'' True)) = Some (PStr ''error'')
   \<and> tool_milestones
        (get_progress_summary py0
           (track_all py0 w0 ''team/ana'' ''Lang Chain'' [(''Read the docs'', True, ''T0'', ''T1'')])
           ''team/ana'')
        ''Lang Chain'' = None"
proof -
  have e: "\<not> path_exists w0 (progress_file ''team/ana'')"
    by (simp add: progress_file_team path_exists_def resolve_progress_team)
  have o: "open_write w0 (progress_file ''team/ana'') = Inl FileNotFoundError"
    by (simp add: progress_file_team open_write_def resolve_progress_team)
  have t: "track_progress py0 w0 ''T0'' ''T1'' ''team/ana'' ''Lang Chain'' ''Read the docs'' True
      = (error_result py0 ''Failed to track progress: '' FileNotFoundError, w0)"
    using e o
    by (simp add: track_progress_def track_progress_body_def add_first_milestone dump_json_def
        write_file_fail)
  have s: "get_progress_summary py0 w0 ''team/ana''
      = PDict [(''status'', PStr ''success''),
               (''message'', PStr ''No progress recorded yet''),
               (''tools_count'', PInt 0),
               (''tools'', PDict [])]"
    using e by (simp add: get_progress_summary_def get_progress_summary_body_def)
  from e t s show ?thesis
    by (simp add: tool_milestones_def getitem_def)
qed

text \<open>
  Claim C7, amended. Starting from a world in which the user's progress file does not
  exist, after any non-empty sequence of \<^verbatim>\<open>track_progress\<close> calls for one user and tool
  that each return the status \<^verbatim>\<open>success\<close>, a \<^verbatim>\<open>get_progress_summary\<close> that returns
  \<^verbatim>\<open>success\<close> has a \<^verbatim>\<open>tools\<close> entry for the tool whose \<^verbatim>\<open>milestones\<close> list is as
  long as the sequence of calls.
\<close>

theorem milestones_round_trip:
  assumes "\<not> path_exists w (progress_file user_id)"
    and "calls \<noteq> []"
    and "all_tracked py w user_id tool_name calls"
    and "status_of (get_progress_summary py (track_all py w user_id tool_name calls) user_id)
           = Some (PStr ''success'')"
  shows "\<exists>xs. tool_milestones
                (get_progress_summary py (track_all py w user_id tool_name calls) user_id)
                tool_name = Some xs
             \<and> length xs = length calls"
proof -
  from assms(2) obtain call rest where calls: "calls = call # rest" by (cases calls) auto
  obtain ms c t1 t2 where call: "call = (ms, c, t1, t2)" by (cases call) auto
  from assms(3) calls call have
    ok: "status_of (fst (track_progress py w t1 t2 user_id tool_name ms c))
           = Some (PStr ''success'')"
    and rest: "all_tracked py (snd (track_progress py w t1 t2 user_id tool_name ms c))
                 user_id tool_name rest"
    by simp_all
  from track_first [OF assms(1) ok] obtain pd1 xs1 where
    s: "file_json (snd (track_progress py w t1 t2 user_id tool_name ms c)) (progress_file user_id)
          = Some pd1"
    "tool_milestones pd1 tool_name = Some xs1" "length xs1 = 1"
    by blast
  from track_all_count [OF s(1,2) rest] obtain pd' xs' where
    e: "file_json (track_all py w user_id tool_name calls) (progress_file user_id) = Some pd'"
    "tool_milestones pd' tool_name = Some xs'" "length xs' = length xs1 + length rest"
    using calls call by auto
  from summary_milestones [OF e(1,2) assms(4)] e(3) s(3) calls show ?thesis by simp
qed

lemma track_first_ok:
  assumes "\<not> path_exists w (progress_file u)" "open_write w (progress_file u) = Inr l"
  shows "track_progress py w t1 t2 u t ms c =
     (PDict [(''status'', PStr ''success''),
             (''message'', PStr (''Progress tracked: '' @ ms)),
             (''total_milestones'', PInt 1)],
      put_node w l (File (Json (PDict [(''user_id'', PStr u),
                 (''tools'', PDict [(t, PDict [(''started'', PStr t1),
                                              (''milestones'',
                                                 PList [PDict [(''milestone'', PStr ms),
                                                               (''completed'', PBool c),
                                                               (''timestamp'', PStr t2)]])])])]))))"
  using assms
  by (simp add: track_progress_def track_progress_body_def add_first_milestone dump_json_def
      write_file_ok)

lemma track_next_ok:
  assumes "resolve w (progress_file u) = Inr l" "node_at w l = Some (File (Json (PDict d)))"
    "\<not> refused w Read l" "\<not> refused w Write l"
    "map_of d ''tools'' = Some (PDict td)" "map_of td t = Some (PDict ed)"
    "map_of ed ''milestones'' = Some (PList xs)"
  shows "track_progress py w t1 t2 u t ms c =
     (PDict [(''status'', PStr ''success''),
             (''message'', PStr (''Progress tracked: '' @ ms)),
             (''total_milestones'', PInt (int (length xs) + 1))],
      put_node w l (File (Json (PDict (AList.update ''tools''
            (PDict (AList.update t
               (PDict (AList.update ''milestones''
                  (PList (xs @ [PDict [(''milestone'', PStr ms),
                                       (''completed'', PBool c),
                                       (''timestamp'', PStr t2)]])) ed)) td)) d)))))"
proof -
  from assms(1,2,4) have o: "open_write w (progress_file u) = Inr l"
    by (simp add: open_write_file)
  from assms(1,2) have e: "path_exists w (progress_file u)"
    by (simp add: path_exists_iff)
  from e o load_json_ok [OF assms(1,2,3)] add_next_milestone [OF assms(5,6,7), of ms c t1 t2]
  show ?thesis
    by (simp add: track_progress_def track_progress_body_def dump_json_def write_file_ok)
qed

lemma summary_ok:
  assumes "resolve w (progress_file u) = Inr l" "node_at w l = Some (File (Json (PDict d)))"
    "\<not> refused w Read l" "map_of d ''tools'' = Some (PDict td)"
  shows "get_progress_summary py w u =
     PDict [(''status'', PStr ''success''),
            (''user_id'', PStr u),
            (''tools_count'', PInt (int (length (remdups (map fst td))))),
            (''tools'', PDict td)]"
proof -
  from assms(1,2) have e: "path_exists w (progress_file u)"
    by (simp add: path_exists_iff)
  from e load_json_ok [OF assms(1,2,3)] assms(4) show ?thesis
    by (simp add: get_progress_summary_def get_progress_summary_body_def getitem_def py_len_def)
qed

lemma resolve_progress_w0: "resolve w0 ''progress_ana.json'' = Inr [''home'', ''u'', ''progress_ana.json'']"
  by (simp add: resolve_def path_error_def locate_def w0_def node_at_def)

lemma node_progress_w0: "node_at w0 [''home'', ''u'', ''progress_ana.json''] = None"
  by (simp add: w0_def node_at_def)

theorem milestones_round_trip_witness:
  "\<not> path_exists w0 (progress_file ''ana'')
   \<and> [(''Read the docs'', True, ''T0'', ''T1''), (''First chain'', False, ''T2'', ''T3'')] \<noteq> []
   \<and> all_tracked py0 w0 ''ana'' ''Lang Chain''
        [(''Read the docs'', True, ''T0'', ''T1''), (''First chain'', False, ''T2'', ''T3'')]
   \<and> status_of
        (get_progress_summary py0
           (track_all py0 w0 ''ana'' ''Lang Chain''
              [(''Read the docs'', True, ''T0'', ''T1''),
               (''First chain'', False, ''T2'', ''T3'')])
           ''ana'') = Some (PStr ''success'')
   \<and> (\<exists>xs. tool_milestones
              (get_progress_summary py0
                 (track_all py0 w0 ''ana'' ''Lang Chain''
                    [(''Read the docs'', True, ''T0'', ''T1''),
                     (''First chain'', False, ''T2'', ''T3'')])
                 ''ana'')
              ''Lang Chain'' = Some xs
          \<and> length xs = 2)"
proof -
  let ?l = "[''home'', ''u'', ''progress_ana.json'']"
  let ?m1 = "PDict [(''milestone'', PStr ''Read the docs''), (''completed'', PBool True),
                    (''timestamp'', PStr ''T1'')]"
  let ?m2 = "PDict [(''milestone'', PStr ''First chain''), (''completed'', PBool False),
                    (''timestamp'', PStr ''T3'')]"
  let ?ed = "[(''started'', PStr ''T0''), (''milestones'', PList [?m1])]"
  let ?td = "[(''Lang Chain'', PDict ?ed)]"
  let ?d = "[(''user_id'', PStr ''ana''), (''tools'', PDict ?td)]"
  let ?wa = "put_node w0 ?l (File (Json (PDict ?d)))"
  let ?d2 = "AList.update ''tools''
            (PDict (AList.update ''Lang Chain''
               (PDict (AList.update ''milestones'' (PList ([?m1] @ [?m2])) ?ed)) ?td)) ?d"
  let ?wb = "put_node ?wa ?l (File (Json (PDict ?d2)))"
  have r0: "resolve w0 (progress_file ''ana'') = Inr ?l"
    by (simp add: progress_file_def resolve_progress_w0)
  have n0: "node_at w0 ?l = None"
    by (rule node_progress_w0)
  have h1: "\<not> path_exists w0 (progress_file ''ana'')"
    using r0 n0 by (simp add: path_exists_iff)
  have h2: "[(''Read the docs'', True, ''T0'', ''T1''), (''First chain'', False, ''T2'', ''T3'')] \<noteq> []"
    by simp
  have o0: "open_write w0 (progress_file ''ana'') = Inr ?l"
    using r0 n0 by (simp add: open_write_new)
  have t1: "track_progress py0 w0 ''T0'' ''T1'' ''ana'' ''Lang Chain'' ''Read the docs'' True
      = (PDict [(''status'', PStr ''success''),
                (''message'', PStr (''Progress tracked: '' @ ''Read the docs'')),
                (''total_milestones'', PInt 1)], ?wa)"
    by (rule track_first_ok [OF h1 o0])
  have ra: "resolve ?wa (progress_file ''ana'') = Inr ?l"
    using r0 n0 by (simp add: resolve_put_file)
  have na: "node_at ?wa ?l = Some (File (Json (PDict ?d)))"
    by (simp add: node_at_put)
  have t2: "track_progress py0 ?wa ''T2'' ''T3'' ''ana'' ''Lang Chain'' ''First chain'' False
      = (PDict [(''status'', PStr ''success''),
                (''message'', PStr (''Progress tracked: '' @ ''First chain'')),
                (''total_milestones'', PInt (int (length [?m1]) + 1))], ?wb)"
    by (rule track_next_ok [OF ra na]) simp_all
  have rb: "resolve ?wb (progress_file ''ana'') = Inr ?l"
    using ra na by (simp add: resolve_put_file)
  have nb: "node_at ?wb ?l = Some (File (Json (PDict ?d2)))"
    by (simp add: node_at_put)
  have all: "track_all py0 w0 ''ana'' ''Lang Chain''
              [(''Read the docs'', True, ''T0'', ''T1''),
               (''First chain'', False, ''T2'', ''T3'')] = ?wb"
    by (simp add: t1 t2)
  have h3: "all_tracked py0 w0 ''ana'' ''Lang Chain''
        [(''Read the docs'', True, ''T0'', ''T1''), (''First chain'', False, ''T2'', ''T3'')]"
    by (simp add: t1 t2)
  have h4: "status_of
        (get_progress_summary py0
           (track_all py0 w0 ''ana'' ''Lang Chain''
              [(''Read the docs'', True, ''T0'', ''T1''),
               (''First chain'', False, ''T2'', ''T3'')])
           ''ana'') = Some (PStr ''success'')"
    unfolding all
    using summary_ok [OF rb nb, of "AList.update ''Lang Chain''
               (PDict (AList.update ''milestones'' (PList ([?m1] @ [?m2])) ?ed)) ?td" py0]
    by simp
  from milestones_round_trip [OF h1 h2 h3 h4] obtain xs where
    x: "tool_milestones
              (get_progress_summary py0
                 (track_all py0 w0 ''ana'' ''Lang Chain''
                    [(''Read the docs'', True, ''T0'', ''T1''),
                     (''First chain'', False, ''T2'', ''T3'')])
                 ''ana'')
              ''Lang Chain'' = Some xs"
    and n: "length xs
      = length [(''Read the docs'', True, ''T0'', ''T1''), (''First chain'', False, ''T2'', ''T3'')]"
    by blast
  from n have "length xs = 2" by simp
  with x h1 h2 h3 h4 show ?thesis by blast
qed

section \<open>Paths and directories\<close>

lemma split_sep_nonempty: "split_sep s \<noteq> []"
  by (induction s) (auto split: list.splits)

lemma split_sep_append:
  "split_sep (a @ CHR ''/'' # b) = split_sep a @ split_sep b"
proof (induction a)
  case Nil
  then show ?case by simp
next
  case (Cons c a)
  obtain x xs where "split_sep a = x # xs"
    using split_sep_nonempty [of a] by (cases "split_sep a") auto
  with Cons show ?case by simp
qed

lemma split_sep_plain: "CHR ''/'' \<notin> set c \<Longrightarrow> split_sep c = [c]"
  by (induction c) auto

lemma proper_name_plain: "proper_name c \<Longrightarrow> CHR ''/'' \<notin> set c \<and> c \<noteq> []"
  by (simp add: proper_name_def)

lemma render_Cons: "render (c # cs) = CHR ''/'' # c @ render cs"
  by (simp add: render_def)

lemma render_snoc: "render (cs @ [c]) = render cs @ CHR ''/'' # c"
  by (simp add: render_def)

lemma render_append: "render (a @ b) = render a @ render b"
  by (simp add: render_def)

lemma split_sep_render:
  "list_all proper_name cs \<Longrightarrow> cs \<noteq> [] \<Longrightarrow> split_sep (render cs) = [] # cs"
proof (induction cs rule: rev_induct)
  case Nil
  then show ?case by simp
next
  case (snoc c cs)
  then have c: "split_sep c = [c]"
    by (simp add: split_sep_plain proper_name_def)
  show ?case
  proof (cases "cs = []")
    case True
    with c show ?thesis by (simp add: render_def)
  next
    case False
    with snoc c show ?thesis
      by (simp add: render_snoc split_sep_append)
  qed
qed

lemma render_split: "render (split_sep s) = CHR ''/'' # s"
proof (induction s)
  case Nil
  then show ?case by (simp add: render_def)
next
  case (Cons c s)
  obtain x xs where x: "split_sep s = x # xs"
    using split_sep_nonempty [of s] by (cases "split_sep s") auto
  with Cons show ?case by (simp add: render_Cons)
qed

lemma render_nul: "list_all proper_name cs \<Longrightarrow> CHR 0x00 \<notin> set (render cs)"
  by (induction cs) (auto simp: render_def proper_name_def)

lemma render_nonempty: "cs \<noteq> [] \<Longrightarrow> render cs \<noteq> [] \<and> hd (render cs) = CHR ''/''"
  by (cases cs) (simp_all add: render_def)

lemma dirs_from_proper: "dirs_from w cur cs \<Longrightarrow> list_all proper_name cs"
  by (induction cs arbitrary: cur) auto

lemma dirs_from_snoc:
  "dirs_from w cur (cs @ [c]) =
     (dirs_from w cur cs \<and> proper_name c \<and> length c \<le> name_max w
      \<and> is_dir w (cur @ cs @ [c]) \<and> \<not> refused w Search (cur @ cs @ [c]))"
  by (induction cs arbitrary: cur) auto

lemma dirs_from_start: "dirs_from w cur cs \<Longrightarrow> is_dir w cur \<and> \<not> refused w Search cur"
  by (cases cs) auto

lemma dirs_from_prefix: "dirs_from w cur (a @ b) \<Longrightarrow> dirs_from w cur a"
proof (induction a arbitrary: cur)
  case Nil
  then show ?case using dirs_from_start [of w cur b] by simp
next
  case (Cons x a)
  then show ?case by simp
qed

lemma dirs_from_end: "dirs_from w cur cs \<Longrightarrow> is_dir w (cur @ cs)"
proof (induction cs arbitrary: cur)
  case Nil
  then show ?case by simp
next
  case (Cons a cs)
  then have "dirs_from w (cur @ [a]) cs" by simp
  from Cons.IH [OF this] show ?case by simp
qed

lemma dirs_from_mono:
  assumes "\<And>k. is_dir w k \<Longrightarrow> is_dir w' k" "refused w' = refused w" "name_max w' = name_max w"
  shows "dirs_from w cur cs \<Longrightarrow> dirs_from w' cur cs"
  using assms by (induction cs arbitrary: cur) auto

lemma walk_dirs_last:
  "dirs_from w cur cs \<Longrightarrow> proper_name c \<Longrightarrow> length c \<le> name_max w
     \<Longrightarrow> walk w cur (cs @ [c]) = Inr (cur @ cs @ [c])"
proof (induction cs arbitrary: cur)
  case Nil
  then show ?case by (simp add: is_dir_def proper_name_def)
next
  case (Cons a cs)
  then show ?case by (simp add: is_dir_def proper_name_def)
qed

lemma walk_plainD:
  "list_all proper_name (cs @ [c]) \<Longrightarrow> walk w cur (cs @ [c]) = Inr l
     \<Longrightarrow> l = cur @ cs @ [c] \<and> dirs_from w cur cs \<and> length c \<le> name_max w"
proof (induction cs arbitrary: cur)
  case Nil
  then show ?case
    by (auto simp: is_dir_def proper_name_def split: option.splits node.splits if_splits)
next
  case (Cons a cs)
  from Cons.prems have d: "node_at w cur = Some Dir" "\<not> refused w Search cur"
    "length a \<le> name_max w" and w: "walk w (cur @ [a]) (cs @ [c]) = Inr l"
    by (auto simp: proper_name_def split: option.splits node.splits if_splits)
  from Cons.prems(1) have p: "list_all proper_name (cs @ [c])" "proper_name a" by simp_all
  from Cons.IH [OF p(1) w] d p(2) show ?case by (simp add: is_dir_def)
qed

lemma locate_render:
  assumes "list_all proper_name l" "l \<noteq> []"
  shows "locate w (render l) = walk w [] l"
  using split_sep_render [OF assms] render_nonempty [OF assms(2)]
  by (simp add: locate_def)

lemma path_error_render:
  assumes "list_all proper_name l" "l \<noteq> []"
  shows "path_error w (render l)
           = (if path_max w \<le> length (render l) then Some NameTooLongError else None)"
  using render_nul [OF assms(1)] render_nonempty [OF assms(2)]
  by (simp add: path_error_def)

lemma resolve_render:
  assumes "dirs_from w [] cs" "proper_name c" "length c \<le> name_max w"
    "length (render (cs @ [c])) < path_max w"
  shows "resolve w (render (cs @ [c])) = Inr (cs @ [c])"
proof -
  from assms(1,2) have p: "list_all proper_name (cs @ [c])"
    by (simp add: dirs_from_proper)
  from path_error_render [OF p] assms(4) have "path_error w (render (cs @ [c])) = None"
    by simp
  with locate_render [OF p] walk_dirs_last [OF assms(1,2,3)] show ?thesis
    by (simp add: resolve_def)
qed

lemma resolve_renderD:
  assumes "list_all proper_name (cs @ [c])" "resolve w (render (cs @ [c])) = Inr l"
  shows "l = cs @ [c] \<and> dirs_from w [] cs \<and> length c \<le> name_max w
           \<and> length (render (cs @ [c])) < path_max w"
proof -
  from assms(2) path_error_render [OF assms(1)]
  have n: "length (render (cs @ [c])) < path_max w"
    and w: "locate w (render (cs @ [c])) = Inr l"
    by (auto simp: resolve_def split: option.splits if_splits)
  from w locate_render [OF assms(1)] have "walk w [] (cs @ [c]) = Inr l" by simp
  from walk_plainD [OF assms(1) this] n show ?thesis by simp
qed

lemma resolve_root: "1 < path_max w \<Longrightarrow> resolve w ''/'' = Inr []"
  by (simp add: resolve_def path_error_def locate_def)

lemma render_last:
  assumes "list_all proper_name cs" "cs \<noteq> []"
  shows "render cs \<noteq> [] \<and> last (render cs) \<noteq> CHR ''/''"
proof -
  from assms obtain bs c where cs: "cs = bs @ [c]" by (cases cs rule: rev_cases) auto
  with assms have "c \<noteq> []" "CHR ''/'' \<notin> set c" by (simp_all add: proper_name_def)
  then have "last c \<noteq> CHR ''/''" using last_in_set by metis
  with \<open>c \<noteq> []\<close> cs show ?thesis by (simp add: render_snoc)
qed

lemma cwd_string_join:
  assumes "list_all proper_name (cwd w)" "proper_name c"
  shows "path_join (cwd_string w) c = render (cwd w @ [c])"
proof (cases "cwd w = []")
  case True
  with assms(2) show ?thesis
    by (cases c) (auto simp: path_join_def cwd_string_def render_def proper_name_def)
next
  case False
  with render_last [OF assms(1)] assms(2) show ?thesis
    by (cases c) (auto simp: path_join_def cwd_string_def render_snoc proper_name_def)
qed

lemma render_join:
  assumes "list_all proper_name cs" "cs \<noteq> []" "proper_name c"
  shows "path_join (render cs) c = render (cs @ [c])"
  using render_last [OF assms(1,2)] assms(3)
  by (cases c) (auto simp: path_join_def render_snoc proper_name_def)

lemma plain_path_start: "plain_path s \<Longrightarrow> s \<noteq> [] \<and> hd s \<noteq> CHR ''/''"
  by (cases s) (auto simp: plain_path_def proper_name_def split: if_splits list.splits)

lemma render_join_path:
  assumes "list_all proper_name cs" "cs \<noteq> []" "plain_path s"
  shows "path_join (render cs) s = render (cs @ split_sep s)"
  using render_last [OF assms(1,2)] plain_path_start [OF assms(3)]
  by (simp add: path_join_def render_append render_split)

lemma rstrip_sep_keep: "s \<noteq> [] \<Longrightarrow> last s \<noteq> CHR ''/'' \<Longrightarrow> rstrip_sep s = s"
  by (cases s rule: rev_cases) (auto simp: rstrip_sep_def)

lemma rstrip_sep_slash: "s \<noteq> [] \<Longrightarrow> last s \<noteq> CHR ''/'' \<Longrightarrow> rstrip_sep (s @ ''/'') = s"
  by (cases s rule: rev_cases) (auto simp: rstrip_sep_def)

lemma path_split_at:
  assumes "CHR ''/'' \<notin> set c"
  shows "path_split (h @ CHR ''/'' # c) =
           (if h @ ''/'' \<noteq> replicate (Suc (length h)) (CHR ''/'') then rstrip_sep (h @ ''/'')
            else h @ ''/'', c)"
proof -
  have "takeWhile (\<lambda>x. x \<noteq> a) (xs @ a # ys) = xs" if "a \<notin> set xs" for a :: char and xs ys
    using that by (induction xs) auto
  from this [of "CHR ''/''" "rev c" "rev h"] assms
  have tw: "takeWhile (\<lambda>x. x \<noteq> CHR ''/'') (rev c @ CHR ''/'' # rev h) = rev c"
    by simp
  show ?thesis
    by (simp add: path_split_def Let_def tw del: replicate_Suc)
qed

lemma path_split_render:
  assumes "list_all proper_name cs" "proper_name c"
  shows "path_split (render (cs @ [c])) = (if cs = [] then ''/'' else render cs, c)"
proof -
  from assms(2) have c: "CHR ''/'' \<notin> set c" by (simp add: proper_name_def)
  show ?thesis
  proof (cases "cs = []")
    case True
    with path_split_at [OF c, of "[]"] show ?thesis
      by (simp add: render_def)
  next
    case False
    from render_last [OF assms(1) False] have nl: "render cs \<noteq> []" "last (render cs) \<noteq> CHR ''/''"
      by simp_all
    then have "last (render cs) \<in> set (render cs @ ''/'')" by simp
    with nl(2) have "render cs @ ''/'' \<noteq> replicate (Suc (length (render cs))) (CHR ''/'')"
      by (metis in_set_replicate)
    with False nl path_split_at [OF c, of "render cs"] show ?thesis
      by (simp add: render_snoc rstrip_sep_slash del: replicate_Suc)
  qed
qed

lemma path_split2_render:
  assumes "list_all proper_name cs" "proper_name c"
  shows "path_split2 (render (cs @ [c])) = (if cs = [] then ''/'' else render cs, c)"
  using path_split_render [OF assms] assms(2)
  by (simp add: path_split2_def proper_name_def)

lemma path_exists_dirs:
  assumes "dirs_from w [] cs" "length (if cs = [] then ''/'' else render cs) < path_max w"
  shows "path_exists w (if cs = [] then ''/'' else render cs)"
proof (cases cs rule: rev_cases)
  case Nil
  with assms(2) show ?thesis by (simp add: path_exists_def resolve_root)
next
  case (snoc bs c)
  with assms have "dirs_from w [] bs" "proper_name c" "length c \<le> name_max w"
    "is_dir w (bs @ [c])" "length (render (bs @ [c])) < path_max w"
    by (simp_all add: dirs_from_snoc)
  with snoc show ?thesis
    by (simp add: path_exists_def resolve_render is_dir_def)
qed

lemma mkdir_render:
  assumes "list_all proper_name l" "l \<noteq> []"
  shows "mkdir w (render l) =
     (case resolve w (render l) of
        Inl e \<Rightarrow> (Inl e, w)
      | Inr k \<Rightarrow>
          if node_at w k \<noteq> None then (Inl FileExistsError, w)
          else if refused w Write (butlast k) then (Inl PermissionError, w)
          else (Inr (), put_node w k Dir))"
proof -
  from render_last [OF assms] have "rstrip_sep (render l) = render l" "render l \<noteq> []"
    by (simp_all add: rstrip_sep_keep)
  then show ?thesis
    by (simp add: mkdir_def resolve_def split: option.splits)
qed

lemma mkdir_ok:
  assumes "dirs_from w [] cs" "proper_name c" "length c \<le> name_max w"
    "length (render (cs @ [c])) < path_max w"
    "node_at w (cs @ [c]) = None" "\<not> refused w Write cs"
  shows "mkdir w (render (cs @ [c])) = (Inr (), put_node w (cs @ [c]) Dir)"
proof -
  from assms(1,2) have p: "list_all proper_name (cs @ [c])" by (simp add: dirs_from_proper)
  from mkdir_render [OF p] resolve_render [OF assms(1,2,3,4)] assms(5,6) show ?thesis
    by simp
qed

lemma mkdir_successD:
  assumes "list_all proper_name (cs @ [c])" "mkdir w (render (cs @ [c])) = (Inr (), w')"
  shows "resolve w (render (cs @ [c])) = Inr (cs @ [c]) \<and> node_at w (cs @ [c]) = None
           \<and> w' = put_node w (cs @ [c]) Dir \<and> dirs_from w [] cs"
proof -
  from assms(2) mkdir_render [OF assms(1)] obtain k where
    r: "resolve w (render (cs @ [c])) = Inr k" and n: "node_at w k = None"
    and w': "w' = put_node w k Dir"
    by (auto split: sum.splits if_splits)
  from resolve_renderD [OF assms(1) r] r n w' show ?thesis by simp
qed

lemma mkdir_failD: "mkdir w p = (Inl e, w') \<Longrightarrow> w' = w"
  by (auto simp: mkdir_def split: option.splits sum.splits if_splits)

lemma makedirs_step:
  assumes "list_all proper_name (cs @ [c])"
  shows "makedirs w (render (cs @ [c])) =
     (if \<not> path_exists w (if cs = [] then ''/'' else render cs) then
        (case makedirs w (if cs = [] then ''/'' else render cs) of
           (Inl e, w') \<Rightarrow>
             if e = FileExistsError then mkdir w' (render (cs @ [c])) else (Inl e, w')
         | (Inr _, w') \<Rightarrow> mkdir w' (render (cs @ [c])))
      else mkdir w (render (cs @ [c])))"
proof -
  from assms have p: "list_all proper_name cs" "proper_name c" by simp_all
  from p(2) have c: "c \<noteq> []" "c \<noteq> ''.''" by (simp_all add: proper_name_def)
  have h: "(if cs = [] then ''/'' else render cs) \<noteq> []"
    using render_nonempty [of cs] by simp
  show ?thesis
    by (subst makedirs.simps)
       (simp add: path_split2_render [OF p] c h cong: prod.case_cong sum.case_cong if_cong)
qed

lemma makedirs_one:
  assumes "dirs_from w [] cs" "proper_name c" "length c \<le> name_max w"
    "length (render (cs @ [c])) < path_max w"
    "node_at w (cs @ [c]) = None" "\<not> refused w Write cs"
  shows "makedirs w (render (cs @ [c])) = (Inr (), put_node w (cs @ [c]) Dir)"
proof -
  from assms(1,2) have p: "list_all proper_name (cs @ [c])" by (simp add: dirs_from_proper)
  have "length (if cs = [] then ''/'' else render cs) < path_max w"
    using assms(2,4) by (cases "cs = []"; cases c) (simp_all add: render_def proper_name_def)
  from path_exists_dirs [OF assms(1) this] mkdir_ok [OF assms] show ?thesis
    by (simp add: makedirs_step [OF p])
qed

lemma is_dir_put_dir: "is_dir w k \<Longrightarrow> is_dir (put_node w l Dir) k"
  by (simp add: is_dir_def node_at_put)

lemma dirs_from_put_dir: "dirs_from w cur cs \<Longrightarrow> dirs_from (put_node w l Dir) cur cs"
  by (rule dirs_from_mono [OF is_dir_put_dir]) simp_all

lemma makedirs_two:
  assumes "dirs_from w [] cs" "proper_name a" "proper_name b"
    "length a \<le> name_max w" "length b \<le> name_max w"
    "length (render (cs @ [a, b])) < path_max w"
    "node_at w (cs @ [a]) = None" "node_at w (cs @ [a, b]) = None"
    "\<not> refused w Write cs" "\<not> refused w Write (cs @ [a])" "\<not> refused w Search (cs @ [a])"
  shows "makedirs w (render (cs @ [a, b])) =
           (Inr (), put_node (put_node w (cs @ [a]) Dir) (cs @ [a, b]) Dir)"
proof -
  let ?w1 = "put_node w (cs @ [a]) Dir"
  have la: "length (render (cs @ [a])) < path_max w"
    using assms(6) by (simp add: render_def)
  have d1: "dirs_from ?w1 [] (cs @ [a])"
    using dirs_from_put_dir [OF assms(1)] assms(2,4,11)
    by (simp add: dirs_from_snoc is_dir_def node_at_put)
  have p: "list_all proper_name (cs @ [a])"
    using assms(1,2) by (simp add: dirs_from_proper)
  have ne: "\<not> path_exists w (render (cs @ [a]))"
    using assms(1,2,4,7) la by (simp add: path_exists_def resolve_render)
  have n1: "node_at ?w1 ((cs @ [a]) @ [b]) = None"
    using assms(8) by (simp add: node_at_put)
  have m: "mkdir ?w1 (render ((cs @ [a]) @ [b])) = (Inr (), put_node ?w1 ((cs @ [a]) @ [b]) Dir)"
    by (rule mkdir_ok [OF d1 assms(3) _ _ n1]) (use assms(5,6,10) in simp_all)
  have pp: "list_all proper_name ((cs @ [a]) @ [b])"
    using p assms(3) by simp
  from makedirs_step [OF pp, of w] ne m makedirs_one [OF assms(1,2,4) la assms(7,9)]
  show ?thesis by simp
qed

text \<open>
  What \<^verbatim>\<open>os.makedirs\<close> does on a path of plain names, whatever its outcome: nothing
  that exists is touched, and what is new is a directory on the way to the path. When
  it succeeds, the path did not exist and is a directory afterwards.
\<close>

lemma makedirs_plain:
  assumes "list_all proper_name l" "l \<noteq> []" "1 < path_max w" "makedirs w (render l) = (r, w')"
  shows "cwd w' = cwd w \<and> refused w' = refused w \<and> name_max w' = name_max w
         \<and> path_max w' = path_max w
         \<and> (\<forall>k n. node_at w k = Some n \<longrightarrow> node_at w' k = Some n)
         \<and> (\<forall>k. node_at w k = None \<longrightarrow> node_at w' k \<noteq> None \<longrightarrow>
                node_at w' k = Some Dir \<and> (\<exists>j. k = take j l))
         \<and> (r = Inr () \<longrightarrow>
              node_at w l = None \<and> resolve w' (render l) = Inr l \<and> is_dir w' l)"
  using assms
proof (induction l arbitrary: w r w' rule: rev_induct)
  case Nil
  then show ?case by simp
next
  case (snoc c cs)
  let ?l = "cs @ [c]"
  have p: "list_all proper_name ?l" using snoc.prems(1) .
  have last_step: "cwd w' = cwd w1 \<and> refused w' = refused w1 \<and> name_max w' = name_max w1
         \<and> path_max w' = path_max w1
         \<and> (\<forall>k n. node_at w1 k = Some n \<longrightarrow> node_at w' k = Some n)
         \<and> (\<forall>k. node_at w1 k = None \<longrightarrow> node_at w' k \<noteq> None \<longrightarrow>
                node_at w' k = Some Dir \<and> k = ?l)
         \<and> (r = Inr () \<longrightarrow>
              node_at w1 ?l = None \<and> resolve w' (render ?l) = Inr ?l \<and> is_dir w' ?l)"
    if m: "mkdir w1 (render ?l) = (r, w')" for w1
  proof (cases r)
    case (Inl e)
    with m mkdir_failD have "w' = w1" by blast
    with Inl show ?thesis by simp
  next
    case (Inr u)
    with m have "mkdir w1 (render ?l) = (Inr (), w')" by simp
    from mkdir_successD [OF p this] have
      r1: "resolve w1 (render ?l) = Inr ?l" and n1: "node_at w1 ?l = None"
      and w': "w' = put_node w1 ?l Dir"
      by simp_all
    from r1 n1 have "resolve w' (render ?l) = Inr ?l"
      unfolding w' by (simp add: resolve_put)
    with n1 show ?thesis
      unfolding w' by (auto simp: node_at_put is_dir_def)
  qed
  show ?case
  proof (cases "cs \<noteq> [] \<and> \<not> path_exists w (render cs)")
    case False
    have "path_exists w (if cs = [] then ''/'' else render cs)"
    proof (cases "cs = []")
      case True
      with snoc.prems(3) show ?thesis by (simp add: path_exists_def resolve_root)
    next
      case cs: False
      with False show ?thesis by simp
    qed
    with snoc.prems(4) makedirs_step [OF p, of w] have "mkdir w (render ?l) = (r, w')"
      by simp
    from last_step [OF this] show ?thesis
      by (auto intro: exI [of _ "length ?l"])
  next
    case True
    then have cs: "cs \<noteq> []" and ne: "\<not> path_exists w (render cs)" by simp_all
    obtain r1 w1 where m1: "makedirs w (render cs) = (r1, w1)"
      by (cases "makedirs w (render cs)") auto
    from p have pc: "list_all proper_name cs" by simp
    from snoc.IH [OF pc cs snoc.prems(3) m1] have
      env: "cwd w1 = cwd w" "refused w1 = refused w" "name_max w1 = name_max w"
        "path_max w1 = path_max w"
      and keep: "\<And>k n. node_at w k = Some n \<Longrightarrow> node_at w1 k = Some n"
      and new: "\<And>k. node_at w k = None \<Longrightarrow> node_at w1 k \<noteq> None \<Longrightarrow>
                  node_at w1 k = Some Dir \<and> (\<exists>j. k = take j cs)"
      by blast+
    have pre: "\<exists>j. k = take j ?l" if "\<exists>j. k = take j cs" for k
    proof -
      from that obtain j where "k = take j cs" by blast
      then have "k = take (min j (length cs)) ?l"
        by (cases "j \<le> length cs") (simp_all add: min_def)
      then show ?thesis by blast
    qed
    show ?thesis
    proof (cases "\<exists>e. r1 = Inl e \<and> e \<noteq> FileExistsError")
      case True
      then obtain e where e: "r1 = Inl e" "e \<noteq> FileExistsError" by blast
      with snoc.prems(4) makedirs_step [OF p, of w] cs ne m1 have "r = Inl e" "w' = w1"
        by simp_all
      with env keep new pre show ?thesis by auto
    next
      case False
      with snoc.prems(4) makedirs_step [OF p, of w] cs ne m1
      have "mkdir w1 (render ?l) = (r, w')"
        by (cases r1) (auto split: if_splits)
      from last_step [OF this] have
        env2: "cwd w' = cwd w1" "refused w' = refused w1" "name_max w' = name_max w1"
          "path_max w' = path_max w1"
        and keep2: "\<And>k n. node_at w1 k = Some n \<Longrightarrow> node_at w' k = Some n"
        and new2: "\<And>k. node_at w1 k = None \<Longrightarrow> node_at w' k \<noteq> None \<Longrightarrow>
                  node_at w' k = Some Dir \<and> k = ?l"
        and ok2: "r = Inr () \<Longrightarrow>
              node_at w1 ?l = None \<and> resolve w' (render ?l) = Inr ?l \<and> is_dir w' ?l"
        by blast+
      have a: "\<forall>k n. node_at w k = Some n \<longrightarrow> node_at w' k = Some n"
        using keep keep2 by blast
      have b: "\<forall>k. node_at w k = None \<longrightarrow> node_at w' k \<noteq> None \<longrightarrow>
                node_at w' k = Some Dir \<and> (\<exists>j. k = take j ?l)"
      proof (intro allI impI)
        fix k assume k: "node_at w k = None" "node_at w' k \<noteq> None"
        show "node_at w' k = Some Dir \<and> (\<exists>j. k = take j ?l)"
        proof (cases "node_at w1 k = None")
          case True
          from new2 [OF True k(2)] have "node_at w' k = Some Dir" "k = take (length ?l) ?l"
            by auto
          then show ?thesis by blast
        next
          case False
          from new [OF k(1) False] keep2 [of k Dir] pre [of k] show ?thesis by auto
        qed
      qed
      have c: "r = Inr () \<longrightarrow>
              node_at w ?l = None \<and> resolve w' (render ?l) = Inr ?l \<and> is_dir w' ?l"
      proof
        assume "r = Inr ()"
        from ok2 [OF this] have o: "node_at w1 ?l = None" "resolve w' (render ?l) = Inr ?l"
          "is_dir w' ?l" by simp_all
        have "node_at w ?l = None"
        proof (rule ccontr)
          assume "node_at w ?l \<noteq> None"
          then obtain n where "node_at w ?l = Some n" by auto
          from keep [OF this] o(1) show False by simp
        qed
        with o show "node_at w ?l = None \<and> resolve w' (render ?l) = Inr ?l \<and> is_dir w' ?l"
          by simp
      qed
      from env env2 a b c show ?thesis by simp
    qed
  qed
qed

lemma makedirs_plain_env:
  assumes "list_all proper_name l" "l \<noteq> []" "1 < path_max w" "makedirs w (render l) = (r, w')"
  shows "cwd w' = cwd w" "refused w' = refused w" "name_max w' = name_max w"
    "path_max w' = path_max w"
  using makedirs_plain [OF assms] by blast+

lemma makedirs_plain_keep:
  assumes "list_all proper_name l" "l \<noteq> []" "1 < path_max w" "makedirs w (render l) = (r, w')"
    "node_at w k = Some n"
  shows "node_at w' k = Some n"
  using makedirs_plain [OF assms(1,2,3,4)] assms(5) by blast

lemma makedirs_plain_new:
  assumes "list_all proper_name l" "l \<noteq> []" "1 < path_max w" "makedirs w (render l) = (r, w')"
    "node_at w k = None" "node_at w' k \<noteq> None"
  shows "node_at w' k = Some Dir" "\<exists>j. k = take j l"
  using makedirs_plain [OF assms(1,2,3,4)] assms(5,6) by blast+

lemma makedirs_plain_ok:
  assumes "list_all proper_name l" "l \<noteq> []" "1 < path_max w"
    "makedirs w (render l) = (Inr (), w')"
  shows "node_at w l = None" "resolve w' (render l) = Inr l" "is_dir w' l"
  using makedirs_plain [OF assms] by blast+

section \<open>Lesson folder store\<close>

lemma wf_cwd: "well_formed w \<Longrightarrow> dirs_from w [] (cwd w)"
  by (simp add: well_formed_def)

lemma wf_path_max: "well_formed w \<Longrightarrow> 1 < path_max w"
proof -
  assume "well_formed w"
  then have "length (cwd_string w) < path_max w" by (simp add: well_formed_def)
  moreover have "1 \<le> length (cwd_string w)"
    by (cases "cwd w") (simp_all add: cwd_string_def render_def)
  ultimately show ?thesis by simp
qed

lemma getcwd_ok: "well_formed w \<Longrightarrow> getcwd w = Inr (cwd_string w)"
  using dirs_from_end [OF wf_cwd, of w] by (simp add: getcwd_def)

lemma proper_lessons: "proper_name ''lessons''"
  by (simp add: proper_name_def)

lemma plain_path_proper: "proper_name c \<Longrightarrow> plain_path c"
  by (simp add: plain_path_def split_sep_plain proper_name_plain)

lemma proper_lessons_loc: "well_formed w \<Longrightarrow> list_all proper_name (lessons_loc w)"
  using dirs_from_proper [OF wf_cwd, of w] proper_lessons by (simp add: lessons_loc_def)

lemma lessons_dir_render: "well_formed w \<Longrightarrow> lessons_dir (cwd_string w) = render (lessons_loc w)"
  using cwd_string_join [OF dirs_from_proper [OF wf_cwd] proper_lessons]
  by (simp add: lessons_dir_def lessons_loc_def)

lemma folder_path_render:
  assumes "well_formed w" "plain_path (folder_name py t)"
  shows "folder_path py (cwd_string w) t = render (folder_loc py w t)"
proof -
  have "lessons_loc w \<noteq> []" by (simp add: lessons_loc_def)
  from render_join_path [OF proper_lessons_loc [OF assms(1)] this assms(2)] show ?thesis
    by (simp add: folder_path_def lessons_dir_render [OF assms(1)] folder_loc_def)
qed

lemma folder_loc_proper:
  "proper_name (folder_name py t) \<Longrightarrow> folder_loc py w t = lessons_loc w @ [folder_name py t]"
  by (simp add: folder_loc_def split_sep_plain proper_name_plain)

lemma file_path_render:
  assumes "well_formed w" "proper_name (folder_name py t)" "proper_name f"
  shows "path_join (folder_path py (cwd_string w) t) f = render (file_loc py w t f)"
proof -
  have p: "list_all proper_name (folder_loc py w t)"
    using proper_lessons_loc [OF assms(1)] assms(2) by (simp add: folder_loc_proper)
  have ne: "folder_loc py w t \<noteq> []"
    by (simp add: folder_loc_proper [OF assms(2)])
  from render_join [OF p ne assms(3)] show ?thesis
    by (simp add: folder_path_render [OF assms(1) plain_path_proper [OF assms(2)]] file_loc_def)
qed

lemma orphan_free:
  assumes "well_formed w" "node_at w (l @ [x]) \<noteq> None"
  shows "is_dir w l"
proof -
  from assms(2) obtain n where "map_of (nodes w) (l @ [x]) = Some n"
    by (auto simp: node_at_def)
  then have "(l @ [x], n) \<in> set (nodes w)" by (rule map_of_SomeD)
  with assms(1) show ?thesis
    by (auto simp: well_formed_def list_all_iff)
qed

lemma cwd_with_dir [simp]: "cwd (with_dir w l) = cwd w"
  by (simp add: with_dir_def)

lemma refused_with_dir [simp]: "refused (with_dir w l) = refused w"
  by (simp add: with_dir_def)

lemma name_max_with_dir [simp]: "name_max (with_dir w l) = name_max w"
  by (simp add: with_dir_def)

lemma path_max_with_dir [simp]: "path_max (with_dir w l) = path_max w"
  by (simp add: with_dir_def)

lemma node_at_with_dir:
  "node_at (with_dir w l) k = (if k = l \<and> node_at w l = None then Some Dir else node_at w k)"
  by (auto simp: with_dir_def node_at_put)

lemma is_dir_with_dir: "is_dir w k \<Longrightarrow> is_dir (with_dir w l) k"
  by (auto simp: is_dir_def node_at_with_dir)

lemma dirs_from_with_dir: "dirs_from w cur cs \<Longrightarrow> dirs_from (with_dir w l) cur cs"
  by (rule dirs_from_mono [OF is_dir_with_dir]) simp_all

lemma usable_dir_made: "usable_dir w l \<Longrightarrow> is_dir (with_dir w l) l"
  by (auto simp: usable_dir_def is_dir_def node_at_with_dir)

lemma ensure_folder:
  assumes "saveable py w t f"
  shows "(if \<not> path_exists w (folder_path py (cwd_string w) t)
          then makedirs w (folder_path py (cwd_string w) t) else (Inr (), w))
           = (Inr (), with_dir (with_dir w (lessons_loc w)) (folder_loc py w t))"
    and "dirs_from (with_dir (with_dir w (lessons_loc w)) (folder_loc py w t)) []
           (folder_loc py w t)"
proof -
  let ?L = "lessons_loc w" and ?F = "folder_loc py w t" and ?s = "folder_name py t"
  from assms have wf: "well_formed w" and pn: "proper_name ?s" and pf: "proper_name f"
    and ll: "length ''lessons'' \<le> name_max w" and ls: "length ?s \<le> name_max w"
    and lp: "length (render (file_loc py w t f)) < path_max w"
    and sL: "\<not> refused w Search ?L" and sF: "\<not> refused w Search ?F"
    and uL: "usable_dir w ?L" and uF: "usable_dir w ?F"
    by (simp_all add: saveable_def)
  note d = wf_cwd [OF wf]
  have F: "?F = cwd w @ [''lessons'', ?s]" "?F = ?L @ [?s]"
    by (simp_all add: folder_loc_proper [OF pn] lessons_loc_def)
  have neq: "?F \<noteq> ?L" "?F \<noteq> []" by (simp_all add: F(2))
  have lF: "length (render ?F) < path_max w"
    using lp by (simp add: file_loc_def render_snoc)
  have fp: "folder_path py (cwd_string w) t = render ?F"
    by (rule folder_path_render [OF wf plain_path_proper [OF pn]])
  have both: "(if \<not> path_exists w (render ?F) then makedirs w (render ?F) else (Inr (), w))
           = (Inr (), with_dir (with_dir w ?L) ?F)
      \<and> dirs_from (with_dir (with_dir w ?L) ?F) [] ?L"
  proof (cases "node_at w ?L = None")
    case True
    have fn: "node_at w ?F = None"
    proof (rule ccontr)
      assume "node_at w ?F \<noteq> None"
      then have "is_dir w ?L" unfolding F(2) by (rule orphan_free [OF wf])
      with True show False by (simp add: is_dir_def)
    qed
    have ne: "\<not> path_exists w (render ?F)"
    proof
      assume "path_exists w (render ?F)"
      then obtain k where k: "resolve w (render ?F) = Inr k" "node_at w k \<noteq> None"
        by (auto simp: path_exists_def split: sum.splits)
      have "list_all proper_name (?L @ [?s])"
        using proper_lessons_loc [OF wf] pn by simp
      from resolve_renderD [OF this] k(1) have "k = ?F" by (simp add: F(2))
      with k(2) fn show False by simp
    qed
    from uL True have wc: "\<not> refused w Write (cwd w)"
      by (simp add: usable_dir_def lessons_loc_def)
    from uF fn have wL: "\<not> refused w Write ?L"
      by (simp add: usable_dir_def F(2))
    have "makedirs w (render (cwd w @ [''lessons'', ?s]))
        = (Inr (), put_node (put_node w (cwd w @ [''lessons'']) Dir) (cwd w @ [''lessons'', ?s]) Dir)"
      by (rule makedirs_two [OF d proper_lessons pn ll ls])
         (use lF True fn wc wL sL in \<open>simp_all add: F(1) lessons_loc_def\<close>)
    then have m: "makedirs w (render ?F) = (Inr (), put_node (put_node w ?L Dir) ?F Dir)"
      by (simp add: F(1) lessons_loc_def)
    have w2: "with_dir (with_dir w ?L) ?F = put_node (put_node w ?L Dir) ?F Dir"
      using True fn neq by (simp add: with_dir_def node_at_put)
    have "dirs_from (put_node w ?L Dir) [] (cwd w)"
      by (rule dirs_from_put_dir [OF d])
    then have "dirs_from (put_node (put_node w ?L Dir) ?F Dir) [] (cwd w)"
      by (rule dirs_from_put_dir)
    then have "dirs_from (put_node (put_node w ?L Dir) ?F Dir) [] ?L"
      using proper_lessons ll sL neq
      by (simp add: lessons_loc_def dirs_from_snoc is_dir_def node_at_put)
    with ne m w2 show ?thesis by simp
  next
    case False
    with uL have L: "is_dir w ?L" by (auto simp: usable_dir_def is_dir_def)
    with d have dl: "dirs_from w [] ?L"
      using proper_lessons ll sL by (simp add: lessons_loc_def dirs_from_snoc)
    have r: "resolve w (render ?F) = Inr ?F"
      unfolding F(2) by (rule resolve_render [OF dl pn ls]) (use lF in \<open>simp add: F(2)\<close>)
    have wL: "with_dir w ?L = w" using False by (auto simp: with_dir_def)
    show ?thesis
    proof (cases "node_at w ?F = None")
      case True
      from uF True have "\<not> refused w Write ?L" by (simp add: usable_dir_def F(2))
      from makedirs_one [OF dl pn ls _ _ this] True lF
      have "makedirs w (render ?F) = (Inr (), put_node w ?F Dir)"
        by (simp add: F(2))
      with True r dl show ?thesis
        unfolding wL by (simp add: path_exists_def with_dir_def dirs_from_put_dir)
    next
      case fe: False
      with r dl show ?thesis
        unfolding wL by (auto simp: path_exists_def with_dir_def)
    qed
  qed
  from both show "(if \<not> path_exists w (folder_path py (cwd_string w) t)
          then makedirs w (folder_path py (cwd_string w) t) else (Inr (), w))
           = (Inr (), with_dir (with_dir w (lessons_loc w)) (folder_loc py w t))"
    unfolding fp by blast
  have "usable_dir (with_dir w ?L) ?F"
    using uF neq by (auto simp: usable_dir_def node_at_with_dir)
  from usable_dir_made [OF this] both pn ls sF
  show "dirs_from (with_dir (with_dir w ?L) ?F) [] ?F"
    by (simp add: F(2) dirs_from_snoc)
qed

lemma save_ok:
  assumes "saveable py w t f"
  shows "save_to_tool_folder py w t f c =
     (PDict [(''status'', PStr ''success''),
             (''message'', PStr (''Saved '' @ [CHR 0x27] @ f @ [CHR 0x27]
                                 @ '' to lessons/'' @ folder_name py t @ ''/'')),
             (''file_path'', PStr (render (file_loc py w t f)))],
      put_node (with_dir (with_dir w (lessons_loc w)) (folder_loc py w t))
        (file_loc py w t f) (File (Text c)))"
proof -
  let ?M = "file_loc py w t f"
  from assms have wf: "well_formed w" and pn: "proper_name (folder_name py t)"
    and pf: "proper_name f" and lf: "length f \<le> name_max w"
    and lp: "length (render ?M) < path_max w"
    and wr: "case node_at w ?M of
               None \<Rightarrow> \<not> refused w Write (folder_loc py w t)
             | Some Dir \<Rightarrow> False
             | Some (File _) \<Rightarrow> \<not> refused w Write ?M"
    by (simp_all add: saveable_def)
  let ?w2 = "with_dir (with_dir w (lessons_loc w)) (folder_loc py w t)"
  have r: "resolve ?w2 (render ?M) = Inr ?M"
    unfolding file_loc_def
    by (rule resolve_render [OF ensure_folder(2) [OF assms] pf])
       (use lf lp in \<open>simp_all add: file_loc_def\<close>)
  have n: "node_at ?w2 ?M = node_at w ?M"
    by (simp add: node_at_with_dir file_loc_def folder_loc_def lessons_loc_def)
  have o: "open_write ?w2 (render ?M) = Inr ?M"
  proof (cases "node_at w ?M")
    case None
    with wr n r show ?thesis by (simp add: open_write_def file_loc_def)
  next
    case (Some x)
    with wr n r show ?thesis by (cases x) (simp_all add: open_write_def)
  qed
  show ?thesis
    unfolding save_to_tool_folder_def save_to_tool_folder_body_def getcwd_ok [OF wf]
    by (simp add: ensure_folder(1) [OF assms] file_path_render [OF wf pn pf] write_file_ok [OF o])
qed

section \<open>Module assembler\<close>

lemma folder_name_demo: "folder_name py ''Demo'' = ''demo''"
  by (simp add: folder_name_def str_lower_def is_ascii_def lower_char_def replace_char_def)

lemma show_int_1: "show_int 1 = ''1''"
  by (simp add: show_int_def show_nat.simps)

lemma assemble_ok:
  assumes "saveable py w t (module_filename n)"
  shows "snd (assemble_module_file py w stamp t n lesson examples quiz) =
           put_node (with_dir (with_dir w (lessons_loc w)) (folder_loc py w t))
             (file_loc py w t (module_filename n))
             (File (Text (module_content n lesson examples quiz stamp)))"
    and "status_of (fst (assemble_module_file py w stamp t n lesson examples quiz))
           = Some (PStr ''success'')"
    and "getitem (fst (assemble_module_file py w stamp t n lesson examples quiz)) ''file_path''
           = Inr (PStr (render (file_loc py w t (module_filename n))))"
    and "\<exists>a. abspath w (path_join (path_join ''lessons'' t) (module_filename n)) = Inr a
           \<and> getitem (fst (assemble_module_file py w stamp t n lesson examples quiz))
                ''absolute_path'' = Inr (PStr a)"
proof -
  let ?w3 = "put_node (with_dir (with_dir w (lessons_loc w)) (folder_loc py w t))
             (file_loc py w t (module_filename n))
             (File (Text (module_content n lesson examples quiz stamp)))"
  let ?p = "path_join (path_join ''lessons'' t) (module_filename n)"
  from assms have wf: "well_formed w" by (simp add: saveable_def)
  from dirs_from_end [OF wf_cwd [OF wf]] have c: "is_dir w (cwd w)" by simp
  then have g: "getcwd w = Inr (cwd_string w)" by (simp add: getcwd_def)
  have "is_dir ?w3 (cwd w)"
    using c by (auto simp: is_dir_def node_at_put node_at_with_dir file_loc_def folder_loc_def
        lessons_loc_def)
  then have g3: "getcwd ?w3 = Inr (cwd_string w)"
    by (simp add: getcwd_def cwd_string_def)
  from g g3 have a: "abspath ?w3 ?p = abspath w ?p" by (simp add: abspath_def)
  obtain x where x: "abspath w ?p = Inr x"
    using g by (cases "?p \<noteq> [] \<and> hd ?p = CHR ''/''") (auto simp: abspath_def)
  with a show "snd (assemble_module_file py w stamp t n lesson examples quiz) = ?w3"
    and "status_of (fst (assemble_module_file py w stamp t n lesson examples quiz))
           = Some (PStr ''success'')"
    and "getitem (fst (assemble_module_file py w stamp t n lesson examples quiz)) ''file_path''
           = Inr (PStr (render (file_loc py w t (module_filename n))))"
    and "\<exists>a. abspath w ?p = Inr a
           \<and> getitem (fst (assemble_module_file py w stamp t n lesson examples quiz))
                ''absolute_path'' = Inr (PStr a)"
    by (simp_all add: assemble_module_file_def assemble_module_file_body_def save_ok [OF assms]
      setitem_def getitem_def Let_def)
qed

text \<open>
  Claim C6. In every world where the file can be saved, assembling module 1 of the tool
  \<^verbatim>\<open>Demo\<close> from the lesson \<^verbatim>\<open>L\<close>, the examples \<^verbatim>\<open>E\<close> and the quiz \<^verbatim>\<open>Q\<close> succeeds and
  leaves the file \<^verbatim>\<open>lessons/demo/module_1.md\<close> under the working directory; its text
  contains the lesson header followed by \<^verbatim>\<open>L\<close>, then the examples header followed by
  \<^verbatim>\<open>E\<close>, then the quiz header followed by \<^verbatim>\<open>Q\<close>, in this order.
\<close>

theorem assemble_demo_module:
  assumes "saveable py w ''Demo'' ''module_1.md''"
  shows "status_of (fst (assemble_module_file py w stamp ''Demo'' 1 ''L'' ''E'' ''Q''))
           = Some (PStr ''success'')
         \<and> (\<exists>a b c d.
              node_at (snd (assemble_module_file py w stamp ''Demo'' 1 ''L'' ''E'' ''Q''))
                (cwd w @ [''lessons'', ''demo'', ''module_1.md''])
              = Some (File (Text
                  (a @ (''## '' @ [CHR 0xF0, CHR 0x9F, CHR 0x93, CHR 0x9A]
                           @ '' Lesson\<newline>\<newline>L'')
                   @ b @ (''## '' @ [CHR 0xF0, CHR 0x9F, CHR 0x92, CHR 0xBB]
                           @ '' Code Examples\<newline>\<newline>E'')
                   @ c @ (''## '' @ [CHR 0xF0, CHR 0x9F, CHR 0x93, CHR 0x9D]
                           @ '' Quiz\<newline>\<newline>Q'')
                   @ d))))"
proof -
  have fn: "module_filename 1 = ''module_1.md''"
    by (simp add: module_filename_def show_int_1)
  have loc: "file_loc py w ''Demo'' ''module_1.md'' = cwd w @ [''lessons'', ''demo'', ''module_1.md'']"
    by (simp add: file_loc_def folder_loc_def lessons_loc_def folder_name_demo)
  from assms have s: "saveable py w ''Demo'' (module_filename 1)" by (simp add: fn)
  have c: "module_content 1 ''L'' ''E'' ''Q'' stamp =
      ''# Module 1\<newline>\<newline>''
      @ (''## '' @ [CHR 0xF0, CHR 0x9F, CHR 0x93, CHR 0x9A] @ '' Lesson\<newline>\<newline>L'')
      @ ''\<newline>\<newline>---\<newline>\<newline>''
      @ (''## '' @ [CHR 0xF0, CHR 0x9F, CHR 0x92, CHR 0xBB] @ '' Code Examples\<newline>\<newline>E'')
      @ ''\<newline>\<newline>---\<newline>\<newline>''
      @ (''## '' @ [CHR 0xF0, CHR 0x9F, CHR 0x93, CHR 0x9D] @ '' Quiz\<newline>\<newline>Q'')
      @ (''\<newline>\<newline>---\<newline>\<newline>*Generated: '' @ stamp @ ''*\<newline>'')"
    by (simp add: module_content_def show_int_1)
  have n: "node_at (snd (assemble_module_file py w stamp ''Demo'' 1 ''L'' ''E'' ''Q''))
      (cwd w @ [''lessons'', ''demo'', ''module_1.md''])
      = Some (File (Text (module_content 1 ''L'' ''E'' ''Q'' stamp)))"
    unfolding assemble_ok(1) [OF s] fn loc by (simp add: node_at_put)
  have "\<exists>a b c d.
              node_at (snd (assemble_module_file py w stamp ''Demo'' 1 ''L'' ''E'' ''Q''))
                (cwd w @ [''lessons'', ''demo'', ''module_1.md''])
              = Some (File (Text
                  (a @ (''## '' @ [CHR 0xF0, CHR 0x9F, CHR 0x93, CHR 0x9A]
                           @ '' Lesson\<newline>\<newline>L'')
                   @ b @ (''## '' @ [CHR 0xF0, CHR 0x9F, CHR 0x92, CHR 0xBB]
                           @ '' Code Examples\<newline>\<newline>E'')
                   @ c @ (''## '' @ [CHR 0xF0, CHR 0x9F, CHR 0x93, CHR 0x9D]
                           @ '' Quiz\<newline>\<newline>Q'')
                   @ d)))"
    unfolding n c by blast
  with assemble_ok(2) [OF s] show ?thesis by blast
qed

lemma well_formed_w0: "well_formed w0"
  by (simp add: well_formed_def w0_def is_dir_def node_at_def proper_name_def cwd_string_def
      render_def)

lemma saveable_w0:
  assumes "proper_name (folder_name py0 t)" "proper_name f"
    "length (folder_name py0 t) \<le> 100" "length f \<le> 100"
  shows "saveable py0 w0 t f"
proof -
  have "length (render (file_loc py0 w0 t f)) < path_max w0"
    using assms(3,4)
    by (simp add: file_loc_def folder_loc_proper [OF assms(1)] lessons_loc_def render_def w0_def)
  moreover have "node_at w0 (file_loc py0 w0 t f) = None"
    "node_at w0 (folder_loc py0 w0 t) = None" "node_at w0 (lessons_loc w0) = None"
    by (simp_all add: file_loc_def folder_loc_proper [OF assms(1)] lessons_loc_def)
       (simp_all add: w0_def node_at_def)
  moreover have "name_max w0 = 255" by (simp add: w0_def)
  ultimately show ?thesis
    using assms well_formed_w0
    by (simp add: saveable_def usable_dir_def)
qed

theorem assemble_demo_module_witness:
  "saveable py0 w0 ''Demo'' ''module_1.md''
   \<and> status_of (fst (assemble_module_file py0 w0 ''2025-01-01 10:00'' ''Demo'' 1 ''L'' ''E'' ''Q''))
           = Some (PStr ''success'')
   \<and> (\<exists>a b c d.
              node_at (snd (assemble_module_file py0 w0 ''2025-01-01 10:00'' ''Demo'' 1 ''L'' ''E'' ''Q''))
                (cwd w0 @ [''lessons'', ''demo'', ''module_1.md''])
              = Some (File (Text
                  (a @ (''## '' @ [CHR 0xF0, CHR 0x9F, CHR 0x93, CHR 0x9A]
                           @ '' Lesson\<newline>\<newline>L'')
                   @ b @ (''## '' @ [CHR 0xF0, CHR 0x9F, CHR 0x92, CHR 0xBB]
                           @ '' Code Examples\<newline>\<newline>E'')
                   @ c @ (''## '' @ [CHR 0xF0, CHR 0x9F, CHR 0x93, CHR 0x9D]
                           @ '' Quiz\<newline>\<newline>Q'')
                   @ d))))"
proof -
  have h: "saveable py0 w0 ''Demo'' ''module_1.md''"
    by (rule saveable_w0) (simp_all add: folder_name_demo proper_name_def)
  from h assemble_demo_module [OF h, of "''2025-01-01 10:00''"] show ?thesis by blast
qed

lemma folder_name_lang_chain: "folder_name py ''Lang Chain'' = ''lang_chain''"
  by (simp add: folder_name_def str_lower_def is_ascii_def lower_char_def replace_char_def)

text \<open>
  Claim C5, at the tool name \<^verbatim>\<open>Lang Chain\<close> and module 1, in the empty working directory
  \<^verbatim>\<open>/home/u\<close>: the module is written under the folder \<^verbatim>\<open>lang_chain\<close>, which is what
  \<^verbatim>\<open>file_path\<close> reports, while \<^verbatim>\<open>absolute_path\<close> is built from the tool name as given
  and names a path at which there is no file.
\<close>

theorem absolute_path_uses_raw_tool_name:
  "getitem (fst (assemble_module_file py0 w0 ''2025-01-01 10:00'' ''Lang Chain'' 1 ''L'' ''E'' ''Q''))
     ''file_path'' = Inr (PStr ''/home/u/lessons/lang_chain/module_1.md'')
   \<and> getitem (fst (assemble_module_file py0 w0 ''2025-01-01 10:00'' ''Lang Chain'' 1 ''L'' ''E'' ''Q''))
     ''absolute_path'' = Inr (PStr ''/home/u/lessons/Lang Chain/module_1.md'')
   \<and> node_at (snd (assemble_module_file py0 w0 ''2025-01-01 10:00'' ''Lang Chain'' 1 ''L'' ''E'' ''Q''))
        [''home'', ''u'', ''lessons'', ''lang_chain'', ''module_1.md'']
      = Some (File (Text (module_content 1 ''L'' ''E'' ''Q'' ''2025-01-01 10:00'')))
   \<and> node_at (snd (assemble_module_file py0 w0 ''2025-01-01 10:00'' ''Lang Chain'' 1 ''L'' ''E'' ''Q''))
        [''home'', ''u'', ''lessons'', ''Lang Chain'', ''module_1.md''] = None"
proof -
  have fn: "module_filename 1 = ''module_1.md''"
    by (simp add: module_filename_def show_int_1)
  have s: "saveable py0 w0 ''Lang Chain'' (module_filename 1)"
    unfolding fn by (rule saveable_w0) (simp_all add: folder_name_lang_chain proper_name_def)
  have loc: "file_loc py0 w0 ''Lang Chain'' ''module_1.md''
      = [''home'', ''u'', ''lessons'', ''lang_chain'', ''module_1.md'']"
    by (simp add: file_loc_def folder_loc_def lessons_loc_def folder_name_lang_chain w0_def)
  have a: "render [''home'', ''u'', ''lessons'', ''lang_chain'', ''module_1.md'']
      = ''/home/u/lessons/lang_chain/module_1.md''"
    by (simp add: render_def)
  have j: "path_join (path_join ''lessons'' ''Lang Chain'') ''module_1.md''
      = ''lessons/Lang Chain/module_1.md''"
    by (simp add: path_join_def)
  have b: "abspath w0 ''lessons/Lang Chain/module_1.md''
      = Inr ''/home/u/lessons/Lang Chain/module_1.md''"
    by (simp add: abspath_def getcwd_def cwd_string_def is_dir_def node_at_def w0_def render_def
        path_join_def normpath_def Let_def)
  have n1: "node_at w0 [''home'', ''u'', ''lessons'', ''Lang Chain'', ''module_1.md''] = None"
    by (simp add: w0_def node_at_def)
  show ?thesis
    using assemble_ok [OF s, of "''2025-01-01 10:00''" "''L''" "''E''" "''Q''"] n1
    unfolding fn loc a j b
    by (simp add: node_at_put node_at_with_dir lessons_loc_def folder_loc_def
        folder_name_lang_chain)
qed

section \<open>Creating a tool folder\<close>

lemma ancestor_dir:
  "well_formed w \<Longrightarrow> node_at w (a @ b) \<noteq> None \<Longrightarrow> b \<noteq> [] \<Longrightarrow> is_dir w a"
proof (induction b rule: rev_induct)
  case Nil
  then show ?case by simp
next
  case (snoc x b)
  from snoc.prems(2) have "node_at w ((a @ b) @ [x]) \<noteq> None" by simp
  from orphan_free [OF snoc.prems(1) this] have d: "is_dir w (a @ b)" .
  show ?case
  proof (cases "b = []")
    case True
    with d show ?thesis by simp
  next
    case False
    from d have "node_at w (a @ b) \<noteq> None" by (simp add: is_dir_def)
    from snoc.IH [OF snoc.prems(1) this False] show ?thesis .
  qed
qed

lemma children_none:
  assumes "\<And>k. k \<noteq> [] \<Longrightarrow> butlast k = l \<Longrightarrow> node_at w k = None"
  shows "children w l = []"
proof -
  have "\<not> (k \<noteq> [] \<and> butlast k = l)" if "(k, n) \<in> set (nodes w)" for k n
  proof
    assume a: "k \<noteq> [] \<and> butlast k = l"
    with assms have "node_at w k = None" by blast
    with a have "map_of (nodes w) k = None" by (simp add: node_at_def)
    then have "k \<notin> fst ` set (nodes w)" by (simp add: map_of_eq_None_iff)
    with that show False by force
  qed
  then show ?thesis
    by (auto simp: children_def filter_empty_conv)
qed

lemma listdir_dir:
  "resolve w p = Inr l \<Longrightarrow> is_dir w l \<Longrightarrow> \<not> refused w Read l
     \<Longrightarrow> listdir w p = Inr (children w l)"
  by (simp add: listdir_def is_dir_def)

lemma listdir_ok_dir:
  "resolve w p = Inr l \<Longrightarrow> listdir w p = Inr files
     \<Longrightarrow> is_dir w l \<and> \<not> refused w Read l \<and> files = children w l"
  by (auto simp: listdir_def is_dir_def split: option.splits node.splits if_splits)

lemma path_exists_plainD:
  assumes "list_all proper_name l" "l \<noteq> []" "path_exists w (render l)"
  shows "resolve w (render l) = Inr l \<and> node_at w l \<noteq> None"
proof -
  from assms(2) obtain cs c where l: "l = cs @ [c]" by (cases l rule: rev_cases) auto
  from assms(3) obtain k where k: "resolve w (render l) = Inr k" "node_at w k \<noteq> None"
    by (auto simp: path_exists_def split: sum.splits)
  from resolve_renderD [of cs c w k] assms(1) k(1) l have "k = l" by simp
  with k show ?thesis by simp
qed

lemma prefix_exists:
  assumes "list_all proper_name (a @ b)" "a \<noteq> []" "b \<noteq> []"
    "resolve w (render (a @ b)) = Inr (a @ b)"
  shows "resolve w (render a) = Inr a \<and> is_dir w a"
proof -
  from assms(3) obtain bs c where b: "b = bs @ [c]" by (cases b rule: rev_cases) auto
  from assms(2) obtain as x where a: "a = as @ [x]" by (cases a rule: rev_cases) auto
  from resolve_renderD [of "a @ bs" c w "a @ b"] assms(1,4) b
  have d: "dirs_from w [] (a @ bs)" and n: "length (render (a @ b)) < path_max w"
    by simp_all
  from dirs_from_prefix [OF d] a have
    da: "dirs_from w [] as" "proper_name x" "length x \<le> name_max w" "is_dir w a"
    by (simp_all add: dirs_from_snoc)
  have "length (render a) < path_max w"
    using n by (simp add: render_append)
  with resolve_render [OF da(1,2,3)] a da(4) show ?thesis by simp
qed

text \<open>The two path strings of the folder functions, for a plain folder name.\<close>

lemma lessons_dir_plain:
  "list_all proper_name (cwd w) \<Longrightarrow> lessons_dir (cwd_string w) = render (lessons_loc w)"
  using cwd_string_join [OF _ proper_lessons, of w]
  by (simp add: lessons_dir_def lessons_loc_def)

lemma folder_path_plain:
  assumes "list_all proper_name (cwd w)" "plain_path (folder_name py t)"
  shows "folder_path py (cwd_string w) t = render (folder_loc py w t)"
proof -
  have "lessons_loc w \<noteq> []" "list_all proper_name (lessons_loc w)"
    using assms(1) proper_lessons by (simp_all add: lessons_loc_def)
  from render_join_path [OF this(2,1) assms(2)] show ?thesis
    by (simp add: folder_path_def lessons_dir_plain [OF assms(1)] folder_loc_def)
qed

lemma folder_loc_plain:
  assumes "list_all proper_name (cwd w)" "plain_path (folder_name py t)"
  shows "list_all proper_name (lessons_loc w @ split_sep (folder_name py t))"
    and "split_sep (folder_name py t) \<noteq> []" and "lessons_loc w \<noteq> []"
  using assms proper_lessons split_sep_nonempty
  by (simp_all add: lessons_loc_def plain_path_def)

lemma create_when_exists:
  assumes "list_all proper_name (cwd w)" "is_dir w (cwd w)" "plain_path (folder_name py t)"
    "path_exists w (folder_path py (cwd_string w) t)"
  shows "create_tool_folder py w t =
     (case listdir w (folder_path py (cwd_string w) t) of
        Inl e \<Rightarrow> (error_result py ''Failed to create folder: '' e, w)
      | Inr files \<Rightarrow>
          (PDict [(''status'', PStr ''exists''),
                  (''message'', PStr (''Folder '' @ [CHR 0x27] @ ''lessons/'' @ folder_name py t
                                      @ [CHR 0x27] @ '' already exists'')),
                  (''folder_path'', PStr (folder_path py (cwd_string w) t)),
                  (''existing_files'', PList (map PStr files))], w))"
    and "resolve w (folder_path py (cwd_string w) t) = Inr (folder_loc py w t)"
proof -
  note fp = folder_path_plain [OF assms(1,3)]
  note pl = folder_loc_plain [OF assms(1,3)]
  have F: "folder_loc py w t = lessons_loc w @ split_sep (folder_name py t)"
    by (simp add: folder_loc_def)
  from path_exists_plainD [of "folder_loc py w t" w] assms(4) pl
  have r: "resolve w (render (folder_loc py w t)) = Inr (folder_loc py w t)"
    by (simp add: fp F)
  from prefix_exists [OF pl(1,3,2)] r have "path_exists w (render (lessons_loc w))"
    by (simp add: F path_exists_def is_dir_def)
  then have e1: "path_exists w (lessons_dir (cwd_string w))"
    by (simp add: lessons_dir_plain [OF assms(1)])
  from assms(2) have g: "getcwd w = Inr (cwd_string w)" by (simp add: getcwd_def)
  from g e1 assms(4) show "create_tool_folder py w t =
     (case listdir w (folder_path py (cwd_string w) t) of
        Inl e \<Rightarrow> (error_result py ''Failed to create folder: '' e, w)
      | Inr files \<Rightarrow>
          (PDict [(''status'', PStr ''exists''),
                  (''message'', PStr (''Folder '' @ [CHR 0x27] @ ''lessons/'' @ folder_name py t
                                      @ [CHR 0x27] @ '' already exists'')),
                  (''folder_path'', PStr (folder_path py (cwd_string w) t)),
                  (''existing_files'', PList (map PStr files))], w))"
    by (simp add: create_tool_folder_def create_tool_folder_body_def split: sum.splits)
  from r show "resolve w (folder_path py (cwd_string w) t) = Inr (folder_loc py w t)"
    by (simp add: fp)
qed

text \<open>
  A first call on an absent folder that is not an error: what it returns and the world
  it leaves.
\<close>

lemma create_when_absent:
  assumes "well_formed w" "plain_path (folder_name py t)"
    "\<not> path_exists w (folder_path py (cwd_string w) t)"
    "status_of (fst (create_tool_folder py w t)) \<noteq> Some (PStr ''error'')"
  shows "\<exists>w'. create_tool_folder py w t =
           (PDict [(''status'', PStr ''created''),
                   (''message'', PStr (''Created new folder '' @ [CHR 0x27] @ ''lessons/''
                                       @ folder_name py t @ [CHR 0x27])),
                   (''folder_path'', PStr (folder_path py (cwd_string w) t)),
                   (''existing_files'', PList [])], w')
         \<and> cwd w' = cwd w \<and> refused w' = refused w \<and> is_dir w' (cwd w)
         \<and> resolve w' (folder_path py (cwd_string w) t) = Inr (folder_loc py w t)
         \<and> is_dir w' (folder_loc py w t)
         \<and> children w' (folder_loc py w t) = []"
proof -
  let ?L = "lessons_loc w" and ?F = "folder_loc py w t"
  let ?ld = "lessons_dir (cwd_string w)" and ?fp = "folder_path py (cwd_string w) t"
  note cp = dirs_from_proper [OF wf_cwd [OF assms(1)]]
  note fp = folder_path_plain [OF cp assms(2)]
  note ld = lessons_dir_plain [OF cp]
  note pl = folder_loc_plain [OF cp assms(2)]
  note pm = wf_path_max [OF assms(1)]
  have F: "?F = ?L @ split_sep (folder_name py t)"
    by (simp add: folder_loc_def)
  have pL: "list_all proper_name ?L" using pl(1) by simp
  have lenF: "length ?L < length ?F" using pl(2) by (simp add: F)
  from getcwd_ok [OF assms(1)] have g: "getcwd w = Inr (cwd_string w)" .
  from dirs_from_end [OF wf_cwd [OF assms(1)]] have dc: "is_dir w (cwd w)" by simp
  obtain r1 w1 where s1: "(if \<not> path_exists w ?ld then makedirs w ?ld else (Inr (), w)) = (r1, w1)"
    by (cases "if \<not> path_exists w ?ld then makedirs w ?ld else (Inr (), w)") auto
  have r1: "r1 = Inr ()"
  proof (cases r1)
    case (Inl e)
    with g s1 have "fst (create_tool_folder py w t) = error_result py ''Failed to create folder: '' e"
      by (simp add: create_tool_folder_def create_tool_folder_body_def)
    with assms(4) show ?thesis by simp
  next
    case (Inr u)
    then show ?thesis by simp
  qed
  have same1: "w1 = w \<or> (makedirs w (render ?L) = (Inr (), w1) \<and> node_at w ?L = None)"
  proof (cases "path_exists w ?ld")
    case True
    with s1 show ?thesis by simp
  next
    case False
    with s1 r1 have m: "makedirs w (render ?L) = (Inr (), w1)" by (simp add: ld)
    from makedirs_plain_ok(1) [OF pL pl(3) pm m] m show ?thesis by simp
  qed
  have env1: "cwd w1 = cwd w" "refused w1 = refused w" "name_max w1 = name_max w"
        "path_max w1 = path_max w"
    using same1 makedirs_plain_env [OF pL pl(3) pm, of "Inr ()" w1] by auto
  have keep1: "node_at w1 k = Some n" if "node_at w k = Some n" for k n
    using same1 that makedirs_plain_keep [OF pL pl(3) pm, of "Inr ()" w1 k n] by auto
  have new1: "\<exists>j. k = take j ?L" if "node_at w k = None" "node_at w1 k \<noteq> None" for k
    using same1 that makedirs_plain_new(2) [OF pL pl(3) pm, of "Inr ()" w1 k] by auto
  have old1: "node_at w k \<noteq> None" if "node_at w1 k \<noteq> None" "length ?L < length k" for k
  proof (rule ccontr)
    assume "\<not> node_at w k \<noteq> None"
    then have "node_at w k = None" by simp
    from new1 [OF this that(1)] obtain j where "k = take j ?L" by blast
    then have "length k \<le> length ?L" by simp
    with that(2) show False by simp
  qed
  have ne1: "\<not> path_exists w1 ?fp"
  proof
    assume "path_exists w1 ?fp"
    with path_exists_plainD [of ?F w1] pl have
      rF: "resolve w1 (render ?F) = Inr ?F" and nF: "node_at w1 ?F \<noteq> None"
      by (simp_all add: fp F)
    from old1 [OF nF lenF] have oF: "node_at w ?F \<noteq> None" .
    from same1 show False
    proof
      assume "w1 = w"
      with \<open>path_exists w1 ?fp\<close> assms(3) show False by simp
    next
      assume "makedirs w (render ?L) = (Inr (), w1) \<and> node_at w ?L = None"
      then have "node_at w ?L = None" by simp
      moreover from ancestor_dir [OF assms(1), of ?L "split_sep (folder_name py t)"] oF pl(2)
      have "is_dir w ?L" by (simp add: F)
      ultimately show False by (simp add: is_dir_def)
    qed
  qed
  obtain r2 w2 where s2: "makedirs w1 ?fp = (r2, w2)"
    by (cases "makedirs w1 ?fp") auto
  have r2: "r2 = Inr ()"
  proof (cases r2)
    case (Inl e)
    with g s1 r1 ne1 s2
    have "fst (create_tool_folder py w t) = error_result py ''Failed to create folder: '' e"
      by (simp add: create_tool_folder_def create_tool_folder_body_def)
    with assms(4) show ?thesis by simp
  next
    case (Inr u)
    then show ?thesis by simp
  qed
  from g s1 r1 ne1 s2 r2 have res: "create_tool_folder py w t =
           (PDict [(''status'', PStr ''created''),
                   (''message'', PStr (''Created new folder '' @ [CHR 0x27] @ ''lessons/''
                                       @ folder_name py t @ [CHR 0x27])),
                   (''folder_path'', PStr ?fp),
                   (''existing_files'', PList [])], w2)"
    by (simp add: create_tool_folder_def create_tool_folder_body_def)
  have pF: "list_all proper_name ?F" "?F \<noteq> []" using pl by (simp_all add: F)
  from s2 r2 have m2: "makedirs w1 (render ?F) = (Inr (), w2)" by (simp add: fp)
  from pm env1(4) have pm1: "1 < path_max w1" by simp
  note env2 = makedirs_plain_env(1,2) [OF pF pm1 m2]
  note keep2 = makedirs_plain_keep [OF pF pm1 m2]
  note new2 = makedirs_plain_new(2) [OF pF pm1 m2]
  note ok2 = makedirs_plain_ok [OF pF pm1 m2]
  from dc have "node_at w (cwd w) = Some Dir" by (simp add: is_dir_def)
  from keep2 [OF keep1 [OF this]] have dc2: "is_dir w2 (cwd w)" by (simp add: is_dir_def)
  have ch: "children w2 ?F = []"
  proof (rule children_none)
    fix k assume k: "k \<noteq> []" "butlast k = ?F"
    then have lk: "length k = Suc (length ?F)" by (cases k rule: rev_cases) auto
    show "node_at w2 k = None"
    proof (rule ccontr)
      assume n2: "node_at w2 k \<noteq> None"
      show False
      proof (cases "node_at w1 k = None")
        case True
        from new2 [OF True n2] obtain j where "k = take j ?F" by blast
        then have "length k \<le> length ?F" by simp
        with lk show False by simp
      next
        case False
        from lk lenF have "length ?L < length k" by simp
        from old1 [OF False this] have "node_at w k \<noteq> None" .
        moreover have "?F @ [last k] = k"
          using append_butlast_last_id [OF k(1)] k(2) by simp
        ultimately have "node_at w (?F @ [last k]) \<noteq> None" by simp
        from orphan_free [OF assms(1) this] have "node_at w ?F = Some Dir"
          by (simp add: is_dir_def)
        from keep1 [OF this] ok2(1) show False by simp
      qed
    qed
  qed
  have "cwd w2 = cwd w" "refused w2 = refused w"
    using env1 env2 by simp_all
  with res dc2 ok2(2,3) ch show ?thesis
    unfolding fp by (intro exI [of _ w2] conjI)
qed

lemma folder_name_empty: "folder_name py0 '''' = ''''"
  by (simp add: folder_name_def str_lower_def replace_char_def)

lemma getcwd_w0: "getcwd w0 = Inr ''/home/u''"
  by (simp add: getcwd_def cwd_string_def is_dir_def node_at_def w0_def render_def)

lemma cwd_string_w0: "cwd_string w0 = ''/home/u''"
  by (simp add: cwd_string_def w0_def render_def)

lemma lessons_w0:
  "\<not> path_exists w0 ''/home/u/lessons''"
  "makedirs w0 ''/home/u/lessons'' = (Inr (), put_node w0 [''home'', ''u'', ''lessons''] Dir)"
proof -
  show "\<not> path_exists w0 ''/home/u/lessons''"
    by (simp add: path_exists_def resolve_def path_error_def locate_def w0_def node_at_def)
  have "makedirs w0 (render ([''home'', ''u''] @ [''lessons'']))
      = (Inr (), put_node w0 ([''home'', ''u''] @ [''lessons'']) Dir)"
    by (rule makedirs_one)
       (simp_all add: w0_def is_dir_def node_at_def proper_name_def render_def)
  then show "makedirs w0 ''/home/u/lessons''
      = (Inr (), put_node w0 [''home'', ''u'', ''lessons''] Dir)"
    by (simp add: render_def)
qed

text \<open>
  Counterexample to claim C8 as stated: for the empty tool name, in a working directory
  with no \<^verbatim>\<open>lessons\<close> directory, the folder path \<^verbatim>\<open>lessons/\<close> does not exist before the
  call, and the first call returns the status \<^verbatim>\<open>exists\<close>: the lessons directory is made
  first, and the folder path then names it.
\<close>

theorem empty_tool_name_reports_exists:
  "\<not> path_exists w0 (folder_path py0 (cwd_string w0) '''')
   \<and> status_of (fst (create_tool_folder py0 w0 '''')) = Some (PStr ''exists'')"
proof -
  have fp: "folder_path py0 ''/home/u'' '''' = ''/home/u/lessons/''"
    by (simp add: folder_path_def folder_name_empty lessons_dir_def path_join_def)
  have ld: "lessons_dir ''/home/u'' = ''/home/u/lessons''"
    by (simp add: lessons_dir_def path_join_def)
  have ne: "\<not> path_exists w0 ''/home/u/lessons/''"
    by (simp add: path_exists_def resolve_def path_error_def locate_def w0_def node_at_def)
  let ?w1 = "put_node w0 [''home'', ''u'', ''lessons''] Dir"
  have w1e: "?w1 = \<lparr>nodes = [([''home''], Dir), ([''home'', ''u''], Dir),
                            ([''home'', ''u'', ''lessons''], Dir)],
                   cwd = [''home'', ''u''], refused = (\<lambda>a l. False),
                   name_max = 255, path_max = 4096\<rparr>"
    by (simp add: put_node_def w0_def)
  have ex: "path_exists ?w1 ''/home/u/lessons/''"
    unfolding w1e by (simp add: path_exists_def resolve_def path_error_def locate_def node_at_def)
  have ls: "listdir ?w1 ''/home/u/lessons/'' = Inr []"
    unfolding w1e
    by (simp add: listdir_def resolve_def path_error_def locate_def node_at_def children_def)
  have "status_of (fst (create_tool_folder py0 w0 '''')) = Some (PStr ''exists'')"
    unfolding create_tool_folder_def create_tool_folder_body_def getcwd_w0
    by (simp add: ld fp lessons_w0 ex ls)
  with ne fp show ?thesis by (simp add: cwd_string_w0)
qed

text \<open>
  Claim C8, amended. Let the tool's folder name be a path of plain names, in a world
  whose entries lie in directories that exist. When the folder exists as a directory
  that may be listed, the call returns the status \<^verbatim>\<open>exists\<close>, leaves the world as it
  was and reports the entries of the folder. When the folder is absent, a call that does
  not return the status \<^verbatim>\<open>error\<close> returns \<^verbatim>\<open>created\<close> with an empty file list and
  the folder exists afterwards; a second call then returns \<^verbatim>\<open>exists\<close> with an empty
  file list and changes nothing, provided the folder may be listed.
\<close>

theorem create_tool_folder_twice:
  assumes "well_formed w"
    and "plain_path (folder_name py tool_name)"
  shows "(path_exists w (folder_path py (cwd_string w) tool_name)
            \<and> is_dir w (folder_loc py w tool_name)
            \<and> \<not> refused w Read (folder_loc py w tool_name) \<longrightarrow>
            snd (create_tool_folder py w tool_name) = w
            \<and> status_of (fst (create_tool_folder py w tool_name)) = Some (PStr ''exists'')
            \<and> getitem (fst (create_tool_folder py w tool_name)) ''existing_files''
                = Inr (PList (map PStr (children w (folder_loc py w tool_name)))))
       \<and> (\<not> path_exists w (folder_path py (cwd_string w) tool_name)
            \<and> status_of (fst (create_tool_folder py w tool_name)) \<noteq> Some (PStr ''error'') \<longrightarrow>
            status_of (fst (create_tool_folder py w tool_name)) = Some (PStr ''created'')
            \<and> getitem (fst (create_tool_folder py w tool_name)) ''existing_files''
                = Inr (PList [])
            \<and> path_exists (snd (create_tool_folder py w tool_name))
                (folder_path py (cwd_string w) tool_name)
            \<and> (\<not> refused w Read (folder_loc py w tool_name) \<longrightarrow>
                 snd (create_tool_folder py (snd (create_tool_folder py w tool_name)) tool_name)
                   = snd (create_tool_folder py w tool_name)
                 \<and> status_of
                     (fst (create_tool_folder py (snd (create_tool_folder py w tool_name))
                             tool_name))
                   = Some (PStr ''exists'')
                 \<and> getitem
                     (fst (create_tool_folder py (snd (create_tool_folder py w tool_name))
                             tool_name))
                     ''existing_files''
                   = Inr (PList [])))"
proof (intro conjI impI)
  note cp = dirs_from_proper [OF wf_cwd [OF assms(1)]]
  from dirs_from_end [OF wf_cwd [OF assms(1)]] have dc: "is_dir w (cwd w)" by simp
  assume a: "path_exists w (folder_path py (cwd_string w) tool_name)
            \<and> is_dir w (folder_loc py w tool_name)
            \<and> \<not> refused w Read (folder_loc py w tool_name)"
  note c = create_when_exists [OF cp dc assms(2)]
  from a have e: "path_exists w (folder_path py (cwd_string w) tool_name)" by simp
  from listdir_dir [OF c(2) [OF e]] a
  have l: "listdir w (folder_path py (cwd_string w) tool_name)
      = Inr (children w (folder_loc py w tool_name))" by simp
  show "snd (create_tool_folder py w tool_name) = w"
    by (simp add: c(1) [OF e] l)
  show "status_of (fst (create_tool_folder py w tool_name)) = Some (PStr ''exists'')"
    by (simp add: c(1) [OF e] l)
  show "getitem (fst (create_tool_folder py w tool_name)) ''existing_files''
                = Inr (PList (map PStr (children w (folder_loc py w tool_name))))"
    by (simp add: c(1) [OF e] l getitem_def)
next
  note cp = dirs_from_proper [OF wf_cwd [OF assms(1)]]
  assume a: "\<not> path_exists w (folder_path py (cwd_string w) tool_name)
            \<and> status_of (fst (create_tool_folder py w tool_name)) \<noteq> Some (PStr ''error'')"
  then have ne: "\<not> path_exists w (folder_path py (cwd_string w) tool_name)"
    and ok: "status_of (fst (create_tool_folder py w tool_name)) \<noteq> Some (PStr ''error'')"
    by simp_all
  from create_when_absent [OF assms ne ok] obtain w' where
    c: "create_tool_folder py w tool_name =
           (PDict [(''status'', PStr ''created''),
                   (''message'', PStr (''Created new folder '' @ [CHR 0x27] @ ''lessons/''
                                       @ folder_name py tool_name @ [CHR 0x27])),
                   (''folder_path'', PStr (folder_path py (cwd_string w) tool_name)),
                   (''existing_files'', PList [])], w')"
    and env: "cwd w' = cwd w" "refused w' = refused w" and dc': "is_dir w' (cwd w)"
    and r: "resolve w' (folder_path py (cwd_string w) tool_name) = Inr (folder_loc py w tool_name)"
    and d: "is_dir w' (folder_loc py w tool_name)"
    and ch: "children w' (folder_loc py w tool_name) = []"
    by blast
  have cs: "cwd_string w' = cwd_string w" using env(1) by (simp add: cwd_string_def)
  have ex: "path_exists w' (folder_path py (cwd_string w) tool_name)"
    using r d by (simp add: path_exists_def is_dir_def)
  show "status_of (fst (create_tool_folder py w tool_name)) = Some (PStr ''created'')"
    by (simp add: c)
  show "getitem (fst (create_tool_folder py w tool_name)) ''existing_files'' = Inr (PList [])"
    by (simp add: c getitem_def)
  show "path_exists (snd (create_tool_folder py w tool_name))
                (folder_path py (cwd_string w) tool_name)"
    by (simp add: c ex)
  assume p: "\<not> refused w Read (folder_loc py w tool_name)"
  have e: "create_tool_folder py w' tool_name =
     (PDict [(''status'', PStr ''exists''),
             (''message'', PStr (''Folder '' @ [CHR 0x27] @ ''lessons/'' @ folder_name py tool_name
                                 @ [CHR 0x27] @ '' already exists'')),
             (''folder_path'', PStr (folder_path py (cwd_string w) tool_name)),
             (''existing_files'', PList [])], w')"
  proof -
    have cp': "list_all proper_name (cwd w')" using cp env(1) by simp
    have dc'': "is_dir w' (cwd w')" using dc' env(1) by simp
    have ex': "path_exists w' (folder_path py (cwd_string w') tool_name)"
      using ex cs by simp
    have "listdir w' (folder_path py (cwd_string w) tool_name)
        = Inr (children w' (folder_loc py w tool_name))"
      by (rule listdir_dir [OF r d]) (use p env(2) in simp)
    with create_when_exists(1) [OF cp' dc'' assms(2) ex'] ch show ?thesis
      by (simp add: cs)
  qed
  show "snd (create_tool_folder py (snd (create_tool_folder py w tool_name)) tool_name)
                   = snd (create_tool_folder py w tool_name)"
    by (simp add: c e)
  show "status_of
                     (fst (create_tool_folder py (snd (create_tool_folder py w tool_name))
                             tool_name))
                   = Some (PStr ''exists'')"
    by (simp add: c e)
  show "getitem
                     (fst (create_tool_folder py (snd (create_tool_folder py w tool_name))
                             tool_name))
                     ''existing_files''
                   = Inr (PList [])"
    by (simp add: c e getitem_def)
qed
lemma well_formed_w_demo: "well_formed w_demo"
  by (simp add: well_formed_def w_demo_def is_dir_def node_at_def proper_name_def cwd_string_def
      render_def)

lemma folder_name_cicd: "folder_name py0 ''CI/CD'' = ''ci/cd''"
  by (simp add: folder_name_def str_lower_def is_ascii_def lower_char_def replace_char_def)

lemma create_cicd_w0:
  "status_of (fst (create_tool_folder py0 w0 ''CI/CD'')) = Some (PStr ''created'')"
proof -
  let ?L = "[''home'', ''u'', ''lessons'']"
  let ?w1 = "put_node w0 ?L Dir"
  have fp: "folder_path py0 ''/home/u'' ''CI/CD'' = ''/home/u/lessons/ci/cd''"
    by (simp add: folder_path_def folder_name_cicd lessons_dir_def path_join_def)
  have ld: "lessons_dir ''/home/u'' = ''/home/u/lessons''"
    by (simp add: lessons_dir_def path_join_def)
  have w1e: "?w1 = \<lparr>nodes = [([''home''], Dir), ([''home'', ''u''], Dir),
                            ([''home'', ''u'', ''lessons''], Dir)],
                   cwd = [''home'', ''u''], refused = (\<lambda>a l. False),
                   name_max = 255, path_max = 4096\<rparr>"
    by (simp add: put_node_def w0_def)
  have ne: "\<not> path_exists ?w1 ''/home/u/lessons/ci/cd''"
    unfolding w1e by (simp add: path_exists_def resolve_def path_error_def locate_def node_at_def)
  have "makedirs ?w1 (render (?L @ [''ci'', ''cd'']))
      = (Inr (), put_node (put_node ?w1 (?L @ [''ci'']) Dir) (?L @ [''ci'', ''cd'']) Dir)"
    by (rule makedirs_two) (simp_all add: w1e is_dir_def node_at_def proper_name_def render_def)
  then have m: "makedirs ?w1 ''/home/u/lessons/ci/cd''
      = (Inr (), put_node (put_node ?w1 (?L @ [''ci'']) Dir) (?L @ [''ci'', ''cd'']) Dir)"
    by (simp add: render_def)
  show ?thesis
    unfolding create_tool_folder_def create_tool_folder_body_def getcwd_w0
    by (simp add: ld fp lessons_w0 ne m)
qed

theorem create_tool_folder_twice_witness:
  "well_formed w_demo
   \<and> plain_path (folder_name py0 ''Demo'')
   \<and> path_exists w_demo (folder_path py0 (cwd_string w_demo) ''Demo'')
   \<and> is_dir w_demo (folder_loc py0 w_demo ''Demo'')
   \<and> \<not> refused w_demo Read (folder_loc py0 w_demo ''Demo'')
   \<and> snd (create_tool_folder py0 w_demo ''Demo'') = w_demo
   \<and> status_of (fst (create_tool_folder py0 w_demo ''Demo'')) = Some (PStr ''exists'')
   \<and> getitem (fst (create_tool_folder py0 w_demo ''Demo'')) ''existing_files''
       = Inr (PList [PStr ''notes.md''])
   \<and> well_formed w0
   \<and> plain_path (folder_name py0 ''CI/CD'')
   \<and> \<not> path_exists w0 (folder_path py0 (cwd_string w0) ''CI/CD'')
   \<and> status_of (fst (create_tool_folder py0 w0 ''CI/CD'')) \<noteq> Some (PStr ''error'')
   \<and> \<not> refused w0 Read (folder_loc py0 w0 ''CI/CD'')
   \<and> status_of (fst (create_tool_folder py0 w0 ''CI/CD'')) = Some (PStr ''created'')
   \<and> getitem (fst (create_tool_folder py0 w0 ''CI/CD'')) ''existing_files'' = Inr (PList [])
   \<and> path_exists (snd (create_tool_folder py0 w0 ''CI/CD''))
        (folder_path py0 (cwd_string w0) ''CI/CD'')
   \<and> snd (create_tool_folder py0 (snd (create_tool_folder py0 w0 ''CI/CD'')) ''CI/CD'')
       = snd (create_tool_folder py0 w0 ''CI/CD'')
   \<and> status_of
        (fst (create_tool_folder py0 (snd (create_tool_folder py0 w0 ''CI/CD'')) ''CI/CD''))
       = Some (PStr ''exists'')
   \<and> getitem
        (fst (create_tool_folder py0 (snd (create_tool_folder py0 w0 ''CI/CD'')) ''CI/CD''))
        ''existing_files''
       = Inr (PList [])"
proof -
  have a1: "plain_path (folder_name py0 ''Demo'')"
    by (simp add: folder_name_demo plain_path_def proper_name_def)
  have a2: "path_exists w_demo (folder_path py0 (cwd_string w_demo) ''Demo'')"
    by (simp add: folder_path_def folder_name_demo lessons_dir_def path_join_def cwd_string_def
        render_def path_exists_def resolve_def path_error_def locate_def w_demo_def node_at_def)
  have a3: "is_dir w_demo (folder_loc py0 w_demo ''Demo'')"
    by (simp add: folder_loc_def lessons_loc_def folder_name_demo is_dir_def)
       (simp add: w_demo_def node_at_def)
  have a4: "\<not> refused w_demo Read (folder_loc py0 w_demo ''Demo'')"
    by (simp add: w_demo_def)
  have ch: "children w_demo (folder_loc py0 w_demo ''Demo'') = [''notes.md'']"
    by (simp add: folder_loc_def lessons_loc_def folder_name_demo)
       (simp add: children_def w_demo_def)
  have b1: "plain_path (folder_name py0 ''CI/CD'')"
    by (simp add: folder_name_cicd plain_path_def proper_name_def)
  have b2: "\<not> path_exists w0 (folder_path py0 (cwd_string w0) ''CI/CD'')"
    by (simp add: folder_path_def folder_name_cicd lessons_dir_def path_join_def cwd_string_def
        render_def path_exists_def resolve_def path_error_def locate_def w0_def node_at_def)
  have b3: "status_of (fst (create_tool_folder py0 w0 ''CI/CD'')) \<noteq> Some (PStr ''error'')"
    by (simp add: create_cicd_w0)
  have b4: "\<not> refused w0 Read (folder_loc py0 w0 ''CI/CD'')"
    by simp
  from create_tool_folder_twice [OF well_formed_w_demo a1] a2 a3 a4 ch
  have c1: "snd (create_tool_folder py0 w_demo ''Demo'') = w_demo
     \<and> status_of (fst (create_tool_folder py0 w_demo ''Demo'')) = Some (PStr ''exists'')
     \<and> getitem (fst (create_tool_folder py0 w_demo ''Demo'')) ''existing_files''
         = Inr (PList [PStr ''notes.md''])"
    by simp
  from create_tool_folder_twice [OF well_formed_w0 b1] b2 b3 b4
  have c2: "status_of (fst (create_tool_folder py0 w0 ''CI/CD'')) = Some (PStr ''created'')
   \<and> getitem (fst (create_tool_folder py0 w0 ''CI/CD'')) ''existing_files'' = Inr (PList [])
   \<and> path_exists (snd (create_tool_folder py0 w0 ''CI/CD''))
        (folder_path py0 (cwd_string w0) ''CI/CD'')
   \<and> snd (create_tool_folder py0 (snd (create_tool_folder py0 w0 ''CI/CD'')) ''CI/CD'')
       = snd (create_tool_folder py0 w0 ''CI/CD'')
   \<and> status_of
        (fst (create_tool_folder py0 (snd (create_tool_folder py0 w0 ''CI/CD'')) ''CI/CD''))
       = Some (PStr ''exists'')
   \<and> getitem
        (fst (create_tool_folder py0 (snd (create_tool_folder py0 w0 ''CI/CD'')) ''CI/CD''))
        ''existing_files''
       = Inr (PList [])"
    by blast
  from well_formed_w_demo well_formed_w0 a1 a2 a3 a4 b1 b2 b3 b4 c1 c2 show ?thesis by blast
qed

end
